theory Spec2Isabelle
  imports Complex_Main "HOL-Library.AList"
begin

section \<open>Python values\<close>

text \<open>
  The values that flow through \<^verbatim>\<open>geocode_hospitals_csv.py\<close>: CSV cells (text, or
  \<^verbatim>\<open>None\<close> for a short record), decoded JSON, and the numbers the script stores.
  A Python \<^verbatim>\<open>str\<close> is a list of code points below 256; a \<^verbatim>\<open>float\<close> is
  abstracted to the rational it denotes (no NaN, no infinities). A \<^verbatim>\<open>dict\<close> is an
  association list in insertion order, read at the first entry of a key.
\<close>

datatype pyval =
    VNone
  | VBool bool
  | VInt int
  | VNum rat
  | VStr string
  | VList "pyval list"
  | VDict "(string \<times> pyval) list"

datatype error =
    RequestException
  | HTTPError
  | JSONDecodeError
  | AttributeError
  | TypeError
  | KeyError
  | IndexError
  | ValueError

text \<open>
  The built-in conversions whose results depend on binary floating point are parameters
  of the model: \<^verbatim>\<open>str\<close> on numbers and containers, \<^verbatim>\<open>float\<close> on a string and on
  an integer (\<open>None\<close> when it raises), and two-argument \<^verbatim>\<open>round\<close> (\<open>None\<close> when it
  raises).
\<close>

record builtins =
  str_repr :: "pyval \<Rightarrow> string"
  float_str :: "string \<Rightarrow> rat option"
  float_int :: "int \<Rightarrow> rat option"
  round_float :: "rat \<Rightarrow> int \<Rightarrow> rat option"

fun truthy :: "pyval \<Rightarrow> bool" where
  "truthy VNone = False"
| "truthy (VBool b) = b"
| "truthy (VInt n) = (n \<noteq> 0)"
| "truthy (VNum q) = (q \<noteq> 0)"
| "truthy (VStr s) = (s \<noteq> [])"
| "truthy (VList xs) = (xs \<noteq> [])"
| "truthy (VDict kvs) = (kvs \<noteq> [])"

definition py_or :: "pyval \<Rightarrow> pyval \<Rightarrow> pyval" where
  "py_or a b = (if truthy a then a else b)"

fun py_str :: "builtins \<Rightarrow> pyval \<Rightarrow> string" where
  "py_str B (VStr s) = s"
| "py_str B VNone = ''None''"
| "py_str B (VBool b) = (if b then ''True'' else ''False'')"
| "py_str B v = str_repr B v"

fun py_float :: "builtins \<Rightarrow> pyval \<Rightarrow> rat option" where
  "py_float B (VNum q) = Some q"
| "py_float B (VInt n) = float_int B n"
| "py_float B (VBool b) = Some (if b then 1 else 0)"
| "py_float B (VStr s) = float_str B s"
| "py_float B v = None"

text \<open>\<^verbatim>\<open>str.isspace\<close> on the code points below 256, and \<^verbatim>\<open>str.strip()\<close>.\<close>

definition is_space :: "char \<Rightarrow> bool" where
  "is_space c = (let n = (of_char c :: nat) in
     (9 \<le> n \<and> n \<le> 13) \<or> (28 \<le> n \<and> n \<le> 32) \<or> n = 133 \<or> n = 160)"

definition strip :: "string \<Rightarrow> string" where
  "strip s = rev (dropWhile is_space (rev (dropWhile is_space s)))"

section \<open>Rows and the address builders\<close>

type_synonym row = "(string \<times> pyval) list"

definition dict_get :: "row \<Rightarrow> string \<Rightarrow> pyval" where
  "dict_get r k = (case map_of r k of None \<Rightarrow> VNone | Some v \<Rightarrow> v)"

definition dict_get_default :: "row \<Rightarrow> string \<Rightarrow> pyval \<Rightarrow> pyval" where
  "dict_get_default r k d = (case map_of r k of None \<Rightarrow> d | Some v \<Rightarrow> v)"

definition dict_set :: "row \<Rightarrow> string \<Rightarrow> pyval \<Rightarrow> row" where
  "dict_set r k v = AList.update k v r"

definition STREET_COL :: string where "STREET_COL = ''Street_Address''"
definition CITY_COL :: string where "CITY_COL = ''City''"
definition STATE_COL :: string where "STATE_COL = ''State''"
definition ZIP_COL :: string where "ZIP_COL = ''ZIP_Code''"
definition HOSP_COL :: string where "HOSP_COL = ''Hospital_Name''"

fun join_with :: "string \<Rightarrow> string list \<Rightarrow> string" where
  "join_with sep [] = []"
| "join_with sep [p] = p"
| "join_with sep (p # q # ps) = p @ sep @ join_with sep (q # ps)"

definition join_nonempty :: "string list \<Rightarrow> string" where
  "join_nonempty parts = join_with '', '' (filter (\<lambda>p. p \<noteq> []) parts)"

definition field :: "builtins \<Rightarrow> row \<Rightarrow> string \<Rightarrow> string" where
  "field B r col = strip (py_str B (dict_get_default r col (VStr [])))"

definition build_primary_address :: "builtins \<Rightarrow> row \<Rightarrow> string" where
  "build_primary_address B r =
     join_nonempty [field B r STREET_COL, field B r CITY_COL, field B r STATE_COL, field B r ZIP_COL]"

definition build_hospital_address :: "builtins \<Rightarrow> row \<Rightarrow> string" where
  "build_hospital_address B r =
     join_nonempty [field B r HOSP_COL, field B r CITY_COL, field B r STATE_COL, field B r ZIP_COL]"

definition build_city_address :: "builtins \<Rightarrow> row \<Rightarrow> string" where
  "build_city_address B r =
     join_nonempty [field B r CITY_COL, field B r STATE_COL, field B r ZIP_COL]"

section \<open>The single-address lookup\<close>

text \<open>
  The geocoding service is the environment: what the \<open>n\<close>-th request of a run, for a
  given address, comes back with. The requests issued so far are kept as a list, newest
  last.
\<close>

datatype response =
    Transport_Failure
  | Status_Failure
  | Decode_Failure
  | Body pyval

type_synonym service = "nat \<Rightarrow> string \<Rightarrow> response"

type_synonym geo = "pyval \<times> pyval \<times> pyval"

definition absent :: geo where
  "absent = (VNone, VNone, VNone)"

fun get_method :: "pyval \<Rightarrow> string \<Rightarrow> error + pyval" where
  "get_method (VDict kvs) k = Inr (dict_get kvs k)"
| "get_method v k = Inl AttributeError"

fun index0 :: "pyval \<Rightarrow> error + pyval" where
  "index0 (VList (x # xs)) = Inr x"
| "index0 (VList []) = Inl IndexError"
| "index0 (VStr (c # cs)) = Inr (VStr [c])"
| "index0 (VStr []) = Inl IndexError"
| "index0 (VDict kvs) = Inl KeyError"
| "index0 v = Inl TypeError"

definition bind :: "error + 'a \<Rightarrow> ('a \<Rightarrow> error + 'b) \<Rightarrow> error + 'b" where
  "bind m f = (case m of Inl e \<Rightarrow> Inl e | Inr x \<Rightarrow> f x)"

definition candidate :: "pyval \<Rightarrow> error + geo" where
  "candidate t =
     bind (get_method t ''coordinates'') (\<lambda>c.
       bind (get_method (py_or c (VDict [])) ''x'') (\<lambda>lon.
         bind (get_method (py_or c (VDict [])) ''y'') (\<lambda>lat.
           bind (get_method t ''tigerLine'') (\<lambda>tl.
             bind (get_method (py_or tl (VDict [])) ''side'') (\<lambda>conf.
               Inr (lat, lon, conf))))))"

definition address_matches :: "pyval \<Rightarrow> error + pyval" where
  "address_matches body =
     bind (get_method (py_or body (VDict [])) ''result'') (\<lambda>res.
       bind (get_method (py_or res (VDict [])) ''addressMatches'') (\<lambda>am.
         Inr (py_or am (VList []))))"

definition parse_matches :: "pyval \<Rightarrow> error + geo" where
  "parse_matches body =
     bind (address_matches body) (\<lambda>matches.
       if \<not> truthy matches then Inr absent
       else bind (index0 matches) candidate)"

definition census_geocode :: "service \<Rightarrow> string list \<Rightarrow> string \<Rightarrow> error + (geo \<times> string list)" where
  "census_geocode net reqs address =
     (if address = [] then Inr (absent, reqs)
      else
        (case net (length reqs) address of
           Transport_Failure \<Rightarrow> Inl RequestException
         | Status_Failure \<Rightarrow> Inl HTTPError
         | Decode_Failure \<Rightarrow> Inl JSONDecodeError
         | Body body \<Rightarrow> bind (parse_matches body) (\<lambda>g. Inr (g, reqs @ [address]))))"

section \<open>Resolving one row\<close>

definition matched :: "geo \<Rightarrow> bool" where
  "matched g = (case g of (lat, lon, conf) \<Rightarrow> lat \<noteq> VNone \<and> lon \<noteq> VNone)"

text \<open>Attempt 2 (hospital name), entered after attempt 1 came back without a match.\<close>

definition attempt_hospital ::
  "builtins \<Rightarrow> service \<Rightarrow> row \<Rightarrow> string \<Rightarrow> geo \<Rightarrow> pyval \<Rightarrow> string list
     \<Rightarrow> error + (geo \<times> pyval \<times> string list)" where
  "attempt_hospital B net r primary_addr g source reqs =
     (let hosp_addr = build_hospital_address B r in
      if hosp_addr \<noteq> [] \<and> hosp_addr \<noteq> primary_addr then
        bind (census_geocode net reqs hosp_addr) (\<lambda>(g2, reqs2).
          Inr (g2, if matched g2 then VStr ''census_hospital'' else source, reqs2))
      else Inr (g, source, reqs))"

text \<open>Attempt 3 (city centroid), guarded by the test that a coordinate is still None.\<close>

definition attempt_city ::
  "builtins \<Rightarrow> service \<Rightarrow> row \<Rightarrow> geo \<Rightarrow> pyval \<Rightarrow> string list
     \<Rightarrow> error + (geo \<times> pyval \<times> string list)" where
  "attempt_city B net r g source reqs =
     (if \<not> matched g then
        (let city_addr = build_city_address B r in
         if city_addr \<noteq> [] then
           bind (census_geocode net reqs city_addr) (\<lambda>(g3, reqs3).
             Inr (g3, if matched g3 then VStr ''census_city'' else source, reqs3))
         else Inr (g, source, reqs))
      else Inr (g, source, reqs))"

definition lookup_chain ::
  "builtins \<Rightarrow> service \<Rightarrow> row \<Rightarrow> string \<Rightarrow> pyval \<Rightarrow> string list
     \<Rightarrow> error + (geo \<times> pyval \<times> string list)" where
  "lookup_chain B net r primary_addr source reqs =
     bind (census_geocode net reqs primary_addr) (\<lambda>(g1, reqs1).
       if matched g1 then Inr (g1, VStr ''census_primary'', reqs1)
       else
         bind (attempt_hospital B net r primary_addr g1 source reqs1) (\<lambda>(g2, source2, reqs2).
           attempt_city B net r g2 source2 reqs2))"

text \<open>
  The state of a run: the rows (each a dict that the loop mutates in place), the cache,
  the unmatched accumulator, the records written to the output file, the addresses sent
  to the service and the inter-request delays slept, both oldest first.
\<close>

record run =
  rows :: "row list"
  cache :: "string \<rightharpoonup> geo"
  unmatched_rows :: "row list"
  outfile :: "pyval list list"
  requests :: "string list"
  sleeps :: "rat list"

text \<open>
  The guarded block of the loop body: cache lookup, fallback chain, cache store, delay.
  \<^verbatim>\<open>time.sleep\<close> raises \<^verbatim>\<open>ValueError\<close> on a negative delay, after the lookups and
  the cache store; the delay is a rational, so the \<^verbatim>\<open>nan\<close> and \<^verbatim>\<open>inf\<close> that
  \<^verbatim>\<open>--sleep\<close> also accepts are left out.
\<close>

definition resolve ::
  "builtins \<Rightarrow> service \<Rightarrow> rat \<Rightarrow> row \<Rightarrow> string \<Rightarrow> geo \<Rightarrow> pyval \<Rightarrow> run
     \<Rightarrow> error + (geo \<times> pyval \<times> run)" where
  "resolve B net delay r primary_addr g source st =
     (case g of (lat, lon, conf) \<Rightarrow>
        if \<not> (truthy lat \<and> truthy lon) \<and> primary_addr \<noteq> [] then
          (case cache st primary_addr of
             Some hit \<Rightarrow> Inr (hit, source, st)
           | None \<Rightarrow>
               bind (lookup_chain B net r primary_addr source (requests st)) (\<lambda>(g', source', reqs').
                 if delay < 0 then Inl ValueError
                 else Inr (g', source',
                           st\<lparr>cache := (cache st)(primary_addr \<mapsto> g'), requests := reqs',
                              sleeps := sleeps st @ [delay]\<rparr>)))
        else Inr (g, source, st))"

text \<open>
  The rounding block. Any exception inside it is swallowed, and it leaves whatever was
  assigned before the exception.
\<close>

definition round_value :: "builtins \<Rightarrow> int \<Rightarrow> pyval \<Rightarrow> pyval option" where
  "round_value B n v =
     (case py_float B v of
        None \<Rightarrow> None
      | Some q \<Rightarrow> (case round_float B q n of None \<Rightarrow> None | Some q' \<Rightarrow> Some (VNum q')))"

definition round_coords :: "builtins \<Rightarrow> int \<Rightarrow> pyval \<Rightarrow> pyval \<Rightarrow> pyval \<times> pyval" where
  "round_coords B n lat lon =
     (case (if lat \<noteq> VNone then round_value B n lat else Some lat) of
        None \<Rightarrow> (lat, lon)
      | Some lat' \<Rightarrow>
          (case (if lon \<noteq> VNone then round_value B n lon else Some lon) of
             None \<Rightarrow> (lat', lon)
           | Some lon' \<Rightarrow> (lat', lon')))"

section \<open>The loop body and main\<close>

text \<open>\<^verbatim>\<open>rows[idx]\<close>: a negative index counts from the end, an index out of range raises.\<close>

definition py_index :: "'a list \<Rightarrow> int \<Rightarrow> error + nat" where
  "py_index xs i =
     (if 0 \<le> i \<and> i < int (length xs) then Inr (nat i)
      else if i < 0 \<and> - int (length xs) \<le> i then Inr (nat (int (length xs) + i))
      else Inl IndexError)"

text \<open>
  \<^verbatim>\<open>csv.DictWriter.writerow\<close> with the default \<^verbatim>\<open>extrasaction='raise'\<close> and
  \<^verbatim>\<open>restval=''\<close>: a key outside the field names raises, a missing key is written empty.
\<close>

definition writerow :: "string list \<Rightarrow> row \<Rightarrow> error + pyval list" where
  "writerow fieldnames r =
     (if \<exists>k \<in> set (map fst r). k \<notin> set fieldnames then Inl ValueError
      else Inr (map (\<lambda>f. dict_get_default r f (VStr [])) fieldnames))"

definition store_result :: "row \<Rightarrow> pyval \<Rightarrow> pyval \<Rightarrow> pyval \<Rightarrow> pyval \<Rightarrow> row" where
  "store_result r lat lon source conf =
     dict_set (dict_set (dict_set (dict_set r ''Latitude'' lat) ''Longitude'' lon)
       ''Geo_Source'' source) ''Geo_Confidence'' conf"

definition unmatched_copy :: "builtins \<Rightarrow> row \<Rightarrow> string \<Rightarrow> row" where
  "unmatched_copy B r primary_addr =
     dict_set (dict_set (dict_set r ''Unmatched_Primary_Address'' (VStr primary_addr))
       ''Unmatched_Hospital_Address'' (VStr (build_hospital_address B r)))
       ''Unmatched_City_Address'' (VStr (build_city_address B r))"

record args =
  sleep :: rat
  round_decimals :: int
  start :: int
  limit :: "int option"

text \<open>What the loop body reads from the row before resolving it.\<close>

definition existing_geo :: "row \<Rightarrow> geo" where
  "existing_geo r = (dict_get r ''Latitude'', dict_get r ''Longitude'', dict_get r ''Geo_Confidence'')"

definition existing_source :: "row \<Rightarrow> pyval" where
  "existing_source r = py_or (dict_get r ''Geo_Source'') (VStr ''census'')"

text \<open>
  The rest of the loop body, after the guarded block: rounding, the four assignments
  into the row (which is the \<open>j\<close>-th element of the row list itself), the unmatched
  copy, and the write to the output file.
\<close>

definition finish_row ::
  "builtins \<Rightarrow> args \<Rightarrow> string list \<Rightarrow> nat \<Rightarrow> row \<Rightarrow> string \<Rightarrow> geo \<Rightarrow> pyval \<Rightarrow> run
     \<Rightarrow> error + run" where
  "finish_row B a fieldnames j r primary_addr g source st =
     (case g of (lat, lon, conf) \<Rightarrow>
        let (lat2, lon2) = round_coords B (round_decimals a) lat lon;
            r' = store_result r lat2 lon2 source conf;
            st2 = st\<lparr>rows := (rows st)[j := r']\<rparr>;
            st3 = (if lat2 = VNone \<or> lon2 = VNone
                   then st2\<lparr>unmatched_rows :=
                          unmatched_rows st2 @ [unmatched_copy B r' primary_addr]\<rparr>
                   else st2)
        in bind (writerow fieldnames r') (\<lambda>line. Inr (st3\<lparr>outfile := outfile st3 @ [line]\<rparr>)))"

definition process_row ::
  "builtins \<Rightarrow> service \<Rightarrow> args \<Rightarrow> string list \<Rightarrow> int \<Rightarrow> run \<Rightarrow> error + run" where
  "process_row B net a fieldnames idx st =
     bind (py_index (rows st) idx) (\<lambda>j.
       let r = rows st ! j;
           primary_addr = build_primary_address B r
       in bind (resolve B net (sleep a) r primary_addr (existing_geo r) (existing_source r) st)
            (\<lambda>(g, source, st1). finish_row B a fieldnames j r primary_addr g source st1))"

fun process_rows ::
  "builtins \<Rightarrow> service \<Rightarrow> args \<Rightarrow> string list \<Rightarrow> int list \<Rightarrow> run \<Rightarrow> error + run" where
  "process_rows B net a fieldnames [] st = Inr st"
| "process_rows B net a fieldnames (idx # idxs) st =
     bind (process_row B net a fieldnames idx st) (process_rows B net a fieldnames idxs)"

definition RESULT_COLS :: "string list" where
  "RESULT_COLS = [''Latitude'', ''Longitude'', ''Geo_Source'', ''Geo_Confidence'']"

definition REQUIRED_COLS :: "string list" where
  "REQUIRED_COLS = [STREET_COL, CITY_COL, STATE_COL, ZIP_COL, HOSP_COL]"

definition output_fieldnames :: "string list \<Rightarrow> string list" where
  "output_fieldnames headers =
     fold (\<lambda>col fs. if col \<notin> set fs then fs @ [col] else fs) RESULT_COLS headers"

text \<open>
  The unmatched table, written only when the accumulator is non-empty: its field names
  are the keys of the first unmatched record.
\<close>

fun writerows :: "string list \<Rightarrow> row list \<Rightarrow> error + pyval list list" where
  "writerows fs [] = Inr []"
| "writerows fs (r # rs) =
     bind (writerow fs r) (\<lambda>line. bind (writerows fs rs) (\<lambda>rest. Inr (line # rest)))"

definition write_unmatched :: "row list \<Rightarrow> error + (string list \<times> pyval list list) option" where
  "write_unmatched us =
     (case us of
        [] \<Rightarrow> Inr None
      | u # _ \<Rightarrow> bind (writerows (map fst u) us) (\<lambda>ls. Inr (Some (map fst u, ls))))"

datatype outcome =
    No_Data
  | Missing_Column string
  | Done "string list" run "(string list \<times> pyval list list) option"

definition initial :: "row list \<Rightarrow> run" where
  "initial rs = \<lparr>rows = rs, cache = Map.empty, unmatched_rows = [], outfile = [],
                 requests = [], sleeps = []\<rparr>"

text \<open>\<^verbatim>\<open>range(args.start, end)\<close>, as the list of its indices.\<close>

definition index_range :: "args \<Rightarrow> row list \<Rightarrow> int list" where
  "index_range a rs =
     (let stop = (case limit a of None \<Rightarrow> int (length rs)
                  | Some l \<Rightarrow> min (int (length rs)) (start a + l))
      in [start a .. stop - 1])"

text \<open>
  \<^verbatim>\<open>main\<close>, from the rows that \<^verbatim>\<open>csv.DictReader\<close> returned to the three ways it ends
  without an exception: no data rows, a required column missing from the header, or the
  loop and the unmatched table done. The progress messages it prints, the header line of
  the output file and the text encodings are left out; an exception ends the run with
  \<open>Inl\<close>.
\<close>

definition main :: "builtins \<Rightarrow> service \<Rightarrow> args \<Rightarrow> row list \<Rightarrow> error + outcome" where
  "main B net a rs =
     (case rs of
        [] \<Rightarrow> Inr No_Data
      | r0 # _ \<Rightarrow>
          (let headers = map fst r0 in
           case filter (\<lambda>col. col \<notin> set headers) REQUIRED_COLS of
             col # _ \<Rightarrow> Inr (Missing_Column col)
           | [] \<Rightarrow>
               (let fieldnames = output_fieldnames headers in
                bind (process_rows B net a fieldnames (index_range a rs) (initial rs))
                  (\<lambda>st. bind (write_unmatched (unmatched_rows st))
                    (\<lambda>uf. Inr (Done fieldnames st uf))))))"

section \<open>A decimal instance of the built-ins\<close>

text \<open>
  For evaluating the model on concrete rows: \<^verbatim>\<open>float\<close> on a plain decimal literal
  (optional sign, digits, optional fraction, surrounding whitespace ignored) and
  \<^verbatim>\<open>round\<close> to the nearest multiple of \<open>10\<^sup>-\<^sup>n\<close>, a tie going to the even one.
  The general theorems below hold for every instance of the built-ins.
\<close>

definition digit :: "char \<Rightarrow> nat option" where
  "digit c = (let n = (of_char c :: nat) in if 48 \<le> n \<and> n \<le> 57 then Some (n - 48) else None)"

fun digits :: "nat \<Rightarrow> string \<Rightarrow> nat option" where
  "digits acc [] = Some acc"
| "digits acc (c # cs) = (case digit c of None \<Rightarrow> None | Some d \<Rightarrow> digits (10 * acc + d) cs)"

definition unsigned_decimal :: "string \<Rightarrow> rat option" where
  "unsigned_decimal s =
     (let ip = takeWhile (\<lambda>c. c \<noteq> CHR ''.'') s;
          fp = drop 1 (dropWhile (\<lambda>c. c \<noteq> CHR ''.'') s)
      in if ip = [] \<and> fp = [] then None
         else (case (digits 0 ip, digits 0 fp) of
                 (Some i, Some f) \<Rightarrow> Some (of_nat i + of_nat f / 10 ^ length fp)
               | _ \<Rightarrow> None))"

definition decimal_float :: "string \<Rightarrow> rat option" where
  "decimal_float s =
     (case strip s of
        [] \<Rightarrow> None
      | c # cs \<Rightarrow>
          if c = CHR ''-'' then map_option uminus (unsigned_decimal cs)
          else if c = CHR ''+'' then unsigned_decimal cs
          else unsigned_decimal (c # cs))"

definition half_even :: "rat \<Rightarrow> int" where
  "half_even x =
     (let f = \<lfloor>x\<rfloor>; d = x - of_int f
      in if d < 1 / 2 then f else if 1 / 2 < d then f + 1 else if even f then f else f + 1)"

definition decimal_round :: "rat \<Rightarrow> int \<Rightarrow> rat option" where
  "decimal_round q n =
     (let s = (if 0 \<le> n then 10 ^ nat n else 1 / 10 ^ nat (- n)) :: rat
      in Some (of_int (half_even (q * s)) / s))"

definition decimal_builtins :: builtins where
  "decimal_builtins =
     \<lparr>str_repr = (\<lambda>v. []), float_str = decimal_float,
      float_int = (\<lambda>n. Some (of_int n)), round_float = decimal_round\<rparr>"

section \<open>Sample service responses and tables\<close>

definition match_body :: "rat \<Rightarrow> rat \<Rightarrow> string \<Rightarrow> pyval" where
  "match_body x y side =
     VDict [(''result'', VDict [(''addressMatches'', VList
       [VDict [(''coordinates'', VDict [(''x'', VNum x), (''y'', VNum y)]),
               (''tigerLine'', VDict [(''side'', VStr side)])],
        VDict [(''coordinates'', VDict [(''x'', VNum 0), (''y'', VNum 0)])]])])]"

definition no_match_body :: pyval where
  "no_match_body = VDict [(''result'', VDict [(''addressMatches'', VList [])])]"

text \<open>A service that answers from a table of addresses, and finds no match elsewhere.\<close>

definition service_of :: "(string \<times> pyval) list \<Rightarrow> service" where
  "service_of tbl n address =
     Body (case map_of tbl address of None \<Rightarrow> no_match_body | Some b \<Rightarrow> b)"

definition hospital_row :: "string \<Rightarrow> string \<Rightarrow> string \<Rightarrow> string \<Rightarrow> string \<Rightarrow> row" where
  "hospital_row name street city state zipc =
     [(HOSP_COL, VStr name), (STREET_COL, VStr street), (CITY_COL, VStr city),
      (STATE_COL, VStr state), (ZIP_COL, VStr zipc)]"

definition default_args :: args where
  "default_args = \<lparr>sleep = 1 / 4, round_decimals = 5, start = 0, limit = None\<rparr>"

definition springfield :: row where
  "springfield = hospital_row ''General Hospital'' ''1 Main St'' ''Springfield'' ''IL'' ''62701''"

definition city_only :: service where
  "city_only = service_of [(''Springfield, IL, 62701'', match_body (- (179 / 2)) (79 / 2) ''L'')]"

definition out_fields :: "string list" where
  "out_fields = [HOSP_COL, STREET_COL, CITY_COL, STATE_COL, ZIP_COL,
                 ''Latitude'', ''Longitude'', ''Geo_Source'', ''Geo_Confidence'']"

definition after_springfield :: "row list \<Rightarrow> run" where
  "after_springfield rest = (initial (springfield # rest))
       \<lparr>rows := store_result springfield (VNum (79 / 2)) (VNum (- (179 / 2)))
                    (VStr ''census_city'') (VStr ''L'') # rest,
        cache := [''1 Main St, Springfield, IL, 62701'' \<mapsto>
                    (VNum (79 / 2), VNum (- (179 / 2)), VStr ''L'')],
        outfile := [[VStr ''General Hospital'', VStr ''1 Main St'', VStr ''Springfield'',
                     VStr ''IL'', VStr ''62701'', VNum (79 / 2), VNum (- (179 / 2)),
                     VStr ''census_city'', VStr ''L'']],
        requests := [''1 Main St, Springfield, IL, 62701'',
                     ''General Hospital, Springfield, IL, 62701'', ''Springfield, IL, 62701''],
        sleeps := [1 / 4]\<rparr>"

definition annex :: row where
  "annex = hospital_row ''Hospital Annex'' ''1 Main St'' ''Springfield'' ''IL'' ''62701''"

definition oak :: row where
  "oak = hospital_row ''Mercy Clinic'' ''2 Oak Ave'' ''Springfield'' ''IL'' ''62701''"

definition nowhere :: service where
  "nowhere = service_of []"

definition with_coords :: "string \<Rightarrow> string \<Rightarrow> row" where
  "with_coords lat lon = springfield @ [(''Latitude'', VStr lat), (''Longitude'', VStr lon)]"

definition after_with_coords :: "string \<Rightarrow> string \<Rightarrow> run" where
  "after_with_coords lat lon =
     (let rc = round_coords decimal_builtins 5 (VStr lat) (VStr lon) in
      (initial [with_coords lat lon])
        \<lparr>rows := [store_result (with_coords lat lon) (fst rc) (snd rc) (VStr ''census'') VNone],
         outfile := [[VStr ''General Hospital'', VStr ''1 Main St'', VStr ''Springfield'',
                      VStr ''IL'', VStr ''62701'', fst rc, snd rc, VStr ''census'', VNone]]\<rparr>)"

definition after_annex :: run where
  "after_annex = (after_springfield [annex])
       \<lparr>rows := [store_result springfield (VNum (79 / 2)) (VNum (- (179 / 2)))
                    (VStr ''census_city'') (VStr ''L''),
                 store_result annex (VNum (79 / 2)) (VNum (- (179 / 2)))
                    (VStr ''census'') (VStr ''L'')],
        outfile := outfile (after_springfield [annex]) @
                   [[VStr ''Hospital Annex'', VStr ''1 Main St'', VStr ''Springfield'',
                     VStr ''IL'', VStr ''62701'', VNum (79 / 2), VNum (- (179 / 2)),
                     VStr ''census'', VStr ''L'']]\<rparr>"

definition springfield_unmatched :: row where
  "springfield_unmatched = store_result springfield VNone VNone (VStr ''census'') VNone"

definition after_nowhere :: "row list \<Rightarrow> run" where
  "after_nowhere rest = (initial (springfield # rest))
       \<lparr>rows := springfield_unmatched # rest,
        cache := [''1 Main St, Springfield, IL, 62701'' \<mapsto> absent],
        unmatched_rows := [unmatched_copy decimal_builtins springfield_unmatched
                             ''1 Main St, Springfield, IL, 62701''],
        outfile := [[VStr ''General Hospital'', VStr ''1 Main St'', VStr ''Springfield'',
                     VStr ''IL'', VStr ''62701'', VNone, VNone, VStr ''census'', VNone]],
        requests := [''1 Main St, Springfield, IL, 62701'',
                     ''General Hospital, Springfield, IL, 62701'', ''Springfield, IL, 62701''],
        sleeps := [1 / 4]\<rparr>"

definition oak_unmatched :: row where
  "oak_unmatched = store_result oak VNone VNone (VStr ''census'') VNone"

definition after_oak :: run where
  "after_oak = (after_nowhere [oak])
       \<lparr>rows := [springfield_unmatched, oak_unmatched],
        cache := [''1 Main St, Springfield, IL, 62701'' \<mapsto> absent,
                  ''2 Oak Ave, Springfield, IL, 62701'' \<mapsto> absent],
        unmatched_rows := unmatched_rows (after_nowhere [oak]) @
                          [unmatched_copy decimal_builtins oak_unmatched
                             ''2 Oak Ave, Springfield, IL, 62701''],
        outfile := outfile (after_nowhere [oak]) @
                   [[VStr ''Mercy Clinic'', VStr ''2 Oak Ave'', VStr ''Springfield'',
                     VStr ''IL'', VStr ''62701'', VNone, VNone, VStr ''census'', VNone]],
        requests := requests (after_nowhere [oak]) @
                    [''2 Oak Ave, Springfield, IL, 62701'',
                     ''Mercy Clinic, Springfield, IL, 62701'', ''Springfield, IL, 62701''],
        sleeps := [1 / 4, 1 / 4]\<rparr>"

definition oak_table :: "string list \<times> pyval list list" where
  "oak_table =
     (let fields = out_fields @ [''Unmatched_Primary_Address'', ''Unmatched_Hospital_Address'',
                                 ''Unmatched_City_Address'']
      in (fields, map (\<lambda>u. map (\<lambda>f. dict_get_default u f (VStr [])) fields)
                    (unmatched_rows after_oak)))"

definition annex_unmatched :: row where
  "annex_unmatched = store_result annex VNone VNone (VStr ''census'') VNone"

definition after_annex_nowhere :: run where
  "after_annex_nowhere = (after_nowhere [annex])
       \<lparr>rows := [springfield_unmatched, annex_unmatched],
        unmatched_rows := unmatched_rows (after_nowhere [annex]) @
                          [unmatched_copy decimal_builtins annex_unmatched
                             ''1 Main St, Springfield, IL, 62701''],
        outfile := outfile (after_nowhere [annex]) @
                   [[VStr ''Hospital Annex'', VStr ''1 Main St'', VStr ''Springfield'',
                     VStr ''IL'', VStr ''62701'', VNone, VNone, VStr ''census'', VNone]]\<rparr>"

definition resumed :: row where
  "resumed = with_coords ''40.71278'' ''-74.00597''"

definition resumed_done :: row where
  "resumed_done = store_result resumed (VNum (4071278 / 100000)) (VNum (- (7400597 / 100000)))
                    (VStr ''census'') VNone"

definition after_resumed :: "row list \<Rightarrow> run" where
  "after_resumed rest = (initial (resumed # rest))
       \<lparr>rows := resumed_done # rest,
        outfile := [[VStr ''General Hospital'', VStr ''1 Main St'', VStr ''Springfield'',
                     VStr ''IL'', VStr ''62701'', VNum (4071278 / 100000),
                     VNum (- (7400597 / 100000)), VStr ''census'', VNone]]\<rparr>"

definition after_resumed_springfield :: run where
  "after_resumed_springfield = (after_resumed [springfield])
       \<lparr>rows := [resumed_done,
                 store_result springfield (VNum (79 / 2)) (VNum (- (179 / 2)))
                    (VStr ''census_city'') (VStr ''L'')],
        cache := [''1 Main St, Springfield, IL, 62701'' \<mapsto>
                    (VNum (79 / 2), VNum (- (179 / 2)), VStr ''L'')],
        outfile := outfile (after_resumed [springfield]) @
                   [[VStr ''General Hospital'', VStr ''1 Main St'', VStr ''Springfield'',
                     VStr ''IL'', VStr ''62701'', VNum (79 / 2), VNum (- (179 / 2)),
                     VStr ''census_city'', VStr ''L'']],
        requests := [''1 Main St, Springfield, IL, 62701'',
                     ''General Hospital, Springfield, IL, 62701'', ''Springfield, IL, 62701''],
        sleeps := [1 / 4]\<rparr>"

definition wrapped_args :: args where
  "wrapped_args = default_args\<lparr>start := - 1\<rparr>"

definition resumed_oak :: row where
  "resumed_oak = oak @ [(''Latitude'', VStr ''40.71278''), (''Longitude'', VStr ''-74.00597'')]"

definition resumed_oak_done :: row where
  "resumed_oak_done = store_result resumed_oak (VNum (4071278 / 100000))
                        (VNum (- (7400597 / 100000))) (VStr ''census'') VNone"

definition oak_line :: "pyval list" where
  "oak_line = [VStr ''Mercy Clinic'', VStr ''2 Oak Ave'', VStr ''Springfield'', VStr ''IL'',
               VStr ''62701'', VNum (4071278 / 100000), VNum (- (7400597 / 100000)),
               VStr ''census'', VNone]"

definition resumed_line :: "pyval list" where
  "resumed_line = [VStr ''General Hospital'', VStr ''1 Main St'', VStr ''Springfield'',
                   VStr ''IL'', VStr ''62701'', VNum (4071278 / 100000),
                   VNum (- (7400597 / 100000)), VStr ''census'', VNone]"

definition after_wrapped :: run where
  "after_wrapped = (initial [resumed, resumed_oak])
       \<lparr>rows := [resumed_done, resumed_oak_done],
        outfile := [oak_line, resumed_line, oak_line]\<rparr>"

definition street_known :: service where
  "street_known = service_of
     [(''1 Main St, Springfield, IL, 62701'', match_body (- (179 / 2)) (79 / 2) ''R'')]"

definition after_street_known :: run where
  "after_street_known = (initial [springfield])
       \<lparr>rows := [store_result springfield (VNum (79 / 2)) (VNum (- (179 / 2)))
                    (VStr ''census_primary'') (VStr ''R'')],
        cache := [''1 Main St, Springfield, IL, 62701'' \<mapsto>
                    (VNum (79 / 2), VNum (- (179 / 2)), VStr ''R'')],
        outfile := [[VStr ''General Hospital'', VStr ''1 Main St'', VStr ''Springfield'',
                     VStr ''IL'', VStr ''62701'', VNum (79 / 2), VNum (- (179 / 2)),
                     VStr ''census_primary'', VStr ''R'']],
        requests := [''1 Main St, Springfield, IL, 62701''],
        sleeps := [1 / 4]\<rparr>"

definition coarse_args :: args where
  "coarse_args = default_args\<lparr>round_decimals := 2\<rparr>"

definition after_coarse :: run where
  "after_coarse = (initial [resumed])
       \<lparr>rows := [store_result resumed (VNum (4071 / 100)) (VNum (- (7401 / 100)))
                    (VStr ''census'') VNone],
        outfile := [[VStr ''General Hospital'', VStr ''1 Main St'', VStr ''Springfield'',
                     VStr ''IL'', VStr ''62701'', VNum (4071 / 100), VNum (- (7401 / 100)),
                     VStr ''census'', VNone]]\<rparr>"

text \<open>
  A table that already has a source column: the second row carries the tag of the first
  tier, has no coordinates, and has the primary address of the first row.
\<close>

definition untagged :: row where
  "untagged = springfield @ [(''Geo_Source'', VStr [])]"

definition tagged :: row where
  "tagged = annex @ [(''Geo_Source'', VStr ''census_primary'')]"

definition tagged_fields :: "string list" where
  "tagged_fields = [HOSP_COL, STREET_COL, CITY_COL, STATE_COL, ZIP_COL, ''Geo_Source'',
                    ''Latitude'', ''Longitude'', ''Geo_Confidence'']"

definition after_untagged :: run where
  "after_untagged = (initial [untagged, tagged])
       \<lparr>rows := [store_result untagged (VNum (79 / 2)) (VNum (- (179 / 2)))
                    (VStr ''census_city'') (VStr ''L''), tagged],
        cache := [''1 Main St, Springfield, IL, 62701'' \<mapsto>
                    (VNum (79 / 2), VNum (- (179 / 2)), VStr ''L'')],
        outfile := [[VStr ''General Hospital'', VStr ''1 Main St'', VStr ''Springfield'',
                     VStr ''IL'', VStr ''62701'', VStr ''census_city'', VNum (79 / 2),
                     VNum (- (179 / 2)), VStr ''L'']],
        requests := [''1 Main St, Springfield, IL, 62701'',
                     ''General Hospital, Springfield, IL, 62701'', ''Springfield, IL, 62701''],
        sleeps := [1 / 4]\<rparr>"

definition after_tagged :: run where
  "after_tagged = after_untagged
       \<lparr>rows := [store_result untagged (VNum (79 / 2)) (VNum (- (179 / 2)))
                    (VStr ''census_city'') (VStr ''L''),
                 store_result tagged (VNum (79 / 2)) (VNum (- (179 / 2)))
                    (VStr ''census_primary'') (VStr ''L'')],
        outfile := outfile after_untagged @
                   [[VStr ''Hospital Annex'', VStr ''1 Main St'', VStr ''Springfield'',
                     VStr ''IL'', VStr ''62701'', VStr ''census_primary'', VNum (79 / 2),
                     VNum (- (179 / 2)), VStr ''L'']]\<rparr>"

section \<open>Properties\<close>

subsection \<open>Sequencing of fallible steps\<close>

lemma bind_Inr_iff: "bind m f = Inr y \<longleftrightarrow> (\<exists>x. m = Inr x \<and> f x = Inr y)"
  by (cases m) (simp_all add: bind_def)

lemma bind_Inr [simp]: "bind (Inr x) f = f x"
  by (simp add: bind_def)

lemma bind_Inl [simp]: "bind (Inl e) f = Inl e"
  by (simp add: bind_def)

subsection \<open>The single-address lookup\<close>


lemma census_geocode_requests:
  assumes "census_geocode net reqs address = Inr (g, reqs')"
  shows "reqs' = (if address = [] then reqs else reqs @ [address])"
  using assms
  by (auto simp: census_geocode_def bind_Inr_iff split: if_splits response.splits)


lemma address_matches_match_body:
  "address_matches (match_body x y s) = Inr (VList
     [VDict [(''coordinates'', VDict [(''x'', VNum x), (''y'', VNum y)]),
             (''tigerLine'', VDict [(''side'', VStr s)])],
      VDict [(''coordinates'', VDict [(''x'', VNum 0), (''y'', VNum 0)])]])"
  by (simp add: address_matches_def match_body_def py_or_def dict_get_def)

lemma address_matches_no_match_body: "address_matches no_match_body = Inr (VList [])"
  by (simp add: address_matches_def no_match_body_def py_or_def dict_get_def)


subsection \<open>Dictionaries and rounding\<close>

lemma dict_get_set: "dict_get (dict_set r k v) k' = (if k' = k then v else dict_get r k')"
  by (simp add: dict_get_def dict_set_def update_conv')

lemma keys_dict_set:
  "map fst (dict_set r k v) = (if k \<in> set (map fst r) then map fst r else map fst r @ [k])"
  by (simp add: dict_set_def update_keys)

lemma dict_get_store_result:
  "dict_get (store_result r lat lon source conf) k =
     (if k = ''Geo_Confidence'' then conf else if k = ''Geo_Source'' then source
      else if k = ''Longitude'' then lon else if k = ''Latitude'' then lat else dict_get r k)"
  by (simp add: store_result_def dict_get_set)

lemma round_coords_None:
  "fst (round_coords B n lat lon) = VNone \<longleftrightarrow> lat = VNone"
  "snd (round_coords B n lat lon) = VNone \<longleftrightarrow> lon = VNone"
  by (auto simp: round_coords_def round_value_def split: option.splits)

lemma round_coords_fst:
  "fst (round_coords B n lat lon) =
     (if lat = VNone then VNone
      else case round_value B n lat of None \<Rightarrow> lat | Some v \<Rightarrow> v)"
  by (simp add: round_coords_def split: option.splits)

lemma round_coords_snd:
  "snd (round_coords B n lat lon) =
     (if lat \<noteq> VNone \<and> round_value B n lat = None then lon
      else if lon = VNone then VNone
      else case round_value B n lon of None \<Rightarrow> lon | Some w \<Rightarrow> w)"
  by (simp add: round_coords_def split: option.splits)

lemma truthy_not_None: "truthy v \<Longrightarrow> v \<noteq> VNone"
  by auto

subsection \<open>The fallback chain\<close>

lemma attempt_hospital_Inr:
  assumes "attempt_hospital B net r p g source reqs = Inr (g2, source2, reqs2)"
  shows "if build_hospital_address B r \<noteq> [] \<and> build_hospital_address B r \<noteq> p
         then census_geocode net reqs (build_hospital_address B r)
                = Inr (g2, reqs @ [build_hospital_address B r])
              \<and> reqs2 = reqs @ [build_hospital_address B r]
              \<and> source2 = (if matched g2 then VStr ''census_hospital'' else source)
         else g2 = g \<and> source2 = source \<and> reqs2 = reqs"
  using assms census_geocode_requests [of net reqs "build_hospital_address B r"]
  by (auto simp: attempt_hospital_def Let_def bind_Inr_iff split: if_splits)

lemma attempt_city_Inr:
  assumes "attempt_city B net r g source reqs = Inr (g3, source3, reqs3)"
  shows "if \<not> matched g \<and> build_city_address B r \<noteq> []
         then census_geocode net reqs (build_city_address B r)
                = Inr (g3, reqs @ [build_city_address B r])
              \<and> reqs3 = reqs @ [build_city_address B r]
              \<and> source3 = (if matched g3 then VStr ''census_city'' else source)
         else g3 = g \<and> source3 = source \<and> reqs3 = reqs"
  using assms census_geocode_requests [of net reqs "build_city_address B r"]
  by (auto simp: attempt_city_def Let_def bind_Inr_iff split: if_splits)

lemma resolve_skip:
  "(truthy lat \<and> truthy lon) \<or> p = [] \<Longrightarrow>
     resolve B net delay r p (lat, lon, conf) source st = Inr ((lat, lon, conf), source, st)"
  by (auto simp: resolve_def)

lemma resolve_hit:
  "\<not> (truthy lat \<and> truthy lon) \<Longrightarrow> p \<noteq> [] \<Longrightarrow> cache st p = Some hit \<Longrightarrow>
     resolve B net delay r p (lat, lon, conf) source st = Inr (hit, source, st)"
  by (auto simp: resolve_def)

lemma resolve_miss:
  "\<not> (truthy lat \<and> truthy lon) \<Longrightarrow> p \<noteq> [] \<Longrightarrow> cache st p = None \<Longrightarrow>
     resolve B net delay r p (lat, lon, conf) source st =
       bind (lookup_chain B net r p source (requests st)) (\<lambda>(g', source', reqs').
         if delay < 0 then Inl ValueError
         else Inr (g', source', st\<lparr>cache := (cache st)(p \<mapsto> g'), requests := reqs',
                                     sleeps := sleeps st @ [delay]\<rparr>))"
  by (auto simp: resolve_def)

lemma lookup_chain_Inr:
  assumes chain: "lookup_chain B net r p source reqs = Inr (g', source', reqs')" and "p \<noteq> []"
  shows "\<exists>g1. census_geocode net reqs p = Inr (g1, reqs @ [p]) \<and>
     (if matched g1 then g' = g1 \<and> source' = VStr ''census_primary'' \<and> reqs' = reqs @ [p]
      else \<exists>g2 source2 reqs2.
             attempt_hospital B net r p g1 source (reqs @ [p]) = Inr (g2, source2, reqs2) \<and>
             attempt_city B net r g2 source2 reqs2 = Inr (g', source', reqs'))"
proof -
  from chain obtain g1 reqs1 where
    first: "census_geocode net reqs p = Inr (g1, reqs1)" and
    rest: "(if matched g1 then Inr (g1, VStr ''census_primary'', reqs1)
            else bind (attempt_hospital B net r p g1 source reqs1) (\<lambda>(g2, source2, reqs2).
                   attempt_city B net r g2 source2 reqs2)) = Inr (g', source', reqs')"
    by (auto simp: lookup_chain_def bind_Inr_iff)
  from first \<open>p \<noteq> []\<close> have reqs1: "reqs1 = reqs @ [p]"
    using census_geocode_requests by fastforce
  show ?thesis
  proof (cases "matched g1")
    case True
    with rest first reqs1 show ?thesis by auto
  next
    case False
    with rest obtain g2 source2 reqs2 where
      "attempt_hospital B net r p g1 source reqs1 = Inr (g2, source2, reqs2)"
      "attempt_city B net r g2 source2 reqs2 = Inr (g', source', reqs')"
      by (auto simp: bind_Inr_iff)
    with False first reqs1 show ?thesis by auto
  qed
qed

lemma chain_miss:
  assumes h: "attempt_hospital B net r p g1 source (reqs @ [p]) = Inr (g2, source2, reqs2)"
    and c: "attempt_city B net r g2 source2 reqs2 = Inr (g', source', reqs')"
    and miss: "\<not> matched g1"
  shows "(\<exists>C.
        reqs' = reqs @ [p]
          @ (if build_hospital_address B r \<noteq> [] \<and> build_hospital_address B r \<noteq> p
             then [build_hospital_address B r] else [])
          @ (if C then [build_city_address B r] else []) \<and>
        (build_hospital_address B r \<noteq> [] \<and> build_hospital_address B r \<noteq> p \<longrightarrow>
           (\<exists>g2. census_geocode net (reqs @ [p]) (build_hospital_address B r)
                    = Inr (g2, reqs @ [p, build_hospital_address B r]) \<and>
                 (matched g2 \<longrightarrow> \<not> C \<and> g' = g2 \<and> source' = VStr ''census_hospital''))) \<and>
        (C \<longrightarrow> build_city_address B r \<noteq> [] \<and>
           census_geocode net
               (reqs @ [p] @ (if build_hospital_address B r \<noteq> [] \<and> build_hospital_address B r \<noteq> p
                              then [build_hospital_address B r] else []))
               (build_city_address B r) = Inr (g', reqs') \<and>
           (matched g' \<longrightarrow> source' = VStr ''census_city'')))
      \<and> (\<not> matched g' \<longrightarrow> source' = source)"
    (is "(\<exists>C. ?body C) \<and> ?keep")
proof -
  note H = attempt_hospital_Inr [OF h] and C = attempt_city_Inr [OF c]
  have keep: ?keep
    using H C miss by (auto split: if_splits)
  have tier2: "?body C" if "C \<longleftrightarrow> \<not> matched g2 \<and> build_city_address B r \<noteq> []" for C
  proof (cases "build_hospital_address B r \<noteq> [] \<and> build_hospital_address B r \<noteq> p")
    case True
    with H have g2: "census_geocode net (reqs @ [p]) (build_hospital_address B r)
                       = Inr (g2, reqs @ [p, build_hospital_address B r])"
      and reqs2: "reqs2 = reqs @ [p, build_hospital_address B r]"
      and source2: "source2 = (if matched g2 then VStr ''census_hospital'' else source)"
      by auto
    have "\<exists>g. census_geocode net (reqs @ [p]) (build_hospital_address B r)
                    = Inr (g, reqs @ [p, build_hospital_address B r]) \<and>
                 (matched g \<longrightarrow> \<not> C \<and> g' = g \<and> source' = VStr ''census_hospital'')"
      using g2 C reqs2 source2 that by (intro exI [of _ g2]) (auto split: if_splits)
    moreover have "reqs' = reqs @ [p, build_hospital_address B r]
          @ (if C then [build_city_address B r] else [])"
      using C reqs2 that by (auto split: if_splits)
    moreover have "C \<longrightarrow> build_city_address B r \<noteq> [] \<and>
           census_geocode net (reqs @ [p, build_hospital_address B r])
               (build_city_address B r) = Inr (g', reqs') \<and>
           (matched g' \<longrightarrow> source' = VStr ''census_city'')"
      using C reqs2 source2 that by (auto split: if_splits)
    ultimately show ?thesis using True by simp
  next
    case False
    with H have g2: "g2 = g1" "source2 = source" "reqs2 = reqs @ [p]"
      by auto
    have "reqs' = reqs @ [p] @ (if C then [build_city_address B r] else [])"
      using C g2 that by (auto split: if_splits)
    moreover have "C \<longrightarrow> build_city_address B r \<noteq> [] \<and>
           census_geocode net (reqs @ [p]) (build_city_address B r) = Inr (g', reqs') \<and>
           (matched g' \<longrightarrow> source' = VStr ''census_city'')"
      using C g2 that by (auto split: if_splits)
    ultimately show ?thesis using False by auto
  qed
  from tier2 [of "\<not> matched g2 \<and> build_city_address B r \<noteq> []"]
  have ex: "\<exists>C. ?body C" by blast
  from ex keep show ?thesis by (rule conjI)
qed

lemma chain_trace:
  assumes chain: "lookup_chain B net r p source reqs = Inr (g', source', reqs')" and "p \<noteq> []"
  shows "\<exists>g1. census_geocode net reqs p = Inr (g1, reqs @ [p]) \<and>
     (matched g1 \<longrightarrow> g' = g1 \<and> reqs' = reqs @ [p] \<and> source' = VStr ''census_primary'') \<and>
     (\<not> matched g1 \<longrightarrow> (\<exists>C.
        reqs' = reqs @ [p]
          @ (if build_hospital_address B r \<noteq> [] \<and> build_hospital_address B r \<noteq> p
             then [build_hospital_address B r] else [])
          @ (if C then [build_city_address B r] else []) \<and>
        (build_hospital_address B r \<noteq> [] \<and> build_hospital_address B r \<noteq> p \<longrightarrow>
           (\<exists>g2. census_geocode net (reqs @ [p]) (build_hospital_address B r)
                    = Inr (g2, reqs @ [p, build_hospital_address B r]) \<and>
                 (matched g2 \<longrightarrow> \<not> C \<and> g' = g2 \<and> source' = VStr ''census_hospital''))) \<and>
        (C \<longrightarrow> build_city_address B r \<noteq> [] \<and>
           census_geocode net
               (reqs @ [p] @ (if build_hospital_address B r \<noteq> [] \<and> build_hospital_address B r \<noteq> p
                              then [build_hospital_address B r] else []))
               (build_city_address B r) = Inr (g', reqs') \<and>
           (matched g' \<longrightarrow> source' = VStr ''census_city'')))
      \<and> (\<not> matched g' \<longrightarrow> source' = source))"
proof -
  from lookup_chain_Inr [OF assms] obtain g1 where
    first: "census_geocode net reqs p = Inr (g1, reqs @ [p])" and
    rest: "if matched g1 then g' = g1 \<and> source' = VStr ''census_primary'' \<and> reqs' = reqs @ [p]
      else \<exists>g2 source2 reqs2.
             attempt_hospital B net r p g1 source (reqs @ [p]) = Inr (g2, source2, reqs2) \<and>
             attempt_city B net r g2 source2 reqs2 = Inr (g', source', reqs')"
    by blast
  show ?thesis
  proof (cases "matched g1")
    case True
    with first rest show ?thesis by (intro exI [of _ g1]) simp
  next
    case False
    with rest obtain g2 source2 reqs2 where
      "attempt_hospital B net r p g1 source (reqs @ [p]) = Inr (g2, source2, reqs2)"
      "attempt_city B net r g2 source2 reqs2 = Inr (g', source', reqs')"
      by auto
    from chain_miss [OF this False] first False show ?thesis
      by (intro exI [of _ g1]) simp
  qed
qed

subsection \<open>The loop body\<close>

lemma py_index_less: "py_index xs i = Inr j \<Longrightarrow> j < length xs"
  by (auto simp: py_index_def split: if_splits)

lemma resolve_frame:
  assumes "resolve B net delay r p g source st = Inr (g', source', st')"
  shows "rows st' = rows st \<and> unmatched_rows st' = unmatched_rows st \<and> outfile st' = outfile st"
  using assms
  by (auto simp: resolve_def bind_Inr_iff split: prod.splits if_splits option.splits)

lemma finish_row_Inr:
  assumes "finish_row B a fs j r p (lat, lon, conf) source st = Inr st'"
  shows "rows st' = (rows st)[j := store_result r (fst (round_coords B (round_decimals a) lat lon))
                                     (snd (round_coords B (round_decimals a) lat lon)) source conf]"
    and "cache st' = cache st" and "requests st' = requests st" and "sleeps st' = sleeps st"
    and "unmatched_rows st' =
           (if lat = VNone \<or> lon = VNone
            then unmatched_rows st @
                   [unmatched_copy B (store_result r (fst (round_coords B (round_decimals a) lat lon))
                      (snd (round_coords B (round_decimals a) lat lon)) source conf) p]
            else unmatched_rows st)"
    and "\<exists>line. writerow fs (store_result r (fst (round_coords B (round_decimals a) lat lon))
                    (snd (round_coords B (round_decimals a) lat lon)) source conf) = Inr line
            \<and> outfile st' = outfile st @ [line]"
  using assms round_coords_None [of B "round_decimals a" lat lon]
  by (auto simp: finish_row_def Let_def bind_Inr_iff split: prod.splits if_splits)

lemma process_row_Inr:
  assumes "process_row B net a fs idx st = Inr st'"
  shows "\<exists>j g source st1. py_index (rows st) idx = Inr j \<and>
      resolve B net (sleep a) (rows st ! j) (build_primary_address B (rows st ! j))
         (existing_geo (rows st ! j)) (existing_source (rows st ! j)) st = Inr (g, source, st1) \<and>
      finish_row B a fs j (rows st ! j) (build_primary_address B (rows st ! j)) g source st1 = Inr st'"
  using assms by (auto simp: process_row_def Let_def bind_Inr_iff)

lemma process_row_result:
  assumes run: "process_row B net a fs idx st = Inr st'" and idx: "py_index (rows st) idx = Inr j"
  obtains lat lon conf source st1 where
    "resolve B net (sleep a) (rows st ! j) (build_primary_address B (rows st ! j))
       (existing_geo (rows st ! j)) (existing_source (rows st ! j)) st
       = Inr ((lat, lon, conf), source, st1)"
    "rows st' = (rows st)[j := store_result (rows st ! j)
        (fst (round_coords B (round_decimals a) lat lon))
        (snd (round_coords B (round_decimals a) lat lon)) source conf]"
    "cache st' = cache st1" "requests st' = requests st1" "sleeps st' = sleeps st1"
    "unmatched_rows st' =
       (if lat = VNone \<or> lon = VNone
        then unmatched_rows st @ [unmatched_copy B (store_result (rows st ! j)
               (fst (round_coords B (round_decimals a) lat lon))
               (snd (round_coords B (round_decimals a) lat lon)) source conf)
               (build_primary_address B (rows st ! j))]
        else unmatched_rows st)"
    "\<exists>line. writerow fs (store_result (rows st ! j)
               (fst (round_coords B (round_decimals a) lat lon))
               (snd (round_coords B (round_decimals a) lat lon)) source conf) = Inr line
        \<and> outfile st' = outfile st @ [line]"
proof -
  from process_row_Inr [OF run] idx obtain g source st1 where
    res: "resolve B net (sleep a) (rows st ! j) (build_primary_address B (rows st ! j))
         (existing_geo (rows st ! j)) (existing_source (rows st ! j)) st = Inr (g, source, st1)" and
    fin: "finish_row B a fs j (rows st ! j) (build_primary_address B (rows st ! j)) g source st1 = Inr st'"
    by auto
  obtain lat lon conf where g: "g = (lat, lon, conf)"
    by (cases g) auto
  note frame = resolve_frame [OF res]
  note F = finish_row_Inr [OF fin [unfolded g]]
  show thesis
    using that [OF res [unfolded g]] F frame by simp
qed

lemma process_row_final_row:
  assumes "rows st' = (rows st)[j := r']" "py_index (rows st) idx = Inr j"
  shows "rows st' ! j = r'"
  using assms py_index_less by fastforce

subsection \<open>Evaluating the sample rows\<close>

lemmas col_defs = STREET_COL_def CITY_COL_def STATE_COL_def ZIP_COL_def HOSP_COL_def

lemma strip_plain [simp]:
  "strip ''General Hospital'' = ''General Hospital''"
  "strip ''1 Main St'' = ''1 Main St''"
  "strip ''Springfield'' = ''Springfield''"
  "strip ''IL'' = ''IL''"
  "strip ''62701'' = ''62701''"
  by (simp_all add: strip_def is_space_def)

lemma springfield_addresses:
  "build_primary_address B springfield = ''1 Main St, Springfield, IL, 62701''"
  "build_hospital_address B springfield = ''General Hospital, Springfield, IL, 62701''"
  "build_city_address B springfield = ''Springfield, IL, 62701''"
  by (simp_all add: build_primary_address_def build_hospital_address_def build_city_address_def
      springfield_def hospital_row_def col_defs field_def dict_get_default_def join_nonempty_def)

lemma parse_no_match: "parse_matches no_match_body = Inr absent"
  by (simp add: parse_matches_def address_matches_no_match_body)

lemma parse_match: "parse_matches (match_body x y s) = Inr (VNum y, VNum x, VStr s)"
  by (simp add: parse_matches_def address_matches_match_body candidate_def py_or_def dict_get_def)

lemma census_geocode_service_of:
  "address \<noteq> [] \<Longrightarrow> census_geocode (service_of tbl) reqs address =
     bind (parse_matches (case map_of tbl address of None \<Rightarrow> no_match_body | Some b \<Rightarrow> b))
       (\<lambda>g. Inr (g, reqs @ [address]))"
  by (simp add: census_geocode_def service_of_def)

lemma initial_simps [simp]:
  "rows (initial rs) = rs" "cache (initial rs) = Map.empty" "unmatched_rows (initial rs) = []"
  "outfile (initial rs) = []" "requests (initial rs) = []" "sleeps (initial rs) = []"
  by (simp_all add: initial_def)

lemma springfield_existing:
  "existing_geo springfield = (VNone, VNone, VNone)"
  "existing_source springfield = VStr ''census''"
  by (simp_all add: existing_geo_def existing_source_def springfield_def hospital_row_def
      col_defs dict_get_def py_or_def)

lemma round_halves:
  "round_coords decimal_builtins 5 (VNum (79 / 2)) (VNum (- (179 / 2)))
     = (VNum (79 / 2), VNum (- (179 / 2)))"
  by code_simp

lemma springfield_city_only:
  "process_row decimal_builtins city_only default_args out_fields 0 (initial (springfield # rest)) =
     Inr (after_springfield rest)"
proof -
  have idx: "py_index (springfield # rest) 0 = Inr 0"
    by (simp add: py_index_def)
  have chain: "lookup_chain decimal_builtins city_only springfield
       ''1 Main St, Springfield, IL, 62701'' (VStr ''census'') [] =
       Inr ((VNum (79 / 2), VNum (- (179 / 2)), VStr ''L''), VStr ''census_city'',
            [''1 Main St, Springfield, IL, 62701'',
             ''General Hospital, Springfield, IL, 62701'', ''Springfield, IL, 62701''])"
    by (simp add: lookup_chain_def attempt_hospital_def attempt_city_def springfield_addresses
        Let_def city_only_def census_geocode_service_of parse_no_match parse_match matched_def
        absent_def)
  have wr: "writerow out_fields (store_result springfield (VNum (79 / 2)) (VNum (- (179 / 2)))
                    (VStr ''census_city'') (VStr ''L'')) =
       Inr [VStr ''General Hospital'', VStr ''1 Main St'', VStr ''Springfield'',
                      VStr ''IL'', VStr ''62701'', VNum (79 / 2), VNum (- (179 / 2)),
                      VStr ''census_city'', VStr ''L'']"
    by (simp add: writerow_def out_fields_def store_result_def dict_set_def springfield_def
        hospital_row_def col_defs dict_get_default_def)
  show ?thesis
    by (simp add: process_row_def idx Let_def springfield_addresses springfield_existing
        default_args_def resolve_def chain finish_row_def round_halves wr
        after_springfield_def)
qed

lemma annex_addresses:
  "build_primary_address B annex = ''1 Main St, Springfield, IL, 62701''"
  "build_hospital_address B annex = ''Hospital Annex, Springfield, IL, 62701''"
  "build_city_address B annex = ''Springfield, IL, 62701''"
  by (simp_all add: build_primary_address_def build_hospital_address_def build_city_address_def
      annex_def hospital_row_def col_defs field_def dict_get_default_def join_nonempty_def
      strip_def is_space_def)

lemma annex_existing:
  "existing_geo annex = (VNone, VNone, VNone)"
  "existing_source annex = VStr ''census''"
  by (simp_all add: existing_geo_def existing_source_def annex_def hospital_row_def
      col_defs dict_get_def py_or_def)

lemma after_springfield_simps [simp]:
  "rows (after_springfield rest) = store_result springfield (VNum (79 / 2)) (VNum (- (179 / 2)))
                    (VStr ''census_city'') (VStr ''L'') # rest"
  "cache (after_springfield rest) = [''1 Main St, Springfield, IL, 62701'' \<mapsto>
                    (VNum (79 / 2), VNum (- (179 / 2)), VStr ''L'')]"
  "requests (after_springfield rest) = [''1 Main St, Springfield, IL, 62701'',
                     ''General Hospital, Springfield, IL, 62701'', ''Springfield, IL, 62701'']"
  "sleeps (after_springfield rest) = [1 / 4]"
  "unmatched_rows (after_springfield rest) = []"
  by (simp_all add: after_springfield_def)

lemma annex_cache_hit:
  "process_row decimal_builtins city_only default_args out_fields 1 (after_springfield [annex])
     = Inr after_annex"
proof -
  have idx: "py_index [x, annex] 1 = Inr 1" for x
    by (simp add: py_index_def)
  have wr: "writerow out_fields (store_result annex (VNum (79 / 2)) (VNum (- (179 / 2)))
                    (VStr ''census'') (VStr ''L'')) =
       Inr [VStr ''Hospital Annex'', VStr ''1 Main St'', VStr ''Springfield'',
                      VStr ''IL'', VStr ''62701'', VNum (79 / 2), VNum (- (179 / 2)),
                      VStr ''census'', VStr ''L'']"
    by (simp add: writerow_def out_fields_def store_result_def dict_set_def annex_def
        hospital_row_def col_defs dict_get_default_def)
  show ?thesis
    by (simp add: process_row_def idx Let_def annex_addresses annex_existing
        default_args_def resolve_def finish_row_def round_halves wr after_annex_def)
qed

lemma after_annex_simps [simp]:
  "rows after_annex = [store_result springfield (VNum (79 / 2)) (VNum (- (179 / 2)))
                    (VStr ''census_city'') (VStr ''L''),
                 store_result annex (VNum (79 / 2)) (VNum (- (179 / 2)))
                    (VStr ''census'') (VStr ''L'')]"
  "cache after_annex = cache (after_springfield [annex])"
  "requests after_annex = requests (after_springfield [annex])"
  "sleeps after_annex = sleeps (after_springfield [annex])"
  "unmatched_rows after_annex = []"
  by (simp_all add: after_annex_def)

lemma float_samples:
  "decimal_float ''40.712776'' = Some (5089097 / 125000)"
  "decimal_float ''-74.005974'' = Some (- (37002987 / 500000))"
  "decimal_float ''n/a'' = None"
  by (simp_all add: decimal_float_def strip_def is_space_def unsigned_decimal_def digit_def)

lemma round_samples:
  "decimal_round (5089097 / 125000) 5 = Some (2035639 / 50000)"
  "decimal_round (5089097 / 125000) 2 = Some (4071 / 100)"
  "decimal_round (- (37002987 / 500000)) 5 = Some (- (7400597 / 100000))"
  by code_simp+

lemma decimal_builtins_simps [simp]:
  "float_str decimal_builtins = decimal_float"
  "round_float decimal_builtins = decimal_round"
  by (simp_all add: decimal_builtins_def)

lemma round_coords_samples:
  "round_coords decimal_builtins 5 (VStr ''40.712776'') (VStr ''-74.005974'')
     = (VNum (2035639 / 50000), VNum (- (7400597 / 100000)))"
  "round_coords decimal_builtins 5 (VStr ''n/a'') (VStr ''40.712776'')
     = (VStr ''n/a'', VStr ''40.712776'')"
  "round_coords decimal_builtins 5 (VStr ''40.712776'') (VStr ''n/a'')
     = (VNum (2035639 / 50000), VStr ''n/a'')"
  "round_coords decimal_builtins 5 VNone (VStr ''40.712776'')
     = (VNone, VNum (2035639 / 50000))"
  "round_coords decimal_builtins 2 (VNum (5089097 / 125000)) VNone = (VNum (4071 / 100), VNone)"
  by (simp_all add: round_coords_def round_value_def float_samples round_samples)

lemma with_coords_addresses:
  "build_primary_address B (with_coords a b) = ''1 Main St, Springfield, IL, 62701''"
  by (simp add: build_primary_address_def with_coords_def
      springfield_def hospital_row_def col_defs field_def dict_get_default_def join_nonempty_def)

lemma with_coords_existing:
  "existing_geo (with_coords a b) = (VStr a, VStr b, VNone)"
  "existing_source (with_coords a b) = VStr ''census''"
  by (simp_all add: existing_geo_def existing_source_def with_coords_def springfield_def
      hospital_row_def col_defs dict_get_def py_or_def)

lemma with_coords_skipped:
  assumes "a \<noteq> []" "b \<noteq> []"
  shows "process_row decimal_builtins net default_args out_fields 0 (initial [with_coords a b])
     = Inr (after_with_coords a b)"
proof -
  have idx: "py_index [x] 0 = Inr 0" for x :: row
    by (simp add: py_index_def)
  have wr: "writerow out_fields (store_result (with_coords a b) x y (VStr ''census'') VNone) =
       Inr [VStr ''General Hospital'', VStr ''1 Main St'', VStr ''Springfield'',
                      VStr ''IL'', VStr ''62701'', x, y, VStr ''census'', VNone]" for x y
    by (simp add: writerow_def out_fields_def store_result_def dict_set_def with_coords_def
        springfield_def hospital_row_def col_defs dict_get_default_def)
  obtain x y where rc: "round_coords decimal_builtins 5 (VStr a) (VStr b) = (x, y)"
    by (cases "round_coords decimal_builtins 5 (VStr a) (VStr b)") auto
  have nn: "x \<noteq> VNone" "y \<noteq> VNone"
    using round_coords_None [of decimal_builtins 5 "VStr a" "VStr b"] rc by auto
  show ?thesis
    using assms nn
    by (simp add: process_row_def idx Let_def with_coords_addresses with_coords_existing
        default_args_def resolve_def finish_row_def rc wr after_with_coords_def)
qed

lemma after_with_coords_rows:
  "rows (after_with_coords a b) ! 0 =
     store_result (with_coords a b) (fst (round_coords decimal_builtins 5 (VStr a) (VStr b)))
       (snd (round_coords decimal_builtins 5 (VStr a) (VStr b))) (VStr ''census'') VNone"
  by (simp add: after_with_coords_def Let_def)

lemma with_coords_get:
  "dict_get (with_coords a b) ''Latitude'' = VStr a"
  "dict_get (with_coords a b) ''Longitude'' = VStr b"
  by (simp_all add: with_coords_def springfield_def hospital_row_def col_defs dict_get_def)

lemma float_rounded_samples:
  "decimal_float ''40.71278'' = Some (2035639 / 50000)"
  "decimal_float ''-74.00597'' = Some (- (7400597 / 100000))"
  by (simp_all add: decimal_float_def strip_def is_space_def unsigned_decimal_def digit_def)

lemma round_rounded_samples:
  "decimal_round (2035639 / 50000) 5 = Some (2035639 / 50000)"
  "decimal_round (- (7400597 / 100000)) 5 = Some (- (7400597 / 100000))"
  by code_simp+

lemma default_args_simps [simp]:
  "round_decimals default_args = 5" "sleep default_args = 1 / 4"
  by (simp_all add: default_args_def)

lemma oak_addresses:
  "build_primary_address B oak = ''2 Oak Ave, Springfield, IL, 62701''"
  "build_hospital_address B oak = ''Mercy Clinic, Springfield, IL, 62701''"
  "build_city_address B oak = ''Springfield, IL, 62701''"
  by (simp_all add: build_primary_address_def build_hospital_address_def build_city_address_def
      oak_def hospital_row_def col_defs field_def dict_get_default_def join_nonempty_def
      strip_def is_space_def)

lemma oak_existing:
  "existing_geo oak = (VNone, VNone, VNone)"
  "existing_source oak = VStr ''census''"
  by (simp_all add: existing_geo_def existing_source_def oak_def hospital_row_def
      col_defs dict_get_def py_or_def)

lemma round_coords_None_None [simp]: "round_coords B n VNone VNone = (VNone, VNone)"
  by (simp add: round_coords_def)

lemma chain_nowhere:
  assumes "p \<noteq> []"
  shows "lookup_chain B nowhere r p source reqs =
     Inr (absent, source,
          reqs @ [p]
            @ (if build_hospital_address B r \<noteq> [] \<and> build_hospital_address B r \<noteq> p
               then [build_hospital_address B r] else [])
            @ (if build_city_address B r \<noteq> [] then [build_city_address B r] else []))"
  using assms
  by (simp add: lookup_chain_def attempt_hospital_def attempt_city_def Let_def nowhere_def
      census_geocode_service_of parse_no_match matched_def absent_def)

lemma springfield_nowhere:
  "process_row decimal_builtins nowhere default_args out_fields 0 (initial (springfield # rest)) =
     Inr (after_nowhere rest)"
proof -
  have idx: "py_index (springfield # rest) 0 = Inr 0"
    by (simp add: py_index_def)
  have wr: "writerow out_fields springfield_unmatched =
       Inr [VStr ''General Hospital'', VStr ''1 Main St'', VStr ''Springfield'',
            VStr ''IL'', VStr ''62701'', VNone, VNone, VStr ''census'', VNone]"
    by (simp add: writerow_def out_fields_def store_result_def dict_set_def springfield_def
        hospital_row_def col_defs dict_get_default_def springfield_unmatched_def)
  show ?thesis
    by (simp add: process_row_def idx Let_def springfield_addresses springfield_existing
        resolve_def chain_nowhere finish_row_def wr after_nowhere_def absent_def
        springfield_unmatched_def [symmetric])
qed

lemma after_nowhere_simps [simp]:
  "rows (after_nowhere rest) = springfield_unmatched # rest"
  "cache (after_nowhere rest) = [''1 Main St, Springfield, IL, 62701'' \<mapsto> absent]"
  "requests (after_nowhere rest) = [''1 Main St, Springfield, IL, 62701'',
                     ''General Hospital, Springfield, IL, 62701'', ''Springfield, IL, 62701'']"
  "sleeps (after_nowhere rest) = [1 / 4]"
  "unmatched_rows (after_nowhere rest) = [unmatched_copy decimal_builtins springfield_unmatched
                             ''1 Main St, Springfield, IL, 62701'']"
  by (simp_all add: after_nowhere_def)

lemma oak_nowhere:
  "process_row decimal_builtins nowhere default_args out_fields 1 (after_nowhere [oak]) = Inr after_oak"
proof -
  have idx: "py_index [x, oak] 1 = Inr 1" for x
    by (simp add: py_index_def)
  have wr: "writerow out_fields oak_unmatched =
       Inr [VStr ''Mercy Clinic'', VStr ''2 Oak Ave'', VStr ''Springfield'',
            VStr ''IL'', VStr ''62701'', VNone, VNone, VStr ''census'', VNone]"
    by (simp add: writerow_def out_fields_def store_result_def dict_set_def oak_def
        hospital_row_def col_defs dict_get_default_def oak_unmatched_def)
  show ?thesis
    by (simp add: process_row_def idx Let_def oak_addresses oak_existing
        resolve_def chain_nowhere finish_row_def wr after_oak_def absent_def
        oak_unmatched_def [symmetric])
qed

lemma after_oak_simps [simp]:
  "rows after_oak = [springfield_unmatched, oak_unmatched]"
  "requests after_oak = [''1 Main St, Springfield, IL, 62701'',
      ''General Hospital, Springfield, IL, 62701'', ''Springfield, IL, 62701'',
      ''2 Oak Ave, Springfield, IL, 62701'', ''Mercy Clinic, Springfield, IL, 62701'',
      ''Springfield, IL, 62701'']"
  "sleeps after_oak = [1 / 4, 1 / 4]"
  "unmatched_rows after_oak =
     [unmatched_copy decimal_builtins springfield_unmatched ''1 Main St, Springfield, IL, 62701'',
      unmatched_copy decimal_builtins oak_unmatched ''2 Oak Ave, Springfield, IL, 62701'']"
  "outfile after_oak =
     [[VStr ''General Hospital'', VStr ''1 Main St'', VStr ''Springfield'',
       VStr ''IL'', VStr ''62701'', VNone, VNone, VStr ''census'', VNone],
      [VStr ''Mercy Clinic'', VStr ''2 Oak Ave'', VStr ''Springfield'',
       VStr ''IL'', VStr ''62701'', VNone, VNone, VStr ''census'', VNone]]"
  by (simp_all add: after_oak_def after_nowhere_def)

lemma sample_range: "index_range default_args [x, y] = [0, 1]"
  by (simp add: index_range_def default_args_def upto.simps)

lemma main_Done:
  assumes "filter (\<lambda>col. col \<notin> set (map fst r0)) REQUIRED_COLS = []"
    and "process_rows B net a (output_fieldnames (map fst r0)) (index_range a (r0 # rest))
           (initial (r0 # rest)) = Inr st"
    and "write_unmatched (unmatched_rows st) = Inr uf"
  shows "main B net a (r0 # rest) = Inr (Done (output_fieldnames (map fst r0)) st uf)"
  using assms by (simp add: main_def Let_def)

lemma sample_headers:
  "filter (\<lambda>col. col \<notin> set (map fst springfield)) REQUIRED_COLS = []"
  "output_fieldnames (map fst springfield) = out_fields"
  by (simp_all add: springfield_def hospital_row_def REQUIRED_COLS_def col_defs
      output_fieldnames_def RESULT_COLS_def out_fields_def)

lemma unmatched_keys:
  "map fst (unmatched_copy B springfield_unmatched p) =
     out_fields @ [''Unmatched_Primary_Address'', ''Unmatched_Hospital_Address'',
                   ''Unmatched_City_Address'']"
  "map fst (unmatched_copy B oak_unmatched p) =
     out_fields @ [''Unmatched_Primary_Address'', ''Unmatched_Hospital_Address'',
                   ''Unmatched_City_Address'']"
  by (simp_all add: unmatched_copy_def springfield_unmatched_def oak_unmatched_def
      store_result_def keys_dict_set springfield_def oak_def hospital_row_def col_defs
      out_fields_def)

lemma write_unmatched_oak: "write_unmatched (unmatched_rows after_oak) = Inr (Some oak_table)"
  by (simp add: write_unmatched_def writerow_def unmatched_keys oak_table_def Let_def)

lemma main_nowhere:
  "main decimal_builtins nowhere default_args [springfield, oak]
     = Inr (Done out_fields after_oak (Some oak_table))"
proof -
  have loop: "process_rows decimal_builtins nowhere default_args
          (output_fieldnames (map fst springfield)) (index_range default_args (springfield # [oak]))
          (initial (springfield # [oak])) = Inr after_oak"
    by (simp add: sample_headers(2) sample_range springfield_nowhere oak_nowhere)
  from main_Done [OF sample_headers(1) loop write_unmatched_oak] show ?thesis
    by (simp only: sample_headers(2))
qed

lemma annex_nowhere_hit:
  "process_row decimal_builtins nowhere default_args out_fields 1 (after_nowhere [annex])
     = Inr after_annex_nowhere"
proof -
  have idx: "py_index [x, annex] 1 = Inr 1" for x
    by (simp add: py_index_def)
  have wr: "writerow out_fields annex_unmatched =
       Inr [VStr ''Hospital Annex'', VStr ''1 Main St'', VStr ''Springfield'',
            VStr ''IL'', VStr ''62701'', VNone, VNone, VStr ''census'', VNone]"
    by (simp add: writerow_def out_fields_def store_result_def dict_set_def annex_def
        hospital_row_def col_defs dict_get_default_def annex_unmatched_def)
  show ?thesis
    by (simp add: process_row_def idx Let_def annex_addresses annex_existing
        resolve_def finish_row_def wr after_annex_nowhere_def absent_def
        annex_unmatched_def [symmetric])
qed

lemma after_annex_nowhere_simps [simp]:
  "rows after_annex_nowhere = [springfield_unmatched, annex_unmatched]"
  "requests after_annex_nowhere = requests (after_nowhere [annex])"
  "sleeps after_annex_nowhere = sleeps (after_nowhere [annex])"
  "cache after_annex_nowhere = cache (after_nowhere [annex])"
  by (simp_all add: after_annex_nowhere_def)

lemma sample_coordinates:
  "dict_get springfield ''Latitude'' = VNone" "dict_get springfield ''Longitude'' = VNone"
  "dict_get annex ''Latitude'' = VNone" "dict_get annex ''Longitude'' = VNone"
  "dict_get oak ''Latitude'' = VNone" "dict_get oak ''Longitude'' = VNone"
  by (simp_all add: springfield_def annex_def oak_def hospital_row_def col_defs dict_get_def)

lemma round_coords_rounded:
  "round_coords decimal_builtins 5 (VStr ''40.71278'') (VStr ''-74.00597'')
     = (VNum (4071278 / 100000), VNum (- (7400597 / 100000)))"
  by (simp add: round_coords_def round_value_def float_rounded_samples round_rounded_samples)

lemma resumed_skipped:
  "process_row decimal_builtins net default_args out_fields 0 (initial (resumed # rest))
     = Inr (after_resumed rest)"
proof -
  let ?w = "with_coords ''40.71278'' ''-74.00597''"
  have idx: "py_index (?w # rest) 0 = Inr 0"
    by (simp add: py_index_def)
  have wr: "writerow out_fields (store_result ?w x y (VStr ''census'') VNone) =
       Inr [VStr ''General Hospital'', VStr ''1 Main St'', VStr ''Springfield'',
            VStr ''IL'', VStr ''62701'', x, y, VStr ''census'', VNone]" for x y
    by (simp add: writerow_def out_fields_def store_result_def dict_set_def with_coords_def
        springfield_def hospital_row_def col_defs dict_get_default_def)
  show ?thesis
    unfolding resumed_def resumed_done_def after_resumed_def
    by (simp add: process_row_def idx Let_def with_coords_addresses
        with_coords_existing resolve_def finish_row_def round_coords_rounded wr)
qed

lemma after_resumed_simps [simp]:
  "rows (after_resumed rest) = resumed_done # rest"
  "cache (after_resumed rest) = Map.empty"
  "requests (after_resumed rest) = []"
  "sleeps (after_resumed rest) = []"
  "unmatched_rows (after_resumed rest) = []"
  by (simp_all add: after_resumed_def)

lemma springfield_chain:
  "lookup_chain decimal_builtins city_only springfield
       ''1 Main St, Springfield, IL, 62701'' (VStr ''census'') [] =
       Inr ((VNum (79 / 2), VNum (- (179 / 2)), VStr ''L''), VStr ''census_city'',
            [''1 Main St, Springfield, IL, 62701'',
             ''General Hospital, Springfield, IL, 62701'', ''Springfield, IL, 62701''])"
  by (simp add: lookup_chain_def attempt_hospital_def attempt_city_def springfield_addresses
      Let_def city_only_def census_geocode_service_of parse_no_match parse_match matched_def
      absent_def)

lemma writerow_springfield:
  "writerow out_fields (store_result springfield (VNum (79 / 2)) (VNum (- (179 / 2)))
                    (VStr ''census_city'') (VStr ''L'')) =
       Inr [VStr ''General Hospital'', VStr ''1 Main St'', VStr ''Springfield'',
                      VStr ''IL'', VStr ''62701'', VNum (79 / 2), VNum (- (179 / 2)),
                      VStr ''census_city'', VStr ''L'']"
  by (simp add: writerow_def out_fields_def store_result_def dict_set_def springfield_def
      hospital_row_def col_defs dict_get_default_def)

lemma springfield_after_resumed:
  "process_row decimal_builtins city_only default_args out_fields 1 (after_resumed [springfield])
     = Inr after_resumed_springfield"
proof -
  have idx: "py_index [x, springfield] 1 = Inr 1" for x
    by (simp add: py_index_def)
  show ?thesis
    by (simp add: process_row_def idx Let_def springfield_addresses springfield_existing
        resolve_def springfield_chain finish_row_def round_halves writerow_springfield
        after_resumed_springfield_def)
qed

lemma process_row_skip:
  assumes idx: "py_index (rows st) idx = Inr j"
    and lat: "truthy (dict_get (rows st ! j) ''Latitude'')"
    and lon: "truthy (dict_get (rows st ! j) ''Longitude'')"
    and rc: "round_coords B (round_decimals a) (dict_get (rows st ! j) ''Latitude'')
               (dict_get (rows st ! j) ''Longitude'') = (x, y)"
    and wr: "writerow fs (store_result (rows st ! j) x y (existing_source (rows st ! j))
               (dict_get (rows st ! j) ''Geo_Confidence'')) = Inr line"
  shows "process_row B net a fs idx st =
     Inr (st\<lparr>rows := (rows st)[j := store_result (rows st ! j) x y (existing_source (rows st ! j))
                                    (dict_get (rows st ! j) ''Geo_Confidence'')],
             outfile := outfile st @ [line]\<rparr>)"
proof -
  from round_coords_None [of B "round_decimals a" "dict_get (rows st ! j) ''Latitude''"
      "dict_get (rows st ! j) ''Longitude''"] rc lat lon
  have nn: "x \<noteq> VNone" "y \<noteq> VNone"
    by (auto dest: truthy_not_None)
  show ?thesis
    using lat lon nn
    by (simp add: process_row_def idx Let_def existing_geo_def resolve_def finish_row_def rc wr)
qed

lemmas resumed_defs = resumed_def resumed_oak_def resumed_done_def resumed_oak_done_def
  with_coords_def springfield_def oak_def hospital_row_def col_defs

lemma resumed_cells:
  "dict_get resumed ''Latitude'' = VStr ''40.71278''"
  "dict_get resumed ''Longitude'' = VStr ''-74.00597''"
  "dict_get resumed ''Geo_Confidence'' = VNone"
  "existing_source resumed = VStr ''census''"
  "dict_get resumed_oak ''Latitude'' = VStr ''40.71278''"
  "dict_get resumed_oak ''Longitude'' = VStr ''-74.00597''"
  "dict_get resumed_oak ''Geo_Confidence'' = VNone"
  "existing_source resumed_oak = VStr ''census''"
  "dict_get resumed_oak_done ''Latitude'' = VNum (2035639 / 50000)"
  "dict_get resumed_oak_done ''Longitude'' = VNum (- (7400597 / 100000))"
  "dict_get resumed_oak_done ''Geo_Confidence'' = VNone"
  "existing_source resumed_oak_done = VStr ''census''"
  by (simp_all add: resumed_defs existing_source_def dict_get_def py_or_def store_result_def
      dict_set_def)

lemma resumed_stores:
  "store_result resumed (VNum (2035639 / 50000)) (VNum (- (7400597 / 100000)))
     (VStr ''census'') VNone = resumed_done"
  "store_result resumed_oak (VNum (2035639 / 50000)) (VNum (- (7400597 / 100000)))
     (VStr ''census'') VNone = resumed_oak_done"
  "store_result resumed_oak_done (VNum (2035639 / 50000)) (VNum (- (7400597 / 100000)))
     (VStr ''census'') VNone = resumed_oak_done"
  by (simp_all add: resumed_defs store_result_def dict_set_def)

lemma resumed_lines:
  "writerow out_fields resumed_done = Inr resumed_line"
  "writerow out_fields resumed_oak_done = Inr oak_line"
  by (simp_all add: writerow_def out_fields_def resumed_defs store_result_def dict_set_def
      dict_get_default_def resumed_line_def oak_line_def)

lemma round_coords_numbers:
  "round_coords decimal_builtins 5 (VNum (2035639 / 50000)) (VNum (- (7400597 / 100000)))
     = (VNum (2035639 / 50000), VNum (- (7400597 / 100000)))"
  by (simp add: round_coords_def round_value_def round_rounded_samples)

lemma wrapped_args_simps [simp]:
  "round_decimals wrapped_args = 5" "start wrapped_args = - 1" "limit wrapped_args = None"
  by (simp_all add: wrapped_args_def default_args_def)

lemma wrapped_loop:
  "process_rows decimal_builtins net wrapped_args out_fields [- 1, 0, 1]
     (initial [resumed, resumed_oak]) = Inr after_wrapped"
proof -
  let ?s0 = "initial [resumed, resumed_oak]"
  let ?s1 = "?s0\<lparr>rows := [resumed, resumed_oak_done], outfile := [oak_line]\<rparr>"
  let ?s2 = "?s0\<lparr>rows := [resumed_done, resumed_oak_done], outfile := [oak_line, resumed_line]\<rparr>"
  have one: "process_row decimal_builtins net wrapped_args out_fields (- 1) ?s0 = Inr ?s1"
    using process_row_skip [of ?s0 "- 1" 1 decimal_builtins wrapped_args
        "VNum (2035639 / 50000)" "VNum (- (7400597 / 100000))" out_fields oak_line net]
    by (simp add: py_index_def resumed_cells round_coords_rounded resumed_stores resumed_lines)
  have two: "process_row decimal_builtins net wrapped_args out_fields 0 ?s1 = Inr ?s2"
    using process_row_skip [of ?s1 0 0 decimal_builtins wrapped_args
        "VNum (2035639 / 50000)" "VNum (- (7400597 / 100000))" out_fields resumed_line net]
    by (simp add: py_index_def resumed_cells round_coords_rounded resumed_stores resumed_lines)
  have three: "process_row decimal_builtins net wrapped_args out_fields 1 ?s2 = Inr after_wrapped"
    using process_row_skip [of ?s2 1 1 decimal_builtins wrapped_args
        "VNum (2035639 / 50000)" "VNum (- (7400597 / 100000))" out_fields oak_line net]
    by (simp add: py_index_def resumed_cells round_coords_numbers resumed_stores resumed_lines
        after_wrapped_def)
  show ?thesis
    by (simp add: one two three)
qed

lemma wrapped_headers:
  "filter (\<lambda>col. col \<notin> set (map fst resumed)) REQUIRED_COLS = []"
  "output_fieldnames (map fst resumed) = out_fields"
  by (simp_all add: resumed_defs REQUIRED_COLS_def output_fieldnames_def RESULT_COLS_def
      out_fields_def)

lemma wrapped_range: "index_range wrapped_args [x, y] = [- 1, 0, 1]"
  by (simp add: index_range_def upto.simps)

lemma main_wrapped:
  "main decimal_builtins nowhere wrapped_args [resumed, resumed_oak]
     = Inr (Done out_fields after_wrapped None)"
proof -
  have loop: "process_rows decimal_builtins nowhere wrapped_args
          (output_fieldnames (map fst resumed)) (index_range wrapped_args (resumed # [resumed_oak]))
          (initial (resumed # [resumed_oak])) = Inr after_wrapped"
    by (simp only: wrapped_headers(2) wrapped_range wrapped_loop)
  have none: "write_unmatched (unmatched_rows after_wrapped) = Inr None"
    by (simp add: after_wrapped_def write_unmatched_def)
  from main_Done [OF wrapped_headers(1) loop none] show ?thesis
    by (simp only: wrapped_headers(2))
qed

lemma springfield_street_known:
  "process_row decimal_builtins street_known default_args out_fields 0 (initial [springfield])
     = Inr after_street_known"
proof -
  have idx: "py_index [springfield] 0 = Inr 0"
    by (simp add: py_index_def)
  have chain: "lookup_chain decimal_builtins street_known springfield
       ''1 Main St, Springfield, IL, 62701'' (VStr ''census'') [] =
       Inr ((VNum (79 / 2), VNum (- (179 / 2)), VStr ''R''), VStr ''census_primary'',
            [''1 Main St, Springfield, IL, 62701''])"
    by (simp add: lookup_chain_def street_known_def census_geocode_service_of parse_match
        matched_def)
  have wr: "writerow out_fields (store_result springfield (VNum (79 / 2)) (VNum (- (179 / 2)))
                    (VStr ''census_primary'') (VStr ''R'')) =
       Inr [VStr ''General Hospital'', VStr ''1 Main St'', VStr ''Springfield'',
                      VStr ''IL'', VStr ''62701'', VNum (79 / 2), VNum (- (179 / 2)),
                      VStr ''census_primary'', VStr ''R'']"
    by (simp add: writerow_def out_fields_def store_result_def dict_set_def springfield_def
        hospital_row_def col_defs dict_get_default_def)
  show ?thesis
    by (simp add: process_row_def idx Let_def springfield_addresses springfield_existing
        resolve_def chain finish_row_def round_halves wr after_street_known_def)
qed

lemma round_coarse_samples:
  "decimal_round (2035639 / 50000) 2 = Some (4071 / 100)"
  "decimal_round (- (7400597 / 100000)) 2 = Some (- (7401 / 100))"
  by code_simp+

lemma resumed_coarse:
  "process_row decimal_builtins net coarse_args out_fields 0 (initial [resumed]) = Inr after_coarse"
proof -
  have rc: "round_coords decimal_builtins 2 (VStr ''40.71278'') (VStr ''-74.00597'')
     = (VNum (4071 / 100), VNum (- (7401 / 100)))"
    by (simp add: round_coords_def round_value_def float_rounded_samples round_coarse_samples)
  have wr: "writerow out_fields (store_result resumed (VNum (4071 / 100)) (VNum (- (7401 / 100)))
                    (VStr ''census'') VNone) =
       Inr [VStr ''General Hospital'', VStr ''1 Main St'', VStr ''Springfield'',
            VStr ''IL'', VStr ''62701'', VNum (4071 / 100), VNum (- (7401 / 100)),
            VStr ''census'', VNone]"
    by (simp add: writerow_def out_fields_def store_result_def dict_set_def resumed_defs
        dict_get_default_def)
  show ?thesis
    using process_row_skip [of "initial [resumed]" 0 0 decimal_builtins coarse_args
        "VNum (4071 / 100)" "VNum (- (7401 / 100))" out_fields _ net]
    by (simp add: py_index_def resumed_cells rc wr coarse_args_def default_args_def
        after_coarse_def)
qed

subsection \<open>The unmatched copy\<close>

lemma keyset_dict_set: "set (map fst (dict_set r k v)) = insert k (set (map fst r))"
  by (simp add: dict_set_def dom_update)

lemma unmatched_copy_keys:
  "set (map fst (unmatched_copy B r p)) =
     set (map fst r) \<union> {''Unmatched_Primary_Address'', ''Unmatched_Hospital_Address'',
                          ''Unmatched_City_Address''}"
  unfolding unmatched_copy_def keyset_dict_set by blast

lemma dict_get_default_set:
  "dict_get_default (dict_set r k v) k' d = (if k' = k then v else dict_get_default r k' d)"
  by (simp add: dict_get_default_def dict_set_def update_conv')

lemma field_store_result:
  "col \<notin> set RESULT_COLS \<Longrightarrow> field B (store_result r lat lon source conf) col = field B r col"
  by (auto simp: field_def store_result_def dict_get_default_set RESULT_COLS_def)

lemma addresses_store_result:
  "build_primary_address B (store_result r lat lon source conf) = build_primary_address B r"
  "build_hospital_address B (store_result r lat lon source conf) = build_hospital_address B r"
  "build_city_address B (store_result r lat lon source conf) = build_city_address B r"
  by (simp_all add: build_primary_address_def build_hospital_address_def build_city_address_def
      field_store_result RESULT_COLS_def col_defs)

lemma chain_all_fail:
  assumes "p \<noteq> []" "build_hospital_address B r \<noteq> []" "build_hospital_address B r \<noteq> p"
    "build_city_address B r \<noteq> []"
    and "census_geocode net reqs p = Inr (absent, reqs1)"
    and "census_geocode net reqs1 (build_hospital_address B r) = Inr (absent, reqs2)"
    and "census_geocode net reqs2 (build_city_address B r) = Inr (absent, reqs3)"
  shows "lookup_chain B net r p source reqs = Inr (absent, source, reqs3)"
  using assms
  by (simp add: lookup_chain_def attempt_hospital_def attempt_city_def matched_def absent_def)

subsection \<open>The order of the fallback tiers\<close>

lemma chain_trace_shape:
  assumes chain: "lookup_chain B net r p source reqs = Inr (g', source', reqs')" and "p \<noteq> []"
  shows "(\<exists>g1. census_geocode net reqs p = Inr (g1, reqs @ [p]) \<and>
      (matched g1 \<longrightarrow> g' = g1 \<and> reqs' = reqs @ [p] \<and> source' = VStr ''census_primary'') \<and>
      (\<not> matched g1 \<longrightarrow> (\<exists>C.
         reqs' = reqs @ [p] @ (if (build_hospital_address B r) \<noteq> [] \<and> (build_hospital_address B r) \<noteq> p then [(build_hospital_address B r)] else [])
                   @ (if C then [(build_city_address B r)] else []) \<and>
         ((build_hospital_address B r) \<noteq> [] \<and> (build_hospital_address B r) \<noteq> p \<longrightarrow>
            (\<exists>g2. census_geocode net (reqs @ [p]) (build_hospital_address B r) = Inr (g2, reqs @ [p, (build_hospital_address B r)]) \<and>
                  (matched g2 \<longrightarrow> \<not> C \<and> g' = g2 \<and> source' = VStr ''census_hospital''))) \<and>
         (C \<longrightarrow> (build_city_address B r) \<noteq> [] \<and>
            census_geocode net (reqs @ [p] @ (if (build_hospital_address B r) \<noteq> [] \<and> (build_hospital_address B r) \<noteq> p then [(build_hospital_address B r)] else []))
              (build_city_address B r) = Inr (g', reqs') \<and>
            (matched g' \<longrightarrow> source' = VStr ''census_city'')))
       \<and> (\<not> matched g' \<longrightarrow> source' = source)))"
  using chain_trace [OF assms] by simp

text \<open>
  C1. A row without both coordinates, with a non-empty primary address that is not yet a
  cache key: the primary address is the first request; if it matches, it is the only
  request and the row's source tag is census_primary; the hospital address is requested
  exactly when the primary lookup did not match and the hospital address is non-empty
  and differs from the primary address, and its match tags the row census_hospital and
  ends the chain; the city address is requested only when nothing matched so far and it
  is non-empty, and its match tags the row census_city. A row with an empty primary
  address sends no request.
\<close>

theorem process_row_fallback_order:
  assumes run: "process_row B net a fs idx st = Inr st'" and idx: "py_index (rows st) idx = Inr j"
  shows
   "(let r = rows st ! j;
         p = build_primary_address B r;
         hosp = build_hospital_address B r;
         city = build_city_address B r;
         tag = dict_get (rows st' ! j) ''Geo_Source''
     in (p = [] \<longrightarrow> requests st' = requests st) \<and>
        (\<not> (truthy (dict_get r ''Latitude'') \<and> truthy (dict_get r ''Longitude'')) \<and> p \<noteq> []
           \<and> cache st p = None \<longrightarrow>
         (\<exists>g.
           (\<exists>g1. census_geocode net (requests st) p = Inr (g1, (requests st) @ [p]) \<and>
             (matched g1 \<longrightarrow> g = g1 \<and> requests st' = (requests st) @ [p] \<and> tag = VStr ''census_primary'') \<and>
             (\<not> matched g1 \<longrightarrow> (\<exists>C.
                requests st' = (requests st) @ [p] @ (if hosp \<noteq> [] \<and> hosp \<noteq> p then [hosp] else [])
                          @ (if C then [city] else []) \<and>
                (hosp \<noteq> [] \<and> hosp \<noteq> p \<longrightarrow>
                   (\<exists>g2. census_geocode net ((requests st) @ [p]) hosp = Inr (g2, (requests st) @ [p, hosp]) \<and>
                         (matched g2 \<longrightarrow> \<not> C \<and> g = g2 \<and> tag = VStr ''census_hospital''))) \<and>
                (C \<longrightarrow> city \<noteq> [] \<and>
                   census_geocode net ((requests st) @ [p] @ (if hosp \<noteq> [] \<and> hosp \<noteq> p then [hosp] else []))
                     city = Inr (g, requests st') \<and>
                   (matched g \<longrightarrow> tag = VStr ''census_city'')))
              \<and> (\<not> matched g \<longrightarrow> tag = existing_source r))))))"
proof -
  let ?r = "rows st ! j"
  let ?p = "build_primary_address B ?r"
  show ?thesis
  proof (rule process_row_result [OF run idx])
    fix lat lon conf source st1
    assume res: "resolve B net (sleep a) ?r ?p (existing_geo ?r) (existing_source ?r) st
              = Inr ((lat, lon, conf), source, st1)" and
      rows': "rows st' = (rows st)[j := store_result ?r
          (fst (round_coords B (round_decimals a) lat lon))
          (snd (round_coords B (round_decimals a) lat lon)) source conf]" and
      reqs': "requests st' = requests st1"
    have tag: "dict_get (rows st' ! j) ''Geo_Source'' = source"
      using process_row_final_row [OF rows' idx] by (simp add: dict_get_store_result)
    have empty: "?p = [] \<longrightarrow> requests st' = requests st"
      using res reqs' by (auto simp: existing_geo_def resolve_skip)
    have miss: "\<not> (truthy (dict_get (rows st ! j) ''Latitude'') \<and> truthy (dict_get (rows st ! j) ''Longitude'')) \<and> (build_primary_address B (rows st ! j)) \<noteq> [] \<and> cache st (build_primary_address B (rows st ! j)) = None \<longrightarrow>
 (\<exists>g.
   (\<exists>g1. census_geocode net (requests st) (build_primary_address B (rows st ! j)) = Inr (g1, (requests st) @ [(build_primary_address B (rows st ! j))]) \<and>
     (matched g1 \<longrightarrow> g = g1 \<and> requests st' = (requests st) @ [(build_primary_address B (rows st ! j))] \<and> (dict_get (rows st' ! j) ''Geo_Source'') = VStr ''census_primary'') \<and>
     (\<not> matched g1 \<longrightarrow> (\<exists>C.
        requests st' = (requests st) @ [(build_primary_address B (rows st ! j))] @ (if (build_hospital_address B (rows st ! j)) \<noteq> [] \<and> (build_hospital_address B (rows st ! j)) \<noteq> (build_primary_address B (rows st ! j)) then [(build_hospital_address B (rows st ! j))] else [])
                  @ (if C then [(build_city_address B (rows st ! j))] else []) \<and>
        ((build_hospital_address B (rows st ! j)) \<noteq> [] \<and> (build_hospital_address B (rows st ! j)) \<noteq> (build_primary_address B (rows st ! j)) \<longrightarrow>
           (\<exists>g2. census_geocode net ((requests st) @ [(build_primary_address B (rows st ! j))]) (build_hospital_address B (rows st ! j)) = Inr (g2, (requests st) @ [(build_primary_address B (rows st ! j)), (build_hospital_address B (rows st ! j))]) \<and>
                 (matched g2 \<longrightarrow> \<not> C \<and> g = g2 \<and> (dict_get (rows st' ! j) ''Geo_Source'') = VStr ''census_hospital''))) \<and>
        (C \<longrightarrow> (build_city_address B (rows st ! j)) \<noteq> [] \<and>
           census_geocode net ((requests st) @ [(build_primary_address B (rows st ! j))] @ (if (build_hospital_address B (rows st ! j)) \<noteq> [] \<and> (build_hospital_address B (rows st ! j)) \<noteq> (build_primary_address B (rows st ! j)) then [(build_hospital_address B (rows st ! j))] else []))
             (build_city_address B (rows st ! j)) = Inr (g, requests st') \<and>
           (matched g \<longrightarrow> (dict_get (rows st' ! j) ''Geo_Source'') = VStr ''census_city'')))
      \<and> (\<not> matched g \<longrightarrow> (dict_get (rows st' ! j) ''Geo_Source'') = existing_source (rows st ! j)))))"
    proof
      assume "\<not> (truthy (dict_get (rows st ! j) ''Latitude'') \<and> truthy (dict_get (rows st ! j) ''Longitude'')) \<and> ?p \<noteq> [] \<and> cache st ?p = None"
      then have need: "\<not> (truthy (dict_get (rows st ! j) ''Latitude'') \<and> truthy (dict_get (rows st ! j) ''Longitude''))"
        and p: "?p \<noteq> []" and fresh: "cache st ?p = None"
        by blast+
      from res need p fresh have
        chain: "lookup_chain B net ?r ?p (existing_source ?r) (requests st)
                  = Inr ((lat, lon, conf), dict_get (rows st' ! j) ''Geo_Source'', requests st')"
        by (auto simp: existing_geo_def resolve_miss bind_Inr_iff tag reqs' split: if_splits)
      note trace = chain_trace_shape [OF chain p]
      show "\<exists>g.
   (\<exists>g1. census_geocode net (requests st) (build_primary_address B (rows st ! j)) = Inr (g1, (requests st) @ [(build_primary_address B (rows st ! j))]) \<and>
     (matched g1 \<longrightarrow> g = g1 \<and> requests st' = (requests st) @ [(build_primary_address B (rows st ! j))] \<and> (dict_get (rows st' ! j) ''Geo_Source'') = VStr ''census_primary'') \<and>
     (\<not> matched g1 \<longrightarrow> (\<exists>C.
        requests st' = (requests st) @ [(build_primary_address B (rows st ! j))] @ (if (build_hospital_address B (rows st ! j)) \<noteq> [] \<and> (build_hospital_address B (rows st ! j)) \<noteq> (build_primary_address B (rows st ! j)) then [(build_hospital_address B (rows st ! j))] else [])
                  @ (if C then [(build_city_address B (rows st ! j))] else []) \<and>
        ((build_hospital_address B (rows st ! j)) \<noteq> [] \<and> (build_hospital_address B (rows st ! j)) \<noteq> (build_primary_address B (rows st ! j)) \<longrightarrow>
           (\<exists>g2. census_geocode net ((requests st) @ [(build_primary_address B (rows st ! j))]) (build_hospital_address B (rows st ! j)) = Inr (g2, (requests st) @ [(build_primary_address B (rows st ! j)), (build_hospital_address B (rows st ! j))]) \<and>
                 (matched g2 \<longrightarrow> \<not> C \<and> g = g2 \<and> (dict_get (rows st' ! j) ''Geo_Source'') = VStr ''census_hospital''))) \<and>
        (C \<longrightarrow> (build_city_address B (rows st ! j)) \<noteq> [] \<and>
           census_geocode net ((requests st) @ [(build_primary_address B (rows st ! j))] @ (if (build_hospital_address B (rows st ! j)) \<noteq> [] \<and> (build_hospital_address B (rows st ! j)) \<noteq> (build_primary_address B (rows st ! j)) then [(build_hospital_address B (rows st ! j))] else []))
             (build_city_address B (rows st ! j)) = Inr (g, requests st') \<and>
           (matched g \<longrightarrow> (dict_get (rows st' ! j) ''Geo_Source'') = VStr ''census_city'')))
      \<and> (\<not> matched g \<longrightarrow> (dict_get (rows st' ! j) ''Geo_Source'') = existing_source (rows st ! j))))"
        by (rule exI) (rule trace)
    qed
    from empty miss show ?thesis
      unfolding Let_def by (rule conjI)
  qed
qed

theorem process_row_fallback_order_witness:
  "process_row decimal_builtins city_only default_args out_fields 0 (initial [springfield])
     = Inr (after_springfield []) \<and>
   py_index (rows (initial [springfield])) 0 = Inr 0 \<and>
   requests (after_springfield []) =
     [''1 Main St, Springfield, IL, 62701'', ''General Hospital, Springfield, IL, 62701'',
      ''Springfield, IL, 62701''] \<and>
   dict_get (rows (after_springfield []) ! 0) ''Geo_Source'' = VStr ''census_city'' \<and>
   process_row decimal_builtins street_known default_args out_fields 0 (initial [springfield])
     = Inr after_street_known \<and>
   requests after_street_known = [''1 Main St, Springfield, IL, 62701''] \<and>
   dict_get (rows after_street_known ! 0) ''Geo_Source'' = VStr ''census_primary''"
proof -
  have idx: "py_index (rows (initial [springfield])) 0 = Inr 0"
    by (simp add: py_index_def)
  from process_row_fallback_order [OF springfield_city_only idx]
    process_row_fallback_order [OF springfield_street_known idx]
    springfield_city_only [of "[]"] springfield_street_known idx
  show ?thesis
    by (simp add: after_springfield_def after_street_known_def dict_get_store_result)
qed

subsection \<open>The inter-request delay\<close>

lemma chain_requests:
  assumes chain: "lookup_chain B net r p source reqs = Inr (g', source', reqs')" and "p \<noteq> []"
  shows "\<exists>new. reqs' = reqs @ p # new \<and> length new \<le> 2"
proof -
  from lookup_chain_Inr [OF assms] obtain g1 where
    rest: "if matched g1 then g' = g1 \<and> source' = VStr ''census_primary'' \<and> reqs' = reqs @ [p]
      else \<exists>g2 source2 reqs2.
             attempt_hospital B net r p g1 source (reqs @ [p]) = Inr (g2, source2, reqs2) \<and>
             attempt_city B net r g2 source2 reqs2 = Inr (g', source', reqs')"
    by blast
  show ?thesis
  proof (cases "matched g1")
    case True
    with rest show ?thesis by simp
  next
    case False
    with rest obtain g2 source2 reqs2 where
      h: "attempt_hospital B net r p g1 source (reqs @ [p]) = Inr (g2, source2, reqs2)" and
      c: "attempt_city B net r g2 source2 reqs2 = Inr (g', source', reqs')"
      by auto
    from attempt_hospital_Inr [OF h] have "\<exists>xs. reqs2 = reqs @ p # xs \<and> length xs \<le> 1"
      by (auto split: if_splits)
    then obtain xs where xs: "reqs2 = reqs @ p # xs" "length xs \<le> 1"
      by blast
    from attempt_city_Inr [OF c] have "\<exists>ys. reqs' = reqs2 @ ys \<and> length ys \<le> 1"
      by (auto split: if_splits)
    then obtain ys where ys: "reqs' = reqs2 @ ys" "length ys \<le> 1"
      by blast
    from xs ys have "reqs' = reqs @ p # (xs @ ys) \<and> length (xs @ ys) \<le> 2"
      by simp
    then show ?thesis by blast
  qed
qed

text \<open>
  C8. The loop body sleeps the configured delay exactly once when, and only when, the row
  is resolved through the service (no coordinates yet, non-empty primary address, not a
  cache key), whether that took one, two or three requests; a row answered from the cache
  or skipped sends nothing and does not sleep.
\<close>

theorem process_row_delay:
  assumes run: "process_row B net a fs idx st = Inr st'" and idx: "py_index (rows st) idx = Inr j"
  shows
   "(let r = rows st ! j;
         p = build_primary_address B r;
         uncached = (\<not> (truthy (dict_get r ''Latitude'') \<and> truthy (dict_get r ''Longitude''))
                     \<and> p \<noteq> [] \<and> cache st p = None)
     in (uncached \<longrightarrow> sleeps st' = sleeps st @ [sleep a] \<and>
           (\<exists>more. requests st' = requests st @ p # more \<and> length more \<le> 2)) \<and>
        (\<not> uncached \<longrightarrow> sleeps st' = sleeps st \<and> requests st' = requests st))"
proof -
  let ?r = "rows st ! j"
  let ?p = "build_primary_address B ?r"
  let ?need = "\<not> (truthy (dict_get ?r ''Latitude'') \<and> truthy (dict_get ?r ''Longitude''))"
  show ?thesis
  proof (rule process_row_result [OF run idx])
    fix lat lon conf source st1
    assume res: "resolve B net (sleep a) ?r ?p (existing_geo ?r) (existing_source ?r) st
              = Inr ((lat, lon, conf), source, st1)" and
      reqs': "requests st' = requests st1" and sleeps': "sleeps st' = sleeps st1"
    have hit: "sleeps st1 = sleeps st \<and> requests st1 = requests st"
      if "\<not> (?need \<and> ?p \<noteq> [] \<and> cache st ?p = None)"
    proof (cases "?need \<and> ?p \<noteq> []")
      case True
      with that obtain g where "cache st ?p = Some g" by auto
      with True res show ?thesis by (auto simp: existing_geo_def resolve_hit)
    next
      case False
      with res show ?thesis by (auto simp: existing_geo_def resolve_skip)
    qed
    have miss: "sleeps st1 = sleeps st @ [sleep a] \<and>
           (\<exists>more. requests st1 = requests st @ ?p # more \<and> length more \<le> 2)"
      if "?need \<and> ?p \<noteq> [] \<and> cache st ?p = None"
    proof -
      from that have need: ?need and p: "?p \<noteq> []" and fresh: "cache st ?p = None"
        by blast+
      from res need p fresh obtain reqs1 where
        chain: "lookup_chain B net ?r ?p (existing_source ?r) (requests st)
                  = Inr ((lat, lon, conf), source, reqs1)"
        and st1: "requests st1 = reqs1" "sleeps st1 = sleeps st @ [sleep a]"
        by (auto simp: existing_geo_def resolve_miss bind_Inr_iff split: if_splits)
      from chain_requests [OF chain p] st1 show ?thesis by simp
    qed
    from hit miss show ?thesis
      unfolding Let_def reqs' sleeps' by blast
  qed
qed

theorem process_row_delay_witness:
  "process_row decimal_builtins city_only default_args out_fields 0 (initial [springfield, annex])
     = Inr (after_springfield [annex]) \<and>
   sleeps (after_springfield [annex]) = [1 / 4] \<and>
   length (requests (after_springfield [annex])) = 3 \<and>
   process_row decimal_builtins city_only default_args out_fields 1 (after_springfield [annex])
     = Inr after_annex \<and>
   sleeps after_annex = [1 / 4] \<and>
   requests after_annex = requests (after_springfield [annex])"
proof -
  have idx0: "py_index (rows (initial [springfield, annex])) 0 = Inr 0"
    by (simp add: py_index_def)
  have idx1: "py_index (rows (after_springfield [annex])) 1 = Inr 1"
    by (simp add: py_index_def)
  from process_row_delay [OF springfield_city_only idx0] process_row_delay [OF annex_cache_hit idx1]
    springfield_city_only [of "[annex]"] annex_cache_hit
  show ?thesis
    by simp
qed

subsection \<open>Rows answered from the cache\<close>

lemma tagged_addresses:
  "build_primary_address B untagged = ''1 Main St, Springfield, IL, 62701''"
  "build_hospital_address B untagged = ''General Hospital, Springfield, IL, 62701''"
  "build_city_address B untagged = ''Springfield, IL, 62701''"
  "build_primary_address B tagged = ''1 Main St, Springfield, IL, 62701''"
  by (simp_all add: build_primary_address_def build_hospital_address_def build_city_address_def
      untagged_def tagged_def springfield_def annex_def hospital_row_def col_defs field_def
      dict_get_default_def join_nonempty_def strip_def is_space_def)

lemma tagged_existing:
  "existing_geo untagged = (VNone, VNone, VNone)"
  "existing_source untagged = VStr ''census''"
  "existing_geo tagged = (VNone, VNone, VNone)"
  "existing_source tagged = VStr ''census_primary''"
  by (simp_all add: existing_geo_def existing_source_def untagged_def tagged_def springfield_def
      annex_def hospital_row_def col_defs dict_get_def py_or_def)

lemma untagged_city_only:
  "process_row decimal_builtins city_only default_args tagged_fields 0 (initial [untagged, tagged])
     = Inr after_untagged"
proof -
  have idx: "py_index [untagged, tagged] 0 = Inr 0"
    by (simp add: py_index_def)
  have chain: "lookup_chain decimal_builtins city_only untagged
       ''1 Main St, Springfield, IL, 62701'' (VStr ''census'') [] =
       Inr ((VNum (79 / 2), VNum (- (179 / 2)), VStr ''L''), VStr ''census_city'',
            [''1 Main St, Springfield, IL, 62701'',
             ''General Hospital, Springfield, IL, 62701'', ''Springfield, IL, 62701''])"
    by (simp add: lookup_chain_def attempt_hospital_def attempt_city_def tagged_addresses
        Let_def city_only_def census_geocode_service_of parse_no_match parse_match matched_def
        absent_def)
  have wr: "writerow tagged_fields (store_result untagged (VNum (79 / 2)) (VNum (- (179 / 2)))
                    (VStr ''census_city'') (VStr ''L'')) =
       Inr [VStr ''General Hospital'', VStr ''1 Main St'', VStr ''Springfield'',
            VStr ''IL'', VStr ''62701'', VStr ''census_city'', VNum (79 / 2),
            VNum (- (179 / 2)), VStr ''L'']"
    by (simp add: writerow_def tagged_fields_def store_result_def dict_set_def untagged_def
        springfield_def hospital_row_def col_defs dict_get_default_def)
  show ?thesis
    by (simp add: process_row_def idx Let_def tagged_addresses tagged_existing
        default_args_def resolve_def chain finish_row_def round_halves wr
        after_untagged_def)
qed

lemma after_untagged_simps [simp]:
  "rows after_untagged = [store_result untagged (VNum (79 / 2)) (VNum (- (179 / 2)))
                    (VStr ''census_city'') (VStr ''L''), tagged]"
  "cache after_untagged = [''1 Main St, Springfield, IL, 62701'' \<mapsto>
                    (VNum (79 / 2), VNum (- (179 / 2)), VStr ''L'')]"
  "requests after_untagged = [''1 Main St, Springfield, IL, 62701'',
                     ''General Hospital, Springfield, IL, 62701'', ''Springfield, IL, 62701'']"
  "sleeps after_untagged = [1 / 4]"
  "unmatched_rows after_untagged = []"
  by (simp_all add: after_untagged_def)

lemma tagged_cache_hit:
  "process_row decimal_builtins city_only default_args tagged_fields 1 after_untagged
     = Inr after_tagged"
proof -
  have idx: "py_index [x, tagged] 1 = Inr 1" for x
    by (simp add: py_index_def)
  have wr: "writerow tagged_fields (store_result tagged (VNum (79 / 2)) (VNum (- (179 / 2)))
                    (VStr ''census_primary'') (VStr ''L'')) =
       Inr [VStr ''Hospital Annex'', VStr ''1 Main St'', VStr ''Springfield'',
            VStr ''IL'', VStr ''62701'', VStr ''census_primary'', VNum (79 / 2),
            VNum (- (179 / 2)), VStr ''L'']"
    by (simp add: writerow_def tagged_fields_def store_result_def dict_set_def tagged_def
        annex_def hospital_row_def col_defs dict_get_default_def)
  show ?thesis
    by (simp add: process_row_def idx Let_def tagged_addresses tagged_existing
        default_args_def resolve_def finish_row_def round_halves wr after_tagged_def)
qed

lemma after_tagged_simps [simp]:
  "rows after_tagged = [store_result untagged (VNum (79 / 2)) (VNum (- (179 / 2)))
                    (VStr ''census_city'') (VStr ''L''),
                 store_result tagged (VNum (79 / 2)) (VNum (- (179 / 2)))
                    (VStr ''census_primary'') (VStr ''L'')]"
  "requests after_tagged = requests after_untagged"
  "sleeps after_tagged = sleeps after_untagged"
  "unmatched_rows after_tagged = []"
  "outfile after_tagged =
     [[VStr ''General Hospital'', VStr ''1 Main St'', VStr ''Springfield'',
       VStr ''IL'', VStr ''62701'', VStr ''census_city'', VNum (79 / 2),
       VNum (- (179 / 2)), VStr ''L''],
      [VStr ''Hospital Annex'', VStr ''1 Main St'', VStr ''Springfield'',
       VStr ''IL'', VStr ''62701'', VStr ''census_primary'', VNum (79 / 2),
       VNum (- (179 / 2)), VStr ''L'']]"
  by (simp_all add: after_tagged_def after_untagged_def)

lemma tagged_headers:
  "filter (\<lambda>col. col \<notin> set (map fst untagged)) REQUIRED_COLS = []"
  "output_fieldnames (map fst untagged) = tagged_fields"
  by (simp_all add: untagged_def springfield_def hospital_row_def REQUIRED_COLS_def col_defs
      output_fieldnames_def RESULT_COLS_def tagged_fields_def)

lemma main_tagged:
  "main decimal_builtins city_only default_args [untagged, tagged]
     = Inr (Done tagged_fields after_tagged None)"
proof -
  have loop: "process_rows decimal_builtins city_only default_args
          (output_fieldnames (map fst untagged)) (index_range default_args (untagged # [tagged]))
          (initial (untagged # [tagged])) = Inr after_tagged"
    by (simp add: tagged_headers(2) sample_range untagged_city_only tagged_cache_hit)
  have wu: "write_unmatched (unmatched_rows after_tagged) = Inr None"
    by (simp add: write_unmatched_def)
  from main_Done [OF tagged_headers(1) loop wu] show ?thesis
    by (simp only: tagged_headers(2))
qed

text \<open>
  C10, as stated, on a table whose second row arrives tagged census_primary, without
  coordinates, and with the primary address of the first row: the first row is resolved
  at the city tier and its result cached, the second row is answered from the cache, and
  it is written with the tag census_primary.
\<close>

theorem cached_row_keeps_tier_tag:
  "main decimal_builtins city_only default_args [untagged, tagged]
     = Inr (Done tagged_fields after_tagged None) \<and>
   process_row decimal_builtins city_only default_args tagged_fields 1 after_untagged
     = Inr after_tagged \<and>
   dict_get tagged ''Latitude'' = VNone \<and> dict_get tagged ''Longitude'' = VNone \<and>
   dict_get tagged ''Geo_Source'' = VStr ''census_primary'' \<and>
   cache after_untagged (build_primary_address decimal_builtins tagged)
     = Some (VNum (79 / 2), VNum (- (179 / 2)), VStr ''L'') \<and>
   requests after_tagged = requests after_untagged \<and>
   dict_get (rows after_tagged ! 1) ''Geo_Source'' = VStr ''census_primary'' \<and>
   outfile after_tagged ! 1 =
     [VStr ''Hospital Annex'', VStr ''1 Main St'', VStr ''Springfield'', VStr ''IL'',
      VStr ''62701'', VStr ''census_primary'', VNum (79 / 2), VNum (- (179 / 2)), VStr ''L'']"
  using main_tagged tagged_cache_hit
  by (simp add: tagged_addresses dict_get_store_result)
     (simp add: tagged_def annex_def hospital_row_def col_defs dict_get_def)

text \<open>
  C10, amended. A row answered from the cache is written with the source it came with,
  or with the default census when it came with none: its tag is one of the three tier
  tags exactly when the row arrived carrying one, the tier tags being assigned on the
  cache-miss path only. Its coordinates and confidence are the cached ones (the
  coordinates rounded), and nothing is requested.
\<close>

theorem process_row_cache_hit_source:
  assumes run: "process_row B net a fs idx st = Inr st'" and idx: "py_index (rows st) idx = Inr j"
  shows
   "(let r = rows st ! j;
         p = build_primary_address B r;
         lookup = (\<not> (truthy (dict_get r ''Latitude'') \<and> truthy (dict_get r ''Longitude''))
                     \<and> p \<noteq> []);
         tag = dict_get (rows st' ! j) ''Geo_Source''
     in (lookup \<and> cache st p = Some (lat, lon, conf) \<longrightarrow>
           tag = py_or (dict_get r ''Geo_Source'') (VStr ''census'') \<and>
           (tag \<in> {VStr ''census_primary'', VStr ''census_hospital'', VStr ''census_city''} \<longleftrightarrow>
            dict_get r ''Geo_Source'' \<in> {VStr ''census_primary'', VStr ''census_hospital'',
                                           VStr ''census_city''}) \<and>
           (dict_get (rows st' ! j) ''Latitude'', dict_get (rows st' ! j) ''Longitude'')
              = round_coords B (round_decimals a) lat lon \<and>
           dict_get (rows st' ! j) ''Geo_Confidence'' = conf \<and>
           requests st' = requests st) \<and>
        (\<not> (lookup \<and> cache st p = None) \<longrightarrow>
           tag = py_or (dict_get r ''Geo_Source'') (VStr ''census'')))"
proof -
  let ?r = "rows st ! j"
  let ?p = "build_primary_address B ?r"
  let ?need = "\<not> (truthy (dict_get ?r ''Latitude'') \<and> truthy (dict_get ?r ''Longitude''))"
  show ?thesis
  proof (rule process_row_result [OF run idx])
    fix lat1 lon1 conf1 source st1
    assume res: "resolve B net (sleep a) ?r ?p (existing_geo ?r) (existing_source ?r) st
              = Inr ((lat1, lon1, conf1), source, st1)" and
      rows': "rows st' = (rows st)[j := store_result ?r
          (fst (round_coords B (round_decimals a) lat1 lon1))
          (snd (round_coords B (round_decimals a) lat1 lon1)) source conf1]" and
      reqs': "requests st' = requests st1"
    note row = process_row_final_row [OF rows' idx]
    have tag: "dict_get (rows st' ! j) ''Geo_Source'' = source"
      and out: "dict_get (rows st' ! j) ''Latitude'' = fst (round_coords B (round_decimals a) lat1 lon1)"
        "dict_get (rows st' ! j) ''Longitude'' = snd (round_coords B (round_decimals a) lat1 lon1)"
        "dict_get (rows st' ! j) ''Geo_Confidence'' = conf1"
      by (simp_all add: row dict_get_store_result)
    have hit: "source = existing_source ?r \<and> lat1 = lat \<and> lon1 = lon \<and> conf1 = conf \<and> st1 = st"
      if "?need \<and> ?p \<noteq> []" "cache st ?p = Some (lat, lon, conf)"
      using that res by (auto simp: existing_geo_def resolve_hit)
    have other: "source = existing_source ?r"
      if "\<not> ((?need \<and> ?p \<noteq> []) \<and> cache st ?p = None)"
    proof (cases "?need \<and> ?p \<noteq> []")
      case True
      with that obtain g where "cache st ?p = Some g" by auto
      with True res show ?thesis by (auto simp: existing_geo_def resolve_hit)
    next
      case False
      with res show ?thesis by (auto simp: existing_geo_def resolve_skip)
    qed
    have never: "py_or v (VStr ''census'') \<in> {VStr ''census_primary'', VStr ''census_hospital'',
                                            VStr ''census_city''} \<longleftrightarrow>
                 v \<in> {VStr ''census_primary'', VStr ''census_hospital'', VStr ''census_city''}" for v
      by (auto simp: py_or_def)
    show ?thesis
      unfolding Let_def tag out reqs'
      using hit other never [of "dict_get ?r ''Geo_Source''"]
      by (auto simp: existing_source_def)
  qed
qed

theorem process_row_cache_hit_source_witness:
  "process_row decimal_builtins city_only default_args out_fields 1 (after_springfield [annex])
     = Inr after_annex \<and>
   py_index (rows (after_springfield [annex])) 1 = Inr 1 \<and>
   cache (after_springfield [annex]) (build_primary_address decimal_builtins annex)
     = Some (VNum (79 / 2), VNum (- (179 / 2)), VStr ''L'') \<and>
   dict_get (rows after_annex ! 0) ''Geo_Source'' = VStr ''census_city'' \<and>
   dict_get (rows after_annex ! 1) ''Geo_Source'' = VStr ''census'' \<and>
   dict_get (rows after_annex ! 1) ''Latitude'' = VNum (79 / 2) \<and>
   dict_get (rows after_annex ! 1) ''Longitude'' = VNum (- (179 / 2))"
proof -
  have idx1: "py_index (rows (after_springfield [annex])) 1 = Inr 1"
    by (simp add: py_index_def)
  from process_row_cache_hit_source [OF annex_cache_hit idx1,
      of "VNum (79 / 2)" "VNum (- (179 / 2))" "VStr ''L''"] annex_cache_hit idx1
  show ?thesis
    by (simp add: dict_get_store_result annex_addresses)
qed

subsection \<open>Rounding\<close>

text \<open>
  C7. The rounding block on a row that arrives with Latitude n/a and Longitude -74.005974:
  the conversion of the latitude raises, the exception leaves the block, and the
  longitude is written back unrounded although it is a number (its rounding to five
  places is -74.00597). With the two values swapped the numeric one is rounded. On a
  numeric latitude alone, 40.712776 becomes 40.71278 at five places and 40.71 at two.
\<close>

theorem rounding_block_skips_longitude:
  "process_row decimal_builtins nowhere default_args out_fields 0
       (initial [with_coords ''n/a'' ''-74.005974''])
     = Inr (after_with_coords ''n/a'' ''-74.005974'') \<and>
   dict_get (rows (after_with_coords ''n/a'' ''-74.005974'') ! 0) ''Latitude'' = VStr ''n/a'' \<and>
   dict_get (rows (after_with_coords ''n/a'' ''-74.005974'') ! 0) ''Longitude''
     = VStr ''-74.005974'' \<and>
   round_value decimal_builtins 5 (VStr ''-74.005974'') = Some (VNum (- (7400597 / 100000))) \<and>
   round_coords decimal_builtins 5 (VStr ''-74.005974'') (VStr ''n/a'')
     = (VNum (- (7400597 / 100000)), VStr ''n/a'') \<and>
   round_coords decimal_builtins 5 (VNum (40712776 / 1000000)) VNone
     = (VNum (4071278 / 100000), VNone) \<and>
   round_coords decimal_builtins 2 (VNum (40712776 / 1000000)) VNone
     = (VNum (4071 / 100), VNone)"
proof -
  have "process_row decimal_builtins nowhere default_args out_fields 0
       (initial [with_coords ''n/a'' ''-74.005974''])
     = Inr (after_with_coords ''n/a'' ''-74.005974'')"
    by (rule with_coords_skipped) simp_all
  moreover have "round_coords decimal_builtins 5 (VStr ''n/a'') (VStr ''-74.005974'')
     = (VStr ''n/a'', VStr ''-74.005974'')"
    by (simp add: round_coords_def round_value_def float_samples)
  ultimately show ?thesis
    by (simp add: after_with_coords_rows dict_get_store_result round_coords_def round_value_def
        float_samples round_samples)
qed

subsection \<open>Rows that arrive with coordinates\<close>

text \<open>
  C3, as stated, at a row that arrives with Latitude 40.712776 and Longitude -74.005974
  and the default precision: nothing is looked up, but the latitude written back is
  40.71278, not the value the row came with. Likewise a row written by an earlier run at
  five places, Latitude 40.71278, comes out of a re-run at two places as 40.71.
\<close>

theorem existing_coordinates_changed:
  "truthy (dict_get (with_coords ''40.712776'' ''-74.005974'') ''Latitude'') \<and>
   truthy (dict_get (with_coords ''40.712776'' ''-74.005974'') ''Longitude'') \<and>
   process_row decimal_builtins nowhere default_args out_fields 0
       (initial [with_coords ''40.712776'' ''-74.005974''])
     = Inr (after_with_coords ''40.712776'' ''-74.005974'') \<and>
   py_float decimal_builtins (dict_get (with_coords ''40.712776'' ''-74.005974'') ''Latitude'')
     = Some (40712776 / 1000000) \<and>
   dict_get (rows (after_with_coords ''40.712776'' ''-74.005974'') ! 0) ''Latitude''
     = VNum (4071278 / 100000) \<and>
   dict_get (rows (after_with_coords ''40.712776'' ''-74.005974'') ! 0) ''Latitude''
     \<noteq> dict_get (with_coords ''40.712776'' ''-74.005974'') ''Latitude'' \<and>
   truthy (dict_get resumed ''Latitude'') \<and> truthy (dict_get resumed ''Longitude'') \<and>
   round_decimals coarse_args = 2 \<and>
   process_row decimal_builtins nowhere coarse_args out_fields 0 (initial [resumed])
     = Inr after_coarse \<and>
   py_float decimal_builtins (dict_get resumed ''Latitude'') = Some (4071278 / 100000) \<and>
   dict_get (rows after_coarse ! 0) ''Latitude'' = VNum (4071 / 100)"
proof -
  have "process_row decimal_builtins nowhere default_args out_fields 0
       (initial [with_coords ''40.712776'' ''-74.005974''])
     = Inr (after_with_coords ''40.712776'' ''-74.005974'')"
    by (rule with_coords_skipped) simp_all
  then show ?thesis
    using resumed_coarse [of nowhere]
    by (simp add: after_with_coords_rows dict_get_store_result with_coords_get
        round_coords_samples float_samples resumed_cells float_rounded_samples
        coarse_args_def default_args_def after_coarse_def)
qed

text \<open>
  C3, amended. A row that arrives with both coordinates (truthy) sends no request,
  leaves the cache alone and does not sleep; its source is the one it came with, or
  census. A latitude that converts is replaced by its rounding, and so is a longitude
  that converts when the latitude did; a value whose conversion or rounding raises is
  left as it is. In particular numbers that already are their own rounding keep their
  value.
\<close>

theorem process_row_existing_coordinates:
  assumes run: "process_row B net a fs idx st = Inr st'" and idx: "py_index (rows st) idx = Inr j"
  shows
   "(let r = rows st ! j;
         lat = dict_get r ''Latitude'';
         lon = dict_get r ''Longitude'';
         n = round_decimals a;
         r' = rows st' ! j
     in truthy lat \<and> truthy lon \<longrightarrow>
          requests st' = requests st \<and> cache st' = cache st \<and> sleeps st' = sleeps st \<and>
          dict_get r' ''Geo_Source'' = py_or (dict_get r ''Geo_Source'') (VStr ''census'') \<and>
          (round_value B n lat = Some v \<longrightarrow> dict_get r' ''Latitude'' = v) \<and>
          (round_value B n lat = None \<longrightarrow> dict_get r' ''Latitude'' = lat) \<and>
          (round_value B n lat = Some v \<and> round_value B n lon = Some w
             \<longrightarrow> dict_get r' ''Longitude'' = w) \<and>
          (round_value B n lon = None \<longrightarrow> dict_get r' ''Longitude'' = lon) \<and>
          (py_float B lat = Some q1 \<and> round_float B q1 n = Some q1 \<and>
           py_float B lon = Some q2 \<and> round_float B q2 n = Some q2
             \<longrightarrow> dict_get r' ''Latitude'' = VNum q1 \<and> dict_get r' ''Longitude'' = VNum q2))"
proof -
  let ?r = "rows st ! j"
  let ?p = "build_primary_address B ?r"
  let ?lat = "dict_get ?r ''Latitude''" and ?lon = "dict_get ?r ''Longitude''"
  show ?thesis
  proof (rule process_row_result [OF run idx])
    fix lat1 lon1 conf1 source st1
    assume res: "resolve B net (sleep a) ?r ?p (existing_geo ?r) (existing_source ?r) st
              = Inr ((lat1, lon1, conf1), source, st1)" and
      rows': "rows st' = (rows st)[j := store_result ?r
          (fst (round_coords B (round_decimals a) lat1 lon1))
          (snd (round_coords B (round_decimals a) lat1 lon1)) source conf1]" and
      frame: "cache st' = cache st1" "requests st' = requests st1" "sleeps st' = sleeps st1"
    note row = process_row_final_row [OF rows' idx]
    have out: "dict_get (rows st' ! j) ''Geo_Source'' = source"
        "dict_get (rows st' ! j) ''Latitude'' = fst (round_coords B (round_decimals a) lat1 lon1)"
        "dict_get (rows st' ! j) ''Longitude'' = snd (round_coords B (round_decimals a) lat1 lon1)"
      by (simp_all add: row dict_get_store_result)
    have skip: "source = existing_source ?r \<and> lat1 = ?lat \<and> lon1 = ?lon \<and> st1 = st"
      if "truthy ?lat \<and> truthy ?lon"
      using that res by (auto simp: existing_geo_def resolve_skip)
    show ?thesis
      unfolding Let_def out frame
    proof (intro impI)
      assume t: "truthy ?lat \<and> truthy ?lon"
      then have nn: "?lat \<noteq> VNone" "?lon \<noteq> VNone"
        by (auto dest: truthy_not_None)
      from skip [OF t] have eq: "source = existing_source ?r" "lat1 = ?lat" "lon1 = ?lon" "st1 = st"
        by blast+
      show "requests st1 = requests st \<and> cache st1 = cache st \<and> sleeps st1 = sleeps st \<and>
          source = py_or (dict_get ?r ''Geo_Source'') (VStr ''census'') \<and>
          (round_value B (round_decimals a) ?lat = Some v \<longrightarrow>
             fst (round_coords B (round_decimals a) lat1 lon1) = v) \<and>
          (round_value B (round_decimals a) ?lat = None \<longrightarrow>
             fst (round_coords B (round_decimals a) lat1 lon1) = ?lat) \<and>
          (round_value B (round_decimals a) ?lat = Some v \<and> round_value B (round_decimals a) ?lon = Some w
             \<longrightarrow> snd (round_coords B (round_decimals a) lat1 lon1) = w) \<and>
          (round_value B (round_decimals a) ?lon = None \<longrightarrow>
             snd (round_coords B (round_decimals a) lat1 lon1) = ?lon) \<and>
          (py_float B ?lat = Some q1 \<and> round_float B q1 (round_decimals a) = Some q1 \<and>
           py_float B ?lon = Some q2 \<and> round_float B q2 (round_decimals a) = Some q2
             \<longrightarrow> fst (round_coords B (round_decimals a) lat1 lon1) = VNum q1 \<and>
                 snd (round_coords B (round_decimals a) lat1 lon1) = VNum q2)"
        unfolding eq using nn
        by (auto simp: round_coords_fst round_coords_snd existing_source_def round_value_def
            split: option.splits)
    qed
  qed
qed

theorem process_row_existing_coordinates_witness:
  "process_row decimal_builtins nowhere default_args out_fields 0
       (initial [with_coords ''40.71278'' ''-74.00597''])
     = Inr (after_with_coords ''40.71278'' ''-74.00597'') \<and>
   py_index (rows (initial [with_coords ''40.71278'' ''-74.00597''])) 0 = Inr 0 \<and>
   truthy (dict_get (with_coords ''40.71278'' ''-74.00597'') ''Latitude'') \<and>
   truthy (dict_get (with_coords ''40.71278'' ''-74.00597'') ''Longitude'') \<and>
   requests (after_with_coords ''40.71278'' ''-74.00597'') = [] \<and>
   sleeps (after_with_coords ''40.71278'' ''-74.00597'') = [] \<and>
   dict_get (rows (after_with_coords ''40.71278'' ''-74.00597'') ! 0) ''Geo_Source''
     = VStr ''census'' \<and>
   dict_get (rows (after_with_coords ''40.71278'' ''-74.00597'') ! 0) ''Latitude''
     = VNum (4071278 / 100000) \<and>
   dict_get (rows (after_with_coords ''40.71278'' ''-74.00597'') ! 0) ''Longitude''
     = VNum (- (7400597 / 100000))"
proof -
  have run: "process_row decimal_builtins nowhere default_args out_fields 0
       (initial [with_coords ''40.71278'' ''-74.00597''])
     = Inr (after_with_coords ''40.71278'' ''-74.00597'')"
    by (rule with_coords_skipped) simp_all
  have idx: "py_index (rows (initial [with_coords ''40.71278'' ''-74.00597''])) 0 = Inr 0"
    by (simp add: py_index_def)
  from process_row_existing_coordinates [OF run idx, of "VNum (4071278 / 100000)"
      "VNum (- (7400597 / 100000))" "4071278 / 100000" "- (7400597 / 100000)"] run idx
  show ?thesis
    by (simp add: with_coords_get round_value_def float_rounded_samples
        round_rounded_samples after_with_coords_def Let_def dict_get_store_result)
qed

subsection \<open>The cache over a run\<close>

lemma process_row_step:
  assumes run: "process_row B net a fs idx st = Inr st'"
  shows "\<exists>j. py_index (rows st) idx = Inr j \<and>
     map (build_primary_address B) (rows st') = map (build_primary_address B) (rows st) \<and>
     ((cache st (build_primary_address B (rows st ! j)) = None \<and>
       (\<exists>g more. cache st' = (cache st)(build_primary_address B (rows st ! j) \<mapsto> g) \<and>
          sleeps st' = sleeps st @ [sleep a] \<and>
          requests st' = requests st @ build_primary_address B (rows st ! j) # more \<and>
          length more \<le> 2))
      \<or> (cache st' = cache st \<and> sleeps st' = sleeps st \<and> requests st' = requests st))"
proof -
  from process_row_Inr [OF run] obtain j where idx: "py_index (rows st) idx = Inr j"
    by blast
  let ?r = "rows st ! j"
  let ?p = "build_primary_address B ?r"
  let ?need = "\<not> (truthy (dict_get ?r ''Latitude'') \<and> truthy (dict_get ?r ''Longitude''))"
  show ?thesis
  proof (rule process_row_result [OF run idx])
    fix lat lon conf source st1
    assume res: "resolve B net (sleep a) ?r ?p (existing_geo ?r) (existing_source ?r) st
              = Inr ((lat, lon, conf), source, st1)" and
      rows': "rows st' = (rows st)[j := store_result ?r
          (fst (round_coords B (round_decimals a) lat lon))
          (snd (round_coords B (round_decimals a) lat lon)) source conf]" and
      frame: "cache st' = cache st1" "requests st' = requests st1" "sleeps st' = sleeps st1"
    have keys: "map (build_primary_address B) (rows st') = map (build_primary_address B) (rows st)"
      unfolding rows' using py_index_less [OF idx]
      by (simp add: map_update addresses_store_result list_update_same_conv)
    have step: "(cache st ?p = None \<and>
       (\<exists>g more. cache st1 = (cache st)(?p \<mapsto> g) \<and>
          sleeps st1 = sleeps st @ [sleep a] \<and>
          requests st1 = requests st @ ?p # more \<and> length more \<le> 2))
      \<or> (cache st1 = cache st \<and> sleeps st1 = sleeps st \<and> requests st1 = requests st)"
    proof (cases "?need \<and> ?p \<noteq> []")
      case False
      with res have "st1 = st" by (auto simp: existing_geo_def resolve_skip)
      then show ?thesis by simp
    next
      case need: True
      show ?thesis
      proof (cases "cache st ?p")
        case (Some hit)
        with need res have "st1 = st" by (auto simp: existing_geo_def resolve_hit)
        then show ?thesis by simp
      next
        case None
        with need res obtain reqs1 where
          chain: "lookup_chain B net ?r ?p (existing_source ?r) (requests st)
                    = Inr ((lat, lon, conf), source, reqs1)"
          and st1: "st1 = st\<lparr>cache := (cache st)(?p \<mapsto> (lat, lon, conf)), requests := reqs1,
                                sleeps := sleeps st @ [sleep a]\<rparr>"
          by (auto simp: existing_geo_def resolve_miss bind_Inr_iff split: if_splits)
        from need have p: "?p \<noteq> []" by blast
        from chain_requests [OF chain p] obtain more where
          "reqs1 = requests st @ ?p # more" "length more \<le> 2"
          by blast
        with st1 None have "cache st ?p = None \<and>
          cache st1 = (cache st)(?p \<mapsto> (lat, lon, conf)) \<and>
          sleeps st1 = sleeps st @ [sleep a] \<and>
          requests st1 = requests st @ ?p # more \<and> length more \<le> 2"
          by simp
        then show ?thesis by blast
      qed
    qed
    from idx keys step show ?thesis
      unfolding frame by blast
  qed
qed

lemma process_row_inv:
  assumes run: "process_row B net a fs idx st = Inr st'"
    and fin: "finite (dom (cache st))"
    and sl: "length (sleeps st) = card (dom (cache st))"
    and rq: "length (requests st) \<le> 3 * card (dom (cache st))"
    and dm: "dom (cache st) \<subseteq> set (map (build_primary_address B) (rows st))"
  shows "finite (dom (cache st')) \<and> length (sleeps st') = card (dom (cache st')) \<and>
         length (requests st') \<le> 3 * card (dom (cache st')) \<and>
         dom (cache st') \<subseteq> set (map (build_primary_address B) (rows st')) \<and>
         map (build_primary_address B) (rows st') = map (build_primary_address B) (rows st)"
proof -
  from process_row_step [OF run] obtain j where
    idx: "py_index (rows st) idx = Inr j" and
    keys: "map (build_primary_address B) (rows st') = map (build_primary_address B) (rows st)" and
    step: "(cache st (build_primary_address B (rows st ! j)) = None \<and>
       (\<exists>g more. cache st' = (cache st)(build_primary_address B (rows st ! j) \<mapsto> g) \<and>
          sleeps st' = sleeps st @ [sleep a] \<and>
          requests st' = requests st @ build_primary_address B (rows st ! j) # more \<and>
          length more \<le> 2))
      \<or> (cache st' = cache st \<and> sleeps st' = sleeps st \<and> requests st' = requests st)"
    by blast
  let ?p = "build_primary_address B (rows st ! j)"
  from step show ?thesis
  proof
    assume "cache st' = cache st \<and> sleeps st' = sleeps st \<and> requests st' = requests st"
    with fin sl rq dm keys show ?thesis by simp
  next
    assume "cache st ?p = None \<and>
       (\<exists>g more. cache st' = (cache st)(?p \<mapsto> g) \<and>
          sleeps st' = sleeps st @ [sleep a] \<and>
          requests st' = requests st @ ?p # more \<and> length more \<le> 2)"
    then obtain g more where new: "cache st ?p = None" and
      c: "cache st' = (cache st)(?p \<mapsto> g)" and s: "sleeps st' = sleeps st @ [sleep a]" and
      r: "requests st' = requests st @ ?p # more" and m: "length more \<le> 2"
      by blast
    from new have notin: "?p \<notin> dom (cache st)" by (simp add: domIff)
    from c have d: "dom (cache st') = insert ?p (dom (cache st))" by simp
    from d fin notin have card: "card (dom (cache st')) = Suc (card (dom (cache st)))"
      by simp
    from py_index_less [OF idx] have "?p \<in> set (map (build_primary_address B) (rows st))"
      by simp
    with dm d keys have sub: "dom (cache st') \<subseteq> set (map (build_primary_address B) (rows st'))"
      by auto
    from fin d have "finite (dom (cache st'))" by simp
    with card s sl r m rq sub keys show ?thesis by simp
  qed
qed

lemma process_rows_inv:
  assumes "process_rows B net a fs idxs st = Inr st'"
    and "finite (dom (cache st))"
    and "length (sleeps st) = card (dom (cache st))"
    and "length (requests st) \<le> 3 * card (dom (cache st))"
    and "dom (cache st) \<subseteq> set (map (build_primary_address B) (rows st))"
  shows "finite (dom (cache st')) \<and> length (sleeps st') = card (dom (cache st')) \<and>
         length (requests st') \<le> 3 * card (dom (cache st')) \<and>
         dom (cache st') \<subseteq> set (map (build_primary_address B) (rows st')) \<and>
         map (build_primary_address B) (rows st') = map (build_primary_address B) (rows st)"
  using assms
proof (induction idxs arbitrary: st)
  case Nil
  then show ?case by simp
next
  case (Cons idx idxs)
  from Cons.prems(1) obtain st1 where
    one: "process_row B net a fs idx st = Inr st1" and
    rest: "process_rows B net a fs idxs st1 = Inr st'"
    by (auto simp: bind_Inr_iff)
  from process_row_inv [OF one Cons.prems(2-5)] have
    i1: "finite (dom (cache st1))" "length (sleeps st1) = card (dom (cache st1))"
      "length (requests st1) \<le> 3 * card (dom (cache st1))"
      "dom (cache st1) \<subseteq> set (map (build_primary_address B) (rows st1))" and
    k1: "map (build_primary_address B) (rows st1) = map (build_primary_address B) (rows st)"
    by blast+
  from Cons.IH [OF rest i1] have
    i2: "finite (dom (cache st'))" "length (sleeps st') = card (dom (cache st'))"
      "length (requests st') \<le> 3 * card (dom (cache st'))"
      "dom (cache st') \<subseteq> set (map (build_primary_address B) (rows st'))" and
    k2: "map (build_primary_address B) (rows st') = map (build_primary_address B) (rows st1)"
    by blast+
  from k2 k1 have "map (build_primary_address B) (rows st') = map (build_primary_address B) (rows st)"
    by (rule trans)
  with i2 show ?case by blast
qed

lemma main_DoneD:
  assumes "main B net a rs = Inr (Done fs st uf)"
  shows "\<exists>r0 rest. rs = r0 # rest \<and> fs = output_fieldnames (map fst r0) \<and>
           filter (\<lambda>col. col \<notin> set (map fst r0)) REQUIRED_COLS = [] \<and>
           process_rows B net a fs (index_range a rs) (initial rs) = Inr st \<and>
           write_unmatched (unmatched_rows st) = Inr uf"
  using assms
  by (auto simp: main_def Let_def bind_Inr_iff split: list.splits)

text \<open>
  C5, as stated, on a table of two hospitals in one city whose addresses the service does
  not know: the two rows have different primary addresses, so both run the whole chain,
  and the city address is sent twice.
\<close>

theorem city_address_requested_twice:
  "main decimal_builtins nowhere default_args [springfield, oak]
     = Inr (Done out_fields after_oak (Some oak_table)) \<and>
   requests after_oak =
     [''1 Main St, Springfield, IL, 62701'', ''General Hospital, Springfield, IL, 62701'',
      ''Springfield, IL, 62701'',
      ''2 Oak Ave, Springfield, IL, 62701'', ''Mercy Clinic, Springfield, IL, 62701'',
      ''Springfield, IL, 62701''] \<and>
   \<not> distinct (requests after_oak)"
  using main_nowhere by simp

text \<open>
  C5, amended. In a run that completes, the fallback chain is run once for each primary
  address that becomes a cache key, and these are primary addresses of rows of the table:
  the number of delays is the number of cache keys, and the number of requests is at most
  three per cache key, hence at most three per distinct primary address of the table.
\<close>

theorem run_requests_bounded:
  assumes "main B net a rs = Inr (Done fs st uf)"
  shows "length (sleeps st) = card (dom (cache st)) \<and>
         dom (cache st) \<subseteq> build_primary_address B ` set rs \<and>
         length (requests st) \<le> 3 * card (dom (cache st)) \<and>
         length (requests st) \<le> 3 * card (build_primary_address B ` set rs)"
proof -
  from main_DoneD [OF assms] have
    loop: "process_rows B net a fs (index_range a rs) (initial rs) = Inr st"
    by blast
  have "finite (dom (cache st)) \<and> length (sleeps st) = card (dom (cache st)) \<and>
         length (requests st) \<le> 3 * card (dom (cache st)) \<and>
         dom (cache st) \<subseteq> set (map (build_primary_address B) (rows st)) \<and>
         map (build_primary_address B) (rows st) = map (build_primary_address B) (rows (initial rs))"
    by (rule process_rows_inv [OF loop]) simp_all
  then have sl: "length (sleeps st) = card (dom (cache st))"
    and rq: "length (requests st) \<le> 3 * card (dom (cache st))"
    and dm: "dom (cache st) \<subseteq> set (map (build_primary_address B) (rows st))"
    and ks: "map (build_primary_address B) (rows st) = map (build_primary_address B) rs"
    by (blast, blast, blast, simp)
  from dm have "dom (cache st) \<subseteq> set (map (build_primary_address B) rs)"
    unfolding ks .
  then have sub: "dom (cache st) \<subseteq> build_primary_address B ` set rs"
    by simp
  then have "card (dom (cache st)) \<le> card (build_primary_address B ` set rs)"
    by (simp add: card_mono)
  with sl rq sub show ?thesis
    by simp
qed

theorem run_requests_bounded_witness:
  "main decimal_builtins nowhere default_args [springfield, oak]
     = Inr (Done out_fields after_oak (Some oak_table)) \<and>
   length (sleeps after_oak) = 2 \<and> length (requests after_oak) = 6 \<and>
   card (dom (cache after_oak)) = 2"
  using run_requests_bounded [OF main_nowhere] main_nowhere
  by simp

lemma process_row_caches:
  assumes run: "process_row B net a fs idx st = Inr st'" and idx: "py_index (rows st) idx = Inr j"
    and need: "\<not> (truthy (dict_get (rows st ! j) ''Latitude'')
                   \<and> truthy (dict_get (rows st ! j) ''Longitude''))"
    and p: "build_primary_address B (rows st ! j) \<noteq> []"
  shows "\<exists>lat lon conf.
      cache st' (build_primary_address B (rows st ! j)) = Some (lat, lon, conf) \<and>
      dict_get (rows st' ! j) ''Latitude'' = fst (round_coords B (round_decimals a) lat lon) \<and>
      dict_get (rows st' ! j) ''Longitude'' = snd (round_coords B (round_decimals a) lat lon) \<and>
      dict_get (rows st' ! j) ''Geo_Confidence'' = conf \<and>
      (cache st (build_primary_address B (rows st ! j)) \<noteq> None \<longrightarrow>
         cache st (build_primary_address B (rows st ! j)) = Some (lat, lon, conf) \<and>
         requests st' = requests st \<and> sleeps st' = sleeps st)"
proof -
  let ?r = "rows st ! j"
  let ?p = "build_primary_address B ?r"
  show ?thesis
  proof (rule process_row_result [OF run idx])
    fix lat lon conf source st1
    assume res: "resolve B net (sleep a) ?r ?p (existing_geo ?r) (existing_source ?r) st
              = Inr ((lat, lon, conf), source, st1)" and
      rows': "rows st' = (rows st)[j := store_result ?r
          (fst (round_coords B (round_decimals a) lat lon))
          (snd (round_coords B (round_decimals a) lat lon)) source conf]" and
      frame: "cache st' = cache st1" "requests st' = requests st1" "sleeps st' = sleeps st1"
    note row = process_row_final_row [OF rows' idx]
    have out: "dict_get (rows st' ! j) ''Latitude'' = fst (round_coords B (round_decimals a) lat lon)"
        "dict_get (rows st' ! j) ''Longitude'' = snd (round_coords B (round_decimals a) lat lon)"
        "dict_get (rows st' ! j) ''Geo_Confidence'' = conf"
      by (simp_all add: row dict_get_store_result)
    have stored: "cache st1 ?p = Some (lat, lon, conf) \<and>
      (cache st ?p \<noteq> None \<longrightarrow>
         cache st ?p = Some (lat, lon, conf) \<and> requests st1 = requests st \<and> sleeps st1 = sleeps st)"
    proof (cases "cache st ?p")
      case None
      with res need p show ?thesis
        by (auto simp: existing_geo_def resolve_miss bind_Inr_iff split: if_splits)
    next
      case (Some hit)
      with res need p show ?thesis
        by (auto simp: existing_geo_def resolve_hit)
    qed
    show ?thesis
      unfolding frame out using stored by blast
  qed
qed

lemma process_row_cache_persists:
  assumes "process_row B net a fs idx st = Inr st'" and "cache st p = Some g"
  shows "cache st' p = Some g"
  using process_row_step [OF assms(1)] assms(2) by auto

lemma process_rows_cache_persists:
  assumes "process_rows B net a fs idxs st = Inr st'" and "cache st p = Some g"
  shows "cache st' p = Some g"
  using assms
proof (induction idxs arbitrary: st)
  case Nil
  then show ?case by simp
next
  case (Cons idx idxs)
  from Cons.prems(1) obtain st1 where
    one: "process_row B net a fs idx st = Inr st1" and
    rest: "process_rows B net a fs idxs st1 = Inr st'"
    by (auto simp: bind_Inr_iff)
  from process_row_cache_persists [OF one Cons.prems(2)] Cons.IH [OF rest] show ?case
    by blast
qed

text \<open>
  C2, as stated, on a table resumed after an earlier partial run: the first row arrives
  with coordinates, the second has the same primary address and none. The first row is
  skipped and stores nothing in the cache, so the second row sends its three requests,
  and its coordinates are not those of the first.
\<close>

theorem same_address_row_looked_up:
  "process_row decimal_builtins city_only default_args out_fields 0 (initial [resumed, springfield])
     = Inr (after_resumed [springfield]) \<and>
   process_row decimal_builtins city_only default_args out_fields 1 (after_resumed [springfield])
     = Inr after_resumed_springfield \<and>
   build_primary_address decimal_builtins resumed
     = build_primary_address decimal_builtins springfield \<and>
   requests (after_resumed [springfield]) = [] \<and>
   requests after_resumed_springfield =
     [''1 Main St, Springfield, IL, 62701'', ''General Hospital, Springfield, IL, 62701'',
      ''Springfield, IL, 62701''] \<and>
   dict_get (rows after_resumed_springfield ! 0) ''Latitude'' = VNum (4071278 / 100000) \<and>
   dict_get (rows after_resumed_springfield ! 1) ''Latitude'' = VNum (79 / 2)"
  using resumed_skipped [of city_only "[springfield]"] springfield_after_resumed
  by (simp add: after_resumed_springfield_def resumed_done_def dict_get_store_result
      resumed_def with_coords_addresses springfield_addresses)

text \<open>
  C2, amended. Two rows of one run that both lack coordinates and have the same non-empty
  primary address: once the first has been processed its result, matched or not, is in
  the cache under the primary address, whichever tier produced it; it is still there when
  the second row is reached; the second row sends no request and does not sleep, and its
  latitude, longitude and confidence are those written for the first.
\<close>

theorem cache_reused_for_same_primary_address:
  assumes first: "process_row B net a fs i1 st0 = Inr st1"
    and between: "process_rows B net a fs mids st1 = Inr st2"
    and second: "process_row B net a fs i2 st2 = Inr st3"
    and j1: "py_index (rows st0) i1 = Inr j1" and j2: "py_index (rows st2) i2 = Inr j2"
    and same: "build_primary_address B (rows st2 ! j2) = build_primary_address B (rows st0 ! j1)"
    and p: "build_primary_address B (rows st0 ! j1) \<noteq> []"
    and need1: "\<not> (truthy (dict_get (rows st0 ! j1) ''Latitude'')
                    \<and> truthy (dict_get (rows st0 ! j1) ''Longitude''))"
    and need2: "\<not> (truthy (dict_get (rows st2 ! j2) ''Latitude'')
                    \<and> truthy (dict_get (rows st2 ! j2) ''Longitude''))"
  shows "requests st3 = requests st2 \<and> sleeps st3 = sleeps st2 \<and>
         cache st1 (build_primary_address B (rows st0 ! j1)) \<noteq> None \<and>
         cache st3 (build_primary_address B (rows st0 ! j1))
           = cache st1 (build_primary_address B (rows st0 ! j1)) \<and>
         dict_get (rows st3 ! j2) ''Latitude'' = dict_get (rows st1 ! j1) ''Latitude'' \<and>
         dict_get (rows st3 ! j2) ''Longitude'' = dict_get (rows st1 ! j1) ''Longitude'' \<and>
         dict_get (rows st3 ! j2) ''Geo_Confidence'' = dict_get (rows st1 ! j1) ''Geo_Confidence''"
proof -
  let ?p = "build_primary_address B (rows st0 ! j1)"
  from process_row_caches [OF first j1 need1 p] obtain lat lon conf where
    c1: "cache st1 ?p = Some (lat, lon, conf)" and
    r1: "dict_get (rows st1 ! j1) ''Latitude'' = fst (round_coords B (round_decimals a) lat lon)"
      "dict_get (rows st1 ! j1) ''Longitude'' = snd (round_coords B (round_decimals a) lat lon)"
      "dict_get (rows st1 ! j1) ''Geo_Confidence'' = conf"
    by blast
  from process_rows_cache_persists [OF between c1] have c2: "cache st2 ?p = Some (lat, lon, conf)" .
  from p same have p2: "build_primary_address B (rows st2 ! j2) \<noteq> []"
    by simp
  from process_row_caches [OF second j2 need2 p2] obtain lat' lon' conf' where
    r3: "dict_get (rows st3 ! j2) ''Latitude'' = fst (round_coords B (round_decimals a) lat' lon')"
      "dict_get (rows st3 ! j2) ''Longitude'' = snd (round_coords B (round_decimals a) lat' lon')"
      "dict_get (rows st3 ! j2) ''Geo_Confidence'' = conf'" and
    hit: "cache st2 ?p \<noteq> None \<longrightarrow>
         cache st2 ?p = Some (lat', lon', conf') \<and>
         requests st3 = requests st2 \<and> sleeps st3 = sleeps st2"
    unfolding same by blast
  from hit c2 have eq: "lat' = lat" "lon' = lon" "conf' = conf"
    and quiet: "requests st3 = requests st2" "sleeps st3 = sleeps st2"
    by simp_all
  from process_row_cache_persists [OF second c2] have c3: "cache st3 ?p = Some (lat, lon, conf)" .
  from c1 c3 r1 r3 eq quiet show ?thesis
    by simp
qed

theorem cache_reused_for_same_primary_address_witness:
  "process_row decimal_builtins city_only default_args out_fields 0 (initial [springfield, annex])
     = Inr (after_springfield [annex]) \<and>
   process_row decimal_builtins city_only default_args out_fields 1 (after_springfield [annex])
     = Inr after_annex \<and>
   build_primary_address decimal_builtins annex = build_primary_address decimal_builtins springfield \<and>
   build_hospital_address decimal_builtins annex \<noteq> build_hospital_address decimal_builtins springfield \<and>
   requests after_annex = requests (after_springfield [annex]) \<and>
   dict_get (rows after_annex ! 1) ''Latitude'' = VNum (79 / 2) \<and>
   dict_get (rows (after_springfield [annex]) ! 0) ''Latitude'' = VNum (79 / 2) \<and>
   process_row decimal_builtins nowhere default_args out_fields 0 (initial [springfield, annex])
     = Inr (after_nowhere [annex]) \<and>
   process_row decimal_builtins nowhere default_args out_fields 1 (after_nowhere [annex])
     = Inr after_annex_nowhere \<and>
   requests after_annex_nowhere = requests (after_nowhere [annex]) \<and>
   dict_get (rows after_annex_nowhere ! 1) ''Latitude'' = VNone \<and>
   dict_get (rows (after_nowhere [annex]) ! 0) ''Latitude'' = VNone"
proof -
  have between: "process_rows B net a fs [] st = Inr st" for B net a fs st
    by simp
  have idx0: "py_index (rows (initial [springfield, annex])) 0 = Inr 0"
    by (simp add: py_index_def)
  have idx1: "py_index (rows (after_springfield [annex])) 1 = Inr 1"
    "py_index (rows (after_nowhere [annex])) 1 = Inr 1"
    by (simp_all add: py_index_def)
  have same: "build_primary_address decimal_builtins (rows (after_springfield [annex]) ! 1)
      = build_primary_address decimal_builtins (rows (initial [springfield, annex]) ! 0)"
    "build_primary_address decimal_builtins (rows (after_nowhere [annex]) ! 1)
      = build_primary_address decimal_builtins (rows (initial [springfield, annex]) ! 0)"
    by (simp_all add: annex_addresses springfield_addresses)
  have p: "build_primary_address decimal_builtins (rows (initial [springfield, annex]) ! 0) \<noteq> []"
    by (simp add: springfield_addresses)
  have need0: "\<not> (truthy (dict_get (rows (initial [springfield, annex]) ! 0) ''Latitude'')
      \<and> truthy (dict_get (rows (initial [springfield, annex]) ! 0) ''Longitude''))"
    by (simp add: sample_coordinates)
  have need1: "\<not> (truthy (dict_get (rows (after_springfield [annex]) ! 1) ''Latitude'')
      \<and> truthy (dict_get (rows (after_springfield [annex]) ! 1) ''Longitude''))"
    "\<not> (truthy (dict_get (rows (after_nowhere [annex]) ! 1) ''Latitude'')
      \<and> truthy (dict_get (rows (after_nowhere [annex]) ! 1) ''Longitude''))"
    by (simp_all add: sample_coordinates)
  have hit: "requests after_annex = requests (after_springfield [annex]) \<and>
      dict_get (rows after_annex ! 1) ''Latitude''
        = dict_get (rows (after_springfield [annex]) ! 0) ''Latitude''"
    using cache_reused_for_same_primary_address [OF springfield_city_only between annex_cache_hit
        idx0 idx1(1) same(1) p need0 need1(1)]
    by blast
  have miss: "requests after_annex_nowhere = requests (after_nowhere [annex]) \<and>
      dict_get (rows after_annex_nowhere ! 1) ''Latitude''
        = dict_get (rows (after_nowhere [annex]) ! 0) ''Latitude''"
    using cache_reused_for_same_primary_address [OF springfield_nowhere between annex_nowhere_hit
        idx0 idx1(2) same(2) p need0 need1(2)]
    by blast
  from hit miss springfield_city_only [of "[annex]"] annex_cache_hit
    springfield_nowhere [of "[annex]"] annex_nowhere_hit
  show ?thesis
    by (simp add: annex_addresses springfield_addresses dict_get_store_result
        springfield_unmatched_def)
qed

subsection \<open>The output table\<close>

lemma output_fieldnames_eq:
  "output_fieldnames hs = hs @ filter (\<lambda>c. c \<notin> set hs) RESULT_COLS"
  by (simp add: output_fieldnames_def RESULT_COLS_def)

lemma writerow_Inr:
  assumes "writerow fs r = Inr line"
  shows "line = map (\<lambda>f. dict_get_default r f (VStr [])) fs"
  using assms by (auto simp: writerow_def split: if_splits)

lemma dict_get_default_store_result:
  "c \<notin> set RESULT_COLS \<Longrightarrow>
     dict_get_default (store_result r lat lon source conf) c d = dict_get_default r c d"
  by (auto simp: store_result_def dict_get_default_set RESULT_COLS_def)

lemma process_row_outfile:
  assumes run: "process_row B net a fs idx st = Inr st'" and idx: "py_index (rows st) idx = Inr j"
  shows "\<exists>r'. rows st' = (rows st)[j := r'] \<and>
           (\<forall>c. c \<notin> set RESULT_COLS \<longrightarrow>
                 dict_get_default r' c (VStr []) = dict_get_default (rows st ! j) c (VStr [])) \<and>
           outfile st' = outfile st @ [map (\<lambda>f. dict_get_default r' f (VStr [])) fs]"
proof (rule process_row_result [OF run idx])
  fix lat lon conf source st1
  let ?r' = "store_result (rows st ! j) (fst (round_coords B (round_decimals a) lat lon))
          (snd (round_coords B (round_decimals a) lat lon)) source conf"
  assume rows': "rows st' = (rows st)[j := ?r']"
    and out: "\<exists>line. writerow fs ?r' = Inr line \<and> outfile st' = outfile st @ [line]"
  from out obtain line where "writerow fs ?r' = Inr line" "outfile st' = outfile st @ [line]"
    by blast
  with writerow_Inr [of fs ?r' line]
  have "outfile st' = outfile st @ [map (\<lambda>f. dict_get_default ?r' f (VStr [])) fs]"
    by simp
  with rows' show ?thesis
    by (intro exI [of _ ?r']) (simp add: dict_get_default_store_result)
qed

lemma py_index_nonneg: "py_index xs i = Inr j \<Longrightarrow> 0 \<le> i \<Longrightarrow> j = nat i \<and> nat i < length xs"
  by (auto simp: py_index_def split: if_splits)

lemma process_rows_outfile:
  assumes "process_rows B net a fs idxs st = Inr st'"
    and "\<forall>idx \<in> set idxs. 0 \<le> idx"
    and "length (rows st) = length rs"
    and "\<forall>i<length rs. \<forall>c. c \<notin> set RESULT_COLS \<longrightarrow>
           dict_get_default (rows st ! i) c (VStr []) = dict_get_default (rs ! i) c (VStr [])"
  shows "\<exists>lines. outfile st' = outfile st @ lines \<and> length lines = length idxs \<and>
           (\<forall>i<length idxs. length (lines ! i) = length fs \<and>
              (\<forall>k<length fs. fs ! k \<notin> set RESULT_COLS \<longrightarrow>
                 lines ! i ! k = dict_get_default (rs ! nat (idxs ! i)) (fs ! k) (VStr [])))"
  using assms
proof (induction idxs arbitrary: st)
  case Nil
  then show ?case by simp
next
  case (Cons idx idxs)
  from Cons.prems(1) obtain st1 where
    one: "process_row B net a fs idx st = Inr st1" and
    rest: "process_rows B net a fs idxs st1 = Inr st'"
    by (auto simp: bind_Inr_iff)
  from process_row_Inr [OF one] obtain j where idx: "py_index (rows st) idx = Inr j"
    by blast
  from Cons.prems(2) have nonneg: "0 \<le> idx" and later: "\<forall>idx \<in> set idxs. 0 \<le> idx"
    by simp_all
  from py_index_nonneg [OF idx nonneg] Cons.prems(3) have j: "j = nat idx" "j < length rs"
    by simp_all
  from process_row_outfile [OF one idx] obtain r' where
    rows1: "rows st1 = (rows st)[j := r']" and
    same: "\<forall>c. c \<notin> set RESULT_COLS \<longrightarrow>
                 dict_get_default r' c (VStr []) = dict_get_default (rows st ! j) c (VStr [])" and
    out1: "outfile st1 = outfile st @ [map (\<lambda>f. dict_get_default r' f (VStr [])) fs]"
    by blast
  let ?line = "map (\<lambda>f. dict_get_default r' f (VStr [])) fs"
  have len1: "length (rows st1) = length rs"
    using rows1 Cons.prems(3) by simp
  have inv1: "\<forall>i<length rs. \<forall>c. c \<notin> set RESULT_COLS \<longrightarrow>
           dict_get_default (rows st1 ! i) c (VStr []) = dict_get_default (rs ! i) c (VStr [])"
  proof (intro allI impI)
    fix i c
    assume i: "i < length rs" and c: "c \<notin> set RESULT_COLS"
    show "dict_get_default (rows st1 ! i) c (VStr []) = dict_get_default (rs ! i) c (VStr [])"
    proof (cases "i = j")
      case True
      with rows1 i Cons.prems(3) have "rows st1 ! i = r'" by simp
      with same c True Cons.prems(4) i show ?thesis by simp
    next
      case False
      with rows1 have "rows st1 ! i = rows st ! i" by simp
      with Cons.prems(4) i c show ?thesis by simp
    qed
  qed
  have line: "length ?line = length fs \<and>
      (\<forall>k<length fs. fs ! k \<notin> set RESULT_COLS \<longrightarrow>
         ?line ! k = dict_get_default (rs ! nat idx) (fs ! k) (VStr []))"
    using same Cons.prems(4) j by simp
  from Cons.IH [OF rest later len1 inv1] obtain lines where
    out: "outfile st' = outfile st1 @ lines" and n: "length lines = length idxs" and
    each: "\<forall>i<length idxs. length (lines ! i) = length fs \<and>
              (\<forall>k<length fs. fs ! k \<notin> set RESULT_COLS \<longrightarrow>
                 lines ! i ! k = dict_get_default (rs ! nat (idxs ! i)) (fs ! k) (VStr []))"
    by blast
  have all: "\<forall>i<length (idx # idxs). length ((?line # lines) ! i) = length fs \<and>
              (\<forall>k<length fs. fs ! k \<notin> set RESULT_COLS \<longrightarrow>
                 (?line # lines) ! i ! k
                   = dict_get_default (rs ! nat ((idx # idxs) ! i)) (fs ! k) (VStr []))"
  proof (intro allI impI)
    fix i
    assume "i < length (idx # idxs)"
    then show "length ((?line # lines) ! i) = length fs \<and>
              (\<forall>k<length fs. fs ! k \<notin> set RESULT_COLS \<longrightarrow>
                 (?line # lines) ! i ! k
                   = dict_get_default (rs ! nat ((idx # idxs) ! i)) (fs ! k) (VStr []))"
      using line each by (cases i) simp_all
  qed
  from out out1 have "outfile st' = outfile st @ (?line # lines)"
    by simp
  moreover from n have "length (?line # lines) = length (idx # idxs)"
    by simp
  ultimately show ?case
    using all by blast
qed

lemma index_range_nth:
  assumes "i < length (index_range a rs)"
  shows "index_range a rs ! i = start a + int i"
  using assms by (simp add: index_range_def Let_def nth_upto)

lemma index_range_nonneg: "0 \<le> start a \<Longrightarrow> \<forall>idx \<in> set (index_range a rs). 0 \<le> idx"
  by (simp add: index_range_def Let_def)

text \<open>
  C9, as stated, with a start index of -1 on a table of two rows: the loop runs over the
  indices -1, 0, 1, the index -1 reads the last row, and three records are written, the
  second row first and once more at the end.
\<close>

theorem negative_start_wraps_around:
  "main decimal_builtins nowhere wrapped_args [resumed, resumed_oak]
     = Inr (Done out_fields after_wrapped None) \<and>
   start wrapped_args = - 1 \<and>
   dict_get (hd [resumed, resumed_oak]) ''Hospital_Name'' = VStr ''General Hospital'' \<and>
   length (outfile after_wrapped) = 3 \<and>
   outfile after_wrapped ! 0 ! 0 = VStr ''Mercy Clinic'' \<and>
   outfile after_wrapped ! 1 ! 0 = VStr ''General Hospital'' \<and>
   outfile after_wrapped ! 2 ! 0 = VStr ''Mercy Clinic''"
  using main_wrapped
  by (simp add: after_wrapped_def oak_line_def resumed_line_def resumed_defs dict_get_def)

text \<open>
  C9, amended. In a run that completes with a start index that is not negative, the
  output columns are the input columns followed by those of Latitude, Longitude,
  Geo_Source and Geo_Confidence that the input lacks; one record is written for each
  index of the selected range; every record has exactly these columns; and the
  \<open>i\<close>-th record carries, in every column other than the four result columns, the
  cells of the input row at index start + \<open>i\<close>.
\<close>

theorem output_columns_and_order:
  assumes finished: "main B net a rs = Inr (Done fs st uf)" and nonneg: "0 \<le> start a"
  shows "fs = map fst (hd rs) @ filter (\<lambda>c. c \<notin> set (map fst (hd rs))) RESULT_COLS \<and>
         length (outfile st) = length (index_range a rs) \<and>
         (\<forall>i<length (outfile st). length (outfile st ! i) = length fs \<and>
            (\<forall>k<length fs. fs ! k \<notin> set RESULT_COLS \<longrightarrow>
               outfile st ! i ! k = dict_get_default (rs ! (nat (start a) + i)) (fs ! k) (VStr [])))"
proof -
  from main_DoneD [OF finished] obtain r0 rest where
    rs: "rs = r0 # rest" and fs: "fs = output_fieldnames (map fst r0)" and
    loop: "process_rows B net a fs (index_range a rs) (initial rs) = Inr st"
    by blast
  from rs fs have cols: "fs = map fst (hd rs) @ filter (\<lambda>c. c \<notin> set (map fst (hd rs))) RESULT_COLS"
    by (simp add: output_fieldnames_eq)
  from process_rows_outfile [OF loop index_range_nonneg [OF nonneg], of rs]
  obtain lines where
    out: "outfile st = lines" and n: "length lines = length (index_range a rs)" and
    each: "\<forall>i<length (index_range a rs). length (lines ! i) = length fs \<and>
              (\<forall>k<length fs. fs ! k \<notin> set RESULT_COLS \<longrightarrow>
                 lines ! i ! k = dict_get_default (rs ! nat (index_range a rs ! i)) (fs ! k) (VStr []))"
    by auto
  have "\<forall>i<length (outfile st). length (outfile st ! i) = length fs \<and>
            (\<forall>k<length fs. fs ! k \<notin> set RESULT_COLS \<longrightarrow>
               outfile st ! i ! k = dict_get_default (rs ! (nat (start a) + i)) (fs ! k) (VStr []))"
  proof (intro allI impI)
    fix i
    assume "i < length (outfile st)"
    with out n have i: "i < length (index_range a rs)" by simp
    from index_range_nth [OF i] nonneg have "nat (index_range a rs ! i) = nat (start a) + i"
      by simp
    with each i out show "length (outfile st ! i) = length fs \<and>
            (\<forall>k<length fs. fs ! k \<notin> set RESULT_COLS \<longrightarrow>
               outfile st ! i ! k = dict_get_default (rs ! (nat (start a) + i)) (fs ! k) (VStr []))"
      by simp
  qed
  with cols out n show ?thesis
    by simp
qed

theorem output_columns_and_order_witness:
  "main decimal_builtins nowhere default_args [springfield, oak]
     = Inr (Done out_fields after_oak (Some oak_table)) \<and>
   0 \<le> start default_args \<and>
   out_fields = map fst springfield @ RESULT_COLS \<and>
   length (outfile after_oak) = 2 \<and>
   outfile after_oak ! 0 ! 0 = VStr ''General Hospital'' \<and>
   outfile after_oak ! 1 ! 0 = VStr ''Mercy Clinic''"
proof -
  have nonneg: "0 \<le> start default_args"
    by (simp add: default_args_def)
  from output_columns_and_order [OF main_nowhere nonneg] main_nowhere nonneg
  show ?thesis
    by (simp add: out_fields_def RESULT_COLS_def springfield_def hospital_row_def)
qed

subsection \<open>The unmatched table\<close>

lemma writerows_Inr:
  assumes "writerows fs us = Inr ls"
  shows "ls = map (\<lambda>u. map (\<lambda>f. dict_get_default u f (VStr [])) fs) us \<and>
         (\<forall>u \<in> set us. set (map fst u) \<subseteq> set fs)"
  using assms
proof (induction us arbitrary: ls)
  case Nil
  then show ?case by simp
next
  case (Cons u us)
  from Cons.prems obtain line rest where
    line: "writerow fs u = Inr line" and rest: "writerows fs us = Inr rest" and
    ls: "ls = line # rest"
    by (auto simp: bind_Inr_iff)
  from line have keys: "set (map fst u) \<subseteq> set fs"
    by (auto simp: writerow_def split: if_splits)
  from writerow_Inr [OF line] Cons.IH [OF rest] ls keys show ?case
    by simp
qed

lemma write_unmatched_Inr:
  assumes "write_unmatched us = Inr uf"
  shows "uf = (if us = [] then None
               else Some (map fst (hd us),
                          map (\<lambda>u. map (\<lambda>f. dict_get_default u f (VStr [])) (map fst (hd us))) us))"
    and "\<forall>u \<in> set us. set (map fst u) \<subseteq> set (map fst (hd us))"
proof -
  show "uf = (if us = [] then None
               else Some (map fst (hd us),
                          map (\<lambda>u. map (\<lambda>f. dict_get_default u f (VStr [])) (map fst (hd us))) us))"
  proof (cases us)
    case Nil
    with assms show ?thesis by (simp add: write_unmatched_def)
  next
    case (Cons u rest)
    with assms obtain ls where "writerows (map fst u) us = Inr ls" "uf = Some (map fst u, ls)"
      by (auto simp: write_unmatched_def bind_Inr_iff)
    with writerows_Inr [of "map fst u" us ls] Cons show ?thesis
      by simp
  qed
  show "\<forall>u \<in> set us. set (map fst u) \<subseteq> set (map fst (hd us))"
  proof (cases us)
    case Nil
    then show ?thesis by simp
  next
    case (Cons u rest)
    with assms obtain ls where "writerows (map fst u) us = Inr ls"
      by (auto simp: write_unmatched_def bind_Inr_iff)
    with writerows_Inr [of "map fst u" us ls] Cons show ?thesis
      by simp
  qed
qed

lemma process_rows_append:
  "process_rows B net a fs (xs @ ys) st =
     bind (process_rows B net a fs xs st) (process_rows B net a fs ys)"
proof (induction xs arbitrary: st)
  case Nil
  show ?case by simp
next
  case (Cons x xs)
  show ?case
    by (cases "process_row B net a fs x st") (simp_all add: Cons.IH)
qed

lemma process_row_unmatched_grows:
  assumes "process_row B net a fs idx st = Inr st'"
  shows "\<exists>later. unmatched_rows st' = unmatched_rows st @ later"
proof -
  from process_row_Inr [OF assms] obtain j where idx: "py_index (rows st) idx = Inr j"
    by blast
  show ?thesis
  proof (rule process_row_result [OF assms idx])
    fix lat lon conf source
    assume "unmatched_rows st' =
       (if lat = VNone \<or> lon = VNone
        then unmatched_rows st @ [unmatched_copy B (store_result (rows st ! j)
               (fst (round_coords B (round_decimals a) lat lon))
               (snd (round_coords B (round_decimals a) lat lon)) source conf)
               (build_primary_address B (rows st ! j))]
        else unmatched_rows st)"
    then show ?thesis
      by (cases "lat = VNone \<or> lon = VNone") simp_all
  qed
qed

lemma process_rows_unmatched_grows:
  assumes "process_rows B net a fs idxs st = Inr st'"
  shows "\<exists>later. unmatched_rows st' = unmatched_rows st @ later"
  using assms
proof (induction idxs arbitrary: st)
  case Nil
  then show ?case by simp
next
  case (Cons idx idxs)
  from Cons.prems obtain st1 where
    one: "process_row B net a fs idx st = Inr st1" and
    rest: "process_rows B net a fs idxs st1 = Inr st'"
    by (auto simp: bind_Inr_iff)
  from process_row_unmatched_grows [OF one] Cons.IH [OF rest] show ?case
    by auto
qed

lemma chain_city_tier:
  assumes "p \<noteq> []" "build_city_address B r \<noteq> []"
    and "census_geocode net reqs p = Inr (g1, reqs1)" "\<not> matched g1"
    and "if build_hospital_address B r \<noteq> [] \<and> build_hospital_address B r \<noteq> p
         then census_geocode net reqs1 (build_hospital_address B r) = Inr (g2, reqs2) \<and> \<not> matched g2
         else reqs2 = reqs1"
    and "census_geocode net reqs2 (build_city_address B r) = Inr (g3, reqs3)" "matched g3"
  shows "lookup_chain B net r p source reqs = Inr (g3, VStr ''census_city'', reqs3)"
  using assms
  by (auto simp: lookup_chain_def attempt_hospital_def attempt_city_def Let_def split: if_splits)


lemma cell_store_result:
  "dict_get_default (store_result r lat lon source conf) k d =
     (if k = ''Geo_Confidence'' then conf else if k = ''Geo_Source'' then source
      else if k = ''Longitude'' then lon else if k = ''Latitude'' then lat
      else dict_get_default r k d)"
  by (simp add: store_result_def dict_get_default_set)

lemma cell_unmatched_copy:
  "dict_get_default (unmatched_copy B r p) k d =
     (if k = ''Unmatched_Primary_Address'' then VStr p
      else if k = ''Unmatched_Hospital_Address'' then VStr (build_hospital_address B r)
      else if k = ''Unmatched_City_Address'' then VStr (build_city_address B r)
      else dict_get_default r k d)"
  by (simp add: unmatched_copy_def dict_get_default_set)

lemma process_row_unmatched_step:
  assumes run: "process_row B net a fs idx st = Inr st'" and idx: "py_index (rows st) idx = Inr j"
  shows "outfile st' = outfile st @ [map (\<lambda>f. dict_get_default (rows st' ! j) f (VStr [])) fs]"
    and "unmatched_rows st' = unmatched_rows st @
           (if dict_get_default (rows st' ! j) ''Latitude'' (VStr []) = VNone \<or>
               dict_get_default (rows st' ! j) ''Longitude'' (VStr []) = VNone
            then [unmatched_copy B (rows st' ! j) (build_primary_address B (rows st ! j))]
            else [])"
    and "build_hospital_address B (rows st' ! j) = build_hospital_address B (rows st ! j)"
    and "build_city_address B (rows st' ! j) = build_city_address B (rows st ! j)"
proof -
  let ?r = "rows st ! j"
  let ?p = "build_primary_address B ?r"
  have "outfile st' = outfile st @ [map (\<lambda>f. dict_get_default (rows st' ! j) f (VStr [])) fs] \<and>
    unmatched_rows st' = unmatched_rows st @
           (if dict_get_default (rows st' ! j) ''Latitude'' (VStr []) = VNone \<or>
               dict_get_default (rows st' ! j) ''Longitude'' (VStr []) = VNone
            then [unmatched_copy B (rows st' ! j) ?p] else []) \<and>
    build_hospital_address B (rows st' ! j) = build_hospital_address B ?r \<and>
    build_city_address B (rows st' ! j) = build_city_address B ?r"
  proof (rule process_row_result [OF run idx])
    fix lat1 lon1 conf1 source st1
    let ?r' = "store_result ?r (fst (round_coords B (round_decimals a) lat1 lon1))
          (snd (round_coords B (round_decimals a) lat1 lon1)) source conf1"
    assume rows': "rows st' = (rows st)[j := ?r']" and
      um: "unmatched_rows st' =
         (if lat1 = VNone \<or> lon1 = VNone
          then unmatched_rows st @ [unmatched_copy B ?r' ?p]
          else unmatched_rows st)" and
      out: "\<exists>line. writerow fs ?r' = Inr line \<and> outfile st' = outfile st @ [line]"
    have row: "rows st' ! j = ?r'"
      by (rule process_row_final_row [OF rows' idx])
    from out obtain line where "writerow fs ?r' = Inr line" "outfile st' = outfile st @ [line]"
      by blast
    with writerow_Inr [of fs ?r' line]
    have o: "outfile st' = outfile st @ [map (\<lambda>f. dict_get_default ?r' f (VStr [])) fs]"
      by simp
    have cells: "dict_get_default ?r' ''Latitude'' (VStr []) = VNone \<longleftrightarrow> lat1 = VNone"
      "dict_get_default ?r' ''Longitude'' (VStr []) = VNone \<longleftrightarrow> lon1 = VNone"
      by (simp_all add: cell_store_result round_coords_None)
    have u: "unmatched_rows st' = unmatched_rows st @
           (if dict_get_default ?r' ''Latitude'' (VStr []) = VNone \<or>
               dict_get_default ?r' ''Longitude'' (VStr []) = VNone
            then [unmatched_copy B ?r' ?p] else [])"
      unfolding cells using um by simp
    from o u show ?thesis
      unfolding row by (simp add: addresses_store_result)
  qed
  then show "outfile st' = outfile st @ [map (\<lambda>f. dict_get_default (rows st' ! j) f (VStr [])) fs]"
    and "unmatched_rows st' = unmatched_rows st @
           (if dict_get_default (rows st' ! j) ''Latitude'' (VStr []) = VNone \<or>
               dict_get_default (rows st' ! j) ''Longitude'' (VStr []) = VNone
            then [unmatched_copy B (rows st' ! j) (build_primary_address B (rows st ! j))]
            else [])"
    and "build_hospital_address B (rows st' ! j) = build_hospital_address B (rows st ! j)"
    and "build_city_address B (rows st' ! j) = build_city_address B (rows st ! j)"
    by blast+
qed

lemma process_row_uncached:
  assumes run: "process_row B net a fs idx st = Inr st'" and idx: "py_index (rows st) idx = Inr j"
    and need: "\<not> (truthy (dict_get (rows st ! j) ''Latitude'') \<and>
                   truthy (dict_get (rows st ! j) ''Longitude''))"
    and p: "build_primary_address B (rows st ! j) \<noteq> []"
    and new: "cache st (build_primary_address B (rows st ! j)) = None"
    and chain: "lookup_chain B net (rows st ! j) (build_primary_address B (rows st ! j))
                  (existing_source (rows st ! j)) (requests st) = Inr ((lat, lon, conf), source, reqs)"
  shows "dict_get_default (rows st' ! j) ''Latitude'' (VStr []) = VNone \<longleftrightarrow> lat = VNone"
    and "dict_get_default (rows st' ! j) ''Longitude'' (VStr []) = VNone \<longleftrightarrow> lon = VNone"
    and "dict_get_default (rows st' ! j) ''Geo_Source'' (VStr []) = source"
proof -
  let ?r = "rows st ! j"
  let ?p = "build_primary_address B ?r"
  have "(dict_get_default (rows st' ! j) ''Latitude'' (VStr []) = VNone \<longleftrightarrow> lat = VNone) \<and>
    (dict_get_default (rows st' ! j) ''Longitude'' (VStr []) = VNone \<longleftrightarrow> lon = VNone) \<and>
    dict_get_default (rows st' ! j) ''Geo_Source'' (VStr []) = source"
  proof (rule process_row_result [OF run idx])
    fix lat1 lon1 conf1 source1 st1
    let ?r' = "store_result ?r (fst (round_coords B (round_decimals a) lat1 lon1))
          (snd (round_coords B (round_decimals a) lat1 lon1)) source1 conf1"
    assume res: "resolve B net (sleep a) ?r ?p (existing_geo ?r) (existing_source ?r) st
              = Inr ((lat1, lon1, conf1), source1, st1)" and
      rows': "rows st' = (rows st)[j := ?r']"
    have row: "rows st' ! j = ?r'"
      by (rule process_row_final_row [OF rows' idx])
    from need p new res chain have "lat1 = lat" "lon1 = lon" "source1 = source"
      by (auto simp: existing_geo_def resolve_miss bind_Inr_iff split: if_splits)
    then show ?thesis
      unfolding row by (simp add: cell_store_result round_coords_None)
  qed
  then show "dict_get_default (rows st' ! j) ''Latitude'' (VStr []) = VNone \<longleftrightarrow> lat = VNone"
    and "dict_get_default (rows st' ! j) ''Longitude'' (VStr []) = VNone \<longleftrightarrow> lon = VNone"
    and "dict_get_default (rows st' ! j) ''Geo_Source'' (VStr []) = source"
    by blast+
qed

lemma main_city_only:
  "main decimal_builtins city_only default_args [springfield, annex]
     = Inr (Done out_fields after_annex None)"
proof -
  have loop: "process_rows decimal_builtins city_only default_args
          (output_fieldnames (map fst springfield)) (index_range default_args (springfield # [annex]))
          (initial (springfield # [annex])) = Inr after_annex"
    by (simp add: sample_headers(2) sample_range springfield_city_only annex_cache_hit)
  have wu: "write_unmatched (unmatched_rows after_annex) = Inr None"
    by (simp add: write_unmatched_def)
  from main_Done [OF sample_headers(1) loop wu] show ?thesis
    by (simp only: sample_headers(2))
qed

lemma oak_table_lines:
  "oak_table =
     ([''Hospital_Name'', ''Street_Address'', ''City'', ''State'', ''ZIP_Code'', ''Latitude'',
       ''Longitude'', ''Geo_Source'', ''Geo_Confidence'', ''Unmatched_Primary_Address'',
       ''Unmatched_Hospital_Address'', ''Unmatched_City_Address''],
      [[VStr ''General Hospital'', VStr ''1 Main St'', VStr ''Springfield'', VStr ''IL'',
        VStr ''62701'', VNone, VNone, VStr ''census'', VNone,
        VStr ''1 Main St, Springfield, IL, 62701'',
        VStr ''General Hospital, Springfield, IL, 62701'', VStr ''Springfield, IL, 62701''],
       [VStr ''Mercy Clinic'', VStr ''2 Oak Ave'', VStr ''Springfield'', VStr ''IL'',
        VStr ''62701'', VNone, VNone, VStr ''census'', VNone,
        VStr ''2 Oak Ave, Springfield, IL, 62701'',
        VStr ''Mercy Clinic, Springfield, IL, 62701'', VStr ''Springfield, IL, 62701'']])"
  by (simp add: oak_table_def Let_def out_fields_def col_defs cell_unmatched_copy
      cell_store_result springfield_unmatched_def oak_unmatched_def addresses_store_result
      springfield_addresses oak_addresses)
     (simp add: springfield_def oak_def hospital_row_def col_defs dict_get_default_def)

lemma nowhere_lookups:
  "address \<noteq> [] \<Longrightarrow> census_geocode nowhere reqs address = Inr (absent, reqs @ [address])"
  by (simp add: nowhere_def census_geocode_service_of parse_no_match)

lemma city_only_lookups:
  "census_geocode city_only reqs ''1 Main St, Springfield, IL, 62701''
     = Inr (absent, reqs @ [''1 Main St, Springfield, IL, 62701''])"
  "census_geocode city_only reqs ''General Hospital, Springfield, IL, 62701''
     = Inr (absent, reqs @ [''General Hospital, Springfield, IL, 62701''])"
  "census_geocode city_only reqs ''Springfield, IL, 62701''
     = Inr ((VNum (79 / 2), VNum (- (179 / 2)), VStr ''L''), reqs @ [''Springfield, IL, 62701''])"
  by (simp_all add: city_only_def census_geocode_service_of parse_no_match parse_match)

text \<open>
  C4. In a run that completes, for the row processed at any position of the index range:
  the loop body appends a record to the unmatched accumulator exactly when the latitude
  or the longitude it wrote for the row is None, and the accumulator at the end of the
  run is the accumulator after this row followed by the records of the later rows. The
  unmatched table is not written when the accumulator is empty; otherwise its header is
  the key list of the first record and its lines are the records of the accumulator, in
  order and cell by cell. The record of a row has the columns of the augmented row, with
  the cells of the main output, and three more columns holding the primary, hospital and
  city candidate addresses; its columns are columns of the table. A row whose primary and
  hospital lookups find no match and whose city lookup matches is tagged census_city and
  adds no record; a row for which the three lookups come back absent is written with
  latitude and longitude None in the main output, and its record is in the table.
\<close>

theorem unmatched_table_row:
  assumes main: "main B net a rs = Inr (Done fs st uf)"
    and split: "index_range a rs = pre @ idx # post"
    and before: "process_rows B net a fs pre (initial rs) = Inr st1"
    and idx: "py_index (rows st1) idx = Inr j"
    and row: "process_row B net a fs idx st1 = Inr st2"
  shows
   "(let r = rows st1 ! j;
         p = build_primary_address B r;
         hosp = build_hospital_address B r;
         city = build_city_address B r;
         r' = rows st2 ! j;
         missing = (dict_get_default r' ''Latitude'' (VStr []) = VNone \<or>
                    dict_get_default r' ''Longitude'' (VStr []) = VNone);
         copy = unmatched_copy B r' p;
         us = unmatched_rows st;
         header = map fst (hd us);
         uncached = (\<not> (truthy (dict_get r ''Latitude'') \<and> truthy (dict_get r ''Longitude''))
                     \<and> p \<noteq> [] \<and> cache st1 p = None)
     in {''Latitude'', ''Longitude''} \<subseteq> set fs \<and>
        outfile st2 = outfile st1 @ [map (\<lambda>f. dict_get_default r' f (VStr [])) fs] \<and>
        unmatched_rows st2 = unmatched_rows st1 @ (if missing then [copy] else []) \<and>
        (\<exists>later. us = unmatched_rows st2 @ later) \<and>
        uf = (if us = [] then None
              else Some (header, map (\<lambda>u. map (\<lambda>f. dict_get_default u f (VStr [])) header) us)) \<and>
        (missing \<longrightarrow> set (map fst copy) \<subseteq> set header) \<and>
        set (map fst copy) = set (map fst r') \<union> {''Unmatched_Primary_Address'',
           ''Unmatched_Hospital_Address'', ''Unmatched_City_Address''} \<and>
        dict_get_default copy k (VStr []) =
          (if k = ''Unmatched_Primary_Address'' then VStr p
           else if k = ''Unmatched_Hospital_Address'' then VStr hosp
           else if k = ''Unmatched_City_Address'' then VStr city
           else dict_get_default r' k (VStr [])) \<and>
        (uncached \<and> city \<noteq> []
           \<and> census_geocode net (requests st1) p = Inr (g_p, sent_p) \<and> \<not> matched g_p
           \<and> (if hosp \<noteq> [] \<and> hosp \<noteq> p
               then census_geocode net sent_p hosp = Inr (g_h, sent_h) \<and> \<not> matched g_h
               else sent_h = sent_p)
           \<and> census_geocode net sent_h city = Inr (g_c, sent_c) \<and> matched g_c
           \<longrightarrow> dict_get_default r' ''Geo_Source'' (VStr []) = VStr ''census_city'' \<and>
               \<not> missing \<and> unmatched_rows st2 = unmatched_rows st1) \<and>
        (uncached \<and> hosp \<noteq> [] \<and> hosp \<noteq> p \<and> city \<noteq> []
           \<and> census_geocode net (requests st1) p = Inr (absent, requests st1 @ [p])
           \<and> census_geocode net (requests st1 @ [p]) hosp = Inr (absent, requests st1 @ [p, hosp])
           \<and> census_geocode net (requests st1 @ [p, hosp]) city
                 = Inr (absent, requests st1 @ [p, hosp, city])
           \<longrightarrow> dict_get_default r' ''Latitude'' (VStr []) = VNone \<and>
               dict_get_default r' ''Longitude'' (VStr []) = VNone \<and>
               unmatched_rows st2 = unmatched_rows st1 @ [copy] \<and> copy \<in> set us))"
proof -
  let ?r = "rows st1 ! j"
  let ?p = "build_primary_address B ?r"
  let ?hosp = "build_hospital_address B ?r" and ?city = "build_city_address B ?r"
  let ?r' = "rows st2 ! j"
  let ?missing = "dict_get_default ?r' ''Latitude'' (VStr []) = VNone \<or>
                  dict_get_default ?r' ''Longitude'' (VStr []) = VNone"
  let ?copy = "unmatched_copy B ?r' ?p"
  let ?us = "unmatched_rows st"
  let ?header = "map fst (hd ?us)"
  let ?uncached = "\<not> (truthy (dict_get ?r ''Latitude'') \<and> truthy (dict_get ?r ''Longitude''))
                     \<and> ?p \<noteq> [] \<and> cache st1 ?p = None"
  from main_DoneD [OF main] obtain r0 :: row where
    fs: "fs = output_fieldnames (map fst r0)" and
    loop: "process_rows B net a fs (index_range a rs) (initial rs) = Inr st" and
    wu: "write_unmatched (unmatched_rows st) = Inr uf"
    by blast
  have c1: "{''Latitude'', ''Longitude''} \<subseteq> set fs"
    unfolding fs output_fieldnames_eq by (auto simp: RESULT_COLS_def)
  from loop before row have rest: "process_rows B net a fs post st2 = Inr st"
    unfolding split by (simp add: process_rows_append)
  note step = process_row_unmatched_step [OF row idx]
  have c2: "outfile st2 = outfile st1 @ [map (\<lambda>f. dict_get_default ?r' f (VStr [])) fs]"
    by (rule step(1))
  have c3: "unmatched_rows st2 = unmatched_rows st1 @ (if ?missing then [?copy] else [])"
    by (rule step(2))
  have c4: "\<exists>later. ?us = unmatched_rows st2 @ later"
    by (rule process_rows_unmatched_grows [OF rest])
  have c5: "uf = (if ?us = [] then None else Some (?header,
              map (\<lambda>u. map (\<lambda>f. dict_get_default u f (VStr [])) ?header) ?us))"
    by (rule write_unmatched_Inr(1) [OF wu])
  have mem: "?copy \<in> set ?us" if "?missing"
    using c3 c4 that by auto
  have c6: "?missing \<longrightarrow> set (map fst ?copy) \<subseteq> set ?header"
    using write_unmatched_Inr(2) [OF wu] mem by blast
  have c7: "set (map fst ?copy) = set (map fst ?r') \<union> {''Unmatched_Primary_Address'',
           ''Unmatched_Hospital_Address'', ''Unmatched_City_Address''}"
    by (rule unmatched_copy_keys)
  have c8: "dict_get_default ?copy k (VStr []) =
          (if k = ''Unmatched_Primary_Address'' then VStr ?p
           else if k = ''Unmatched_Hospital_Address'' then VStr ?hosp
           else if k = ''Unmatched_City_Address'' then VStr ?city
           else dict_get_default ?r' k (VStr []))"
    by (simp add: cell_unmatched_copy step(3,4))
  have c9: "?uncached \<and> ?city \<noteq> []
           \<and> census_geocode net (requests st1) ?p = Inr (g_p, sent_p) \<and> \<not> matched g_p
           \<and> (if ?hosp \<noteq> [] \<and> ?hosp \<noteq> ?p
               then census_geocode net sent_p ?hosp = Inr (g_h, sent_h) \<and> \<not> matched g_h
               else sent_h = sent_p)
           \<and> census_geocode net sent_h ?city = Inr (g_c, sent_c) \<and> matched g_c
           \<longrightarrow> dict_get_default ?r' ''Geo_Source'' (VStr []) = VStr ''census_city'' \<and>
               \<not> ?missing \<and> unmatched_rows st2 = unmatched_rows st1"
  proof
    assume h: "?uncached \<and> ?city \<noteq> []
           \<and> census_geocode net (requests st1) ?p = Inr (g_p, sent_p) \<and> \<not> matched g_p
           \<and> (if ?hosp \<noteq> [] \<and> ?hosp \<noteq> ?p
               then census_geocode net sent_p ?hosp = Inr (g_h, sent_h) \<and> \<not> matched g_h
               else sent_h = sent_p)
           \<and> census_geocode net sent_h ?city = Inr (g_c, sent_c) \<and> matched g_c"
    then have need: "\<not> (truthy (dict_get ?r ''Latitude'') \<and> truthy (dict_get ?r ''Longitude''))"
      and p: "?p \<noteq> []" and new: "cache st1 ?p = None" and city: "?city \<noteq> []"
      and t1: "census_geocode net (requests st1) ?p = Inr (g_p, sent_p)" "\<not> matched g_p"
      and t2: "if ?hosp \<noteq> [] \<and> ?hosp \<noteq> ?p
               then census_geocode net sent_p ?hosp = Inr (g_h, sent_h) \<and> \<not> matched g_h
               else sent_h = sent_p"
      and t3: "census_geocode net sent_h ?city = Inr (g_c, sent_c)" "matched g_c"
      by blast+
    obtain lat lon conf where g_c: "g_c = (lat, lon, conf)"
      by (cases g_c) auto
    from chain_city_tier [OF p city t1 t2 t3, of "existing_source ?r"]
    have chain: "lookup_chain B net ?r ?p (existing_source ?r) (requests st1)
                   = Inr ((lat, lon, conf), VStr ''census_city'', sent_c)"
      unfolding g_c .
    note res = process_row_uncached [OF row idx need p new chain]
    from t3(2) have "lat \<noteq> VNone" "lon \<noteq> VNone"
      by (simp_all add: g_c matched_def)
    with res(1,2) have nm: "\<not> ?missing"
      by blast
    with c3 have "unmatched_rows st2 = unmatched_rows st1"
      by simp
    with res(3) nm
    show "dict_get_default ?r' ''Geo_Source'' (VStr []) = VStr ''census_city'' \<and>
               \<not> ?missing \<and> unmatched_rows st2 = unmatched_rows st1"
      by blast
  qed
  have c10: "?uncached \<and> ?hosp \<noteq> [] \<and> ?hosp \<noteq> ?p \<and> ?city \<noteq> []
           \<and> census_geocode net (requests st1) ?p = Inr (absent, requests st1 @ [?p])
           \<and> census_geocode net (requests st1 @ [?p]) ?hosp = Inr (absent, requests st1 @ [?p, ?hosp])
           \<and> census_geocode net (requests st1 @ [?p, ?hosp]) ?city
                 = Inr (absent, requests st1 @ [?p, ?hosp, ?city])
           \<longrightarrow> dict_get_default ?r' ''Latitude'' (VStr []) = VNone \<and>
               dict_get_default ?r' ''Longitude'' (VStr []) = VNone \<and>
               unmatched_rows st2 = unmatched_rows st1 @ [?copy] \<and> ?copy \<in> set ?us"
  proof
    assume h: "?uncached \<and> ?hosp \<noteq> [] \<and> ?hosp \<noteq> ?p \<and> ?city \<noteq> []
           \<and> census_geocode net (requests st1) ?p = Inr (absent, requests st1 @ [?p])
           \<and> census_geocode net (requests st1 @ [?p]) ?hosp = Inr (absent, requests st1 @ [?p, ?hosp])
           \<and> census_geocode net (requests st1 @ [?p, ?hosp]) ?city
                 = Inr (absent, requests st1 @ [?p, ?hosp, ?city])"
    then have need: "\<not> (truthy (dict_get ?r ''Latitude'') \<and> truthy (dict_get ?r ''Longitude''))"
      and p: "?p \<noteq> []" and new: "cache st1 ?p = None"
      and ad: "?hosp \<noteq> []" "?hosp \<noteq> ?p" "?city \<noteq> []"
      and g: "census_geocode net (requests st1) ?p = Inr (absent, requests st1 @ [?p])"
        "census_geocode net (requests st1 @ [?p]) ?hosp = Inr (absent, requests st1 @ [?p, ?hosp])"
        "census_geocode net (requests st1 @ [?p, ?hosp]) ?city
                 = Inr (absent, requests st1 @ [?p, ?hosp, ?city])"
      by blast+
    from chain_all_fail [OF p ad g, of "existing_source ?r"]
    have chain: "lookup_chain B net ?r ?p (existing_source ?r) (requests st1)
                   = Inr ((VNone, VNone, VNone), existing_source ?r,
                          requests st1 @ [?p, ?hosp, ?city])"
      unfolding absent_def .
    note res = process_row_uncached [OF row idx need p new chain]
    from res(1,2) have lat: "dict_get_default ?r' ''Latitude'' (VStr []) = VNone"
      and lon: "dict_get_default ?r' ''Longitude'' (VStr []) = VNone"
      by simp_all
    from lat have m: "?missing"
      by blast
    with c3 have "unmatched_rows st2 = unmatched_rows st1 @ [?copy]"
      by simp
    with lat lon mem [OF m]
    show "dict_get_default ?r' ''Latitude'' (VStr []) = VNone \<and>
               dict_get_default ?r' ''Longitude'' (VStr []) = VNone \<and>
               unmatched_rows st2 = unmatched_rows st1 @ [?copy] \<and> ?copy \<in> set ?us"
      by blast
  qed
  show ?thesis
    unfolding Let_def by (intro conjI c1 c2 c3 c4 c5 c6 c7 c8 c9 c10)
qed

theorem unmatched_table_row_witness:
  "main decimal_builtins nowhere default_args [springfield, oak]
     = Inr (Done out_fields after_oak (Some oak_table)) \<and>
   index_range default_args [springfield, oak] = [] @ 0 # [1] \<and>
   process_rows decimal_builtins nowhere default_args out_fields [] (initial [springfield, oak])
     = Inr (initial [springfield, oak]) \<and>
   py_index (rows (initial [springfield, oak])) 0 = Inr 0 \<and>
   process_row decimal_builtins nowhere default_args out_fields 0 (initial [springfield, oak])
     = Inr (after_nowhere [oak]) \<and>
   cache (initial [springfield, oak]) ''1 Main St, Springfield, IL, 62701'' = None \<and>
   census_geocode nowhere [] ''1 Main St, Springfield, IL, 62701''
     = Inr (absent, [''1 Main St, Springfield, IL, 62701'']) \<and>
   census_geocode nowhere [''1 Main St, Springfield, IL, 62701'']
       ''General Hospital, Springfield, IL, 62701''
     = Inr (absent, [''1 Main St, Springfield, IL, 62701'',
                     ''General Hospital, Springfield, IL, 62701'']) \<and>
   census_geocode nowhere [''1 Main St, Springfield, IL, 62701'',
                           ''General Hospital, Springfield, IL, 62701'']
       ''Springfield, IL, 62701''
     = Inr (absent, [''1 Main St, Springfield, IL, 62701'',
                     ''General Hospital, Springfield, IL, 62701'', ''Springfield, IL, 62701'']) \<and>
   outfile (after_nowhere [oak])
     = [[VStr ''General Hospital'', VStr ''1 Main St'', VStr ''Springfield'', VStr ''IL'',
         VStr ''62701'', VNone, VNone, VStr ''census'', VNone]] \<and>
   unmatched_rows (after_nowhere [oak])
     = [unmatched_copy decimal_builtins (rows (after_nowhere [oak]) ! 0)
          ''1 Main St, Springfield, IL, 62701''] \<and>
   unmatched_copy decimal_builtins (rows (after_nowhere [oak]) ! 0)
       ''1 Main St, Springfield, IL, 62701'' \<in> set (unmatched_rows after_oak) \<and>
   oak_table =
     ([''Hospital_Name'', ''Street_Address'', ''City'', ''State'', ''ZIP_Code'', ''Latitude'',
       ''Longitude'', ''Geo_Source'', ''Geo_Confidence'', ''Unmatched_Primary_Address'',
       ''Unmatched_Hospital_Address'', ''Unmatched_City_Address''],
      [[VStr ''General Hospital'', VStr ''1 Main St'', VStr ''Springfield'', VStr ''IL'',
        VStr ''62701'', VNone, VNone, VStr ''census'', VNone,
        VStr ''1 Main St, Springfield, IL, 62701'',
        VStr ''General Hospital, Springfield, IL, 62701'', VStr ''Springfield, IL, 62701''],
       [VStr ''Mercy Clinic'', VStr ''2 Oak Ave'', VStr ''Springfield'', VStr ''IL'',
        VStr ''62701'', VNone, VNone, VStr ''census'', VNone,
        VStr ''2 Oak Ave, Springfield, IL, 62701'',
        VStr ''Mercy Clinic, Springfield, IL, 62701'', VStr ''Springfield, IL, 62701'']]) \<and>
   main decimal_builtins city_only default_args [springfield, annex]
     = Inr (Done out_fields after_annex None) \<and>
   index_range default_args [springfield, annex] = [] @ 0 # [1] \<and>
   process_row decimal_builtins city_only default_args out_fields 0 (initial [springfield, annex])
     = Inr (after_springfield [annex]) \<and>
   census_geocode city_only [] ''1 Main St, Springfield, IL, 62701''
     = Inr (absent, [''1 Main St, Springfield, IL, 62701'']) \<and>
   census_geocode city_only [''1 Main St, Springfield, IL, 62701'']
       ''General Hospital, Springfield, IL, 62701''
     = Inr (absent, [''1 Main St, Springfield, IL, 62701'',
                     ''General Hospital, Springfield, IL, 62701'']) \<and>
   census_geocode city_only [''1 Main St, Springfield, IL, 62701'',
                             ''General Hospital, Springfield, IL, 62701'']
       ''Springfield, IL, 62701''
     = Inr ((VNum (79 / 2), VNum (- (179 / 2)), VStr ''L''),
            [''1 Main St, Springfield, IL, 62701'',
             ''General Hospital, Springfield, IL, 62701'', ''Springfield, IL, 62701'']) \<and>
   dict_get_default (rows (after_springfield [annex]) ! 0) ''Geo_Source'' (VStr [])
     = VStr ''census_city'' \<and>
   unmatched_rows (after_springfield [annex]) = [] \<and>
   unmatched_rows after_annex = []"
proof -
  have split: "index_range default_args [springfield, x] = [] @ 0 # [1]" for x
    by (simp add: sample_range)
  have before: "process_rows B net a out_fields [] (initial [springfield, x])
                  = Inr (initial [springfield, x])" for B net a x
    by simp
  have idx: "py_index (rows (initial [springfield, x])) 0 = Inr 0" for x
    by (simp add: py_index_def)
  have known: "dict_get springfield ''Latitude'' = VNone"
    by (simp add: springfield_def hospital_row_def col_defs dict_get_def)
  have tiers: "\<not> matched absent" "matched (VNum (79 / 2), VNum (- (179 / 2)), VStr ''L'')"
    by (simp_all add: matched_def absent_def)
  have new: "cache (initial [springfield, oak]) ''1 Main St, Springfield, IL, 62701'' = None"
    by simp
  have n1: "census_geocode nowhere [] ''1 Main St, Springfield, IL, 62701''
     = Inr (absent, [''1 Main St, Springfield, IL, 62701''])"
    and n2: "census_geocode nowhere [''1 Main St, Springfield, IL, 62701'']
       ''General Hospital, Springfield, IL, 62701''
     = Inr (absent, [''1 Main St, Springfield, IL, 62701'',
                     ''General Hospital, Springfield, IL, 62701''])"
    and n3: "census_geocode nowhere [''1 Main St, Springfield, IL, 62701'',
                           ''General Hospital, Springfield, IL, 62701'']
       ''Springfield, IL, 62701''
     = Inr (absent, [''1 Main St, Springfield, IL, 62701'',
                     ''General Hospital, Springfield, IL, 62701'', ''Springfield, IL, 62701''])"
    by (simp_all add: nowhere_lookups)
  have c1: "census_geocode city_only [] ''1 Main St, Springfield, IL, 62701''
     = Inr (absent, [''1 Main St, Springfield, IL, 62701''])"
    and c2: "census_geocode city_only [''1 Main St, Springfield, IL, 62701'']
       ''General Hospital, Springfield, IL, 62701''
     = Inr (absent, [''1 Main St, Springfield, IL, 62701'',
                     ''General Hospital, Springfield, IL, 62701''])"
    and c3: "census_geocode city_only [''1 Main St, Springfield, IL, 62701'',
                             ''General Hospital, Springfield, IL, 62701'']
       ''Springfield, IL, 62701''
     = Inr ((VNum (79 / 2), VNum (- (179 / 2)), VStr ''L''),
            [''1 Main St, Springfield, IL, 62701'',
             ''General Hospital, Springfield, IL, 62701'', ''Springfield, IL, 62701''])"
    by (simp_all add: city_only_lookups)
  have out: "outfile (after_nowhere [oak])
     = [[VStr ''General Hospital'', VStr ''1 Main St'', VStr ''Springfield'', VStr ''IL'',
         VStr ''62701'', VNone, VNone, VStr ''census'', VNone]]"
    by (simp add: after_nowhere_def)
  note failed = unmatched_table_row [OF main_nowhere split before idx springfield_nowhere,
      where k = "''Unmatched_City_Address''" and g_p = absent and g_h = absent and g_c = absent
        and sent_p = "[]" and sent_h = "[]" and sent_c = "[]", unfolded Let_def]
  note all_fail = failed [THEN conjunct2, THEN conjunct2, THEN conjunct2, THEN conjunct2,
      THEN conjunct2, THEN conjunct2, THEN conjunct2, THEN conjunct2, THEN conjunct2]
  from all_fail
  have f: "unmatched_rows (after_nowhere [oak])
     = [unmatched_copy decimal_builtins (rows (after_nowhere [oak]) ! 0)
          ''1 Main St, Springfield, IL, 62701'']"
    and g: "unmatched_copy decimal_builtins (rows (after_nowhere [oak]) ! 0)
       ''1 Main St, Springfield, IL, 62701'' \<in> set (unmatched_rows after_oak)"
    by (simp_all add: springfield_addresses known nowhere_lookups)
  note at_city = unmatched_table_row [OF main_city_only split before idx springfield_city_only,
      where k = "''Unmatched_City_Address''" and g_p = absent and g_h = absent
        and g_c = "(VNum (79 / 2), VNum (- (179 / 2)), VStr ''L'')"
        and sent_p = "[''1 Main St, Springfield, IL, 62701'']"
        and sent_h = "[''1 Main St, Springfield, IL, 62701'',
                      ''General Hospital, Springfield, IL, 62701'']"
        and sent_c = "[''1 Main St, Springfield, IL, 62701'',
                      ''General Hospital, Springfield, IL, 62701'', ''Springfield, IL, 62701'']",
      unfolded Let_def]
  note city_tier = at_city [THEN conjunct2, THEN conjunct2, THEN conjunct2, THEN conjunct2,
      THEN conjunct2, THEN conjunct2, THEN conjunct2, THEN conjunct2, THEN conjunct1]
  from city_tier
  have s: "dict_get_default (rows (after_springfield [annex]) ! 0) ''Geo_Source'' (VStr [])
     = VStr ''census_city''"
    and u: "unmatched_rows (after_springfield [annex]) = []"
    by (simp_all add: springfield_addresses known city_only_lookups tiers)
  have e: "unmatched_rows after_annex = []"
    by simp
  show ?thesis
    by (intro conjI main_nowhere split before idx springfield_nowhere new n1 n2 n3 out f g
        oak_table_lines main_city_only springfield_city_only c1 c2 c3 s u e)
qed

end
